theory Spec2Isabelle
  imports Main "HOL-Library.Sublist" "HOL-Library.Word"
begin

section \<open>Errors and documents\<close>

text \<open>
  Go errors are values.  The constructors are the sentinel errors that the modelled functions
  return or test for; \<open>CouchError code reason\<close> is a \<open>*couchdb.Error\<close> with its HTTP status
  code and reason, and \<open>OtherError\<close> stands for any other error of a collaborator.
\<close>

datatype error =
    ErrInvalidHash
  | ErrContentLengthMismatch
  | ErrFileTooBig
  | ErrParentInTrash
  | ErrForbiddenDocMove
  | ErrNonAbsolutePath
  | ErrSafety
  | ErrInvalidSharing
  | ErrInvalidURL
  | ErrInternalServerError
  | ErrMissingFileMetadata
  | ErrNotFoundTrigger
  | os_ErrNotExist
  | os_ErrExist
  | io_ErrClosedPipe
  | CouchError nat string
  | OtherError string

text \<open>\<open>couchdb.IsCouchError\<close>: the type test for a \<open>*couchdb.Error\<close>.\<close>

fun IsCouchError :: "error \<Rightarrow> bool" where
  "IsCouchError (CouchError code reason) = True"
| "IsCouchError e = False"

text \<open>
  Modelled from the spec: \<open>couchdb.IsConflictError\<close>, \<open>couchdb.IsNotFoundError\<close> and
  \<open>couchdb.IsDeletedError\<close> (pkg/couchdb/errors.go) are not under src/.  The spec and the comment
  in \<open>RevokeByNotification\<close> call the conflict a version conflict, "409 from CouchDB"; a missing
  document is the 404 answer, and a deleted one the 404 answer whose reason is "deleted".
\<close>

fun IsConflictError :: "error \<Rightarrow> bool" where
  "IsConflictError (CouchError code reason) = (code = 409)"
| "IsConflictError e = False"

fun IsNotFoundError :: "error \<Rightarrow> bool" where
  "IsNotFoundError (CouchError code reason) = (code = 404)"
| "IsNotFoundError e = False"

fun IsDeletedError :: "error \<Rightarrow> bool" where
  "IsDeletedError (CouchError code reason) = (code = 404 \<and> reason = ''deleted'')"
| "IsDeletedError e = False"

type_synonym byte = "8 word"

text \<open>A Go \<open>[]byte\<close>: \<open>None\<close> is the nil slice.\<close>

type_synonym bytes = "byte list option"

definition len_bytes :: "bytes \<Rightarrow> nat" where
  "len_bytes b = (case b of None \<Rightarrow> 0 | Some xs \<Rightarrow> length xs)"

definition bytes_Equal :: "bytes \<Rightarrow> bytes \<Rightarrow> bool" where
  "bytes_Equal a b = ((case a of None \<Rightarrow> [] | Some xs \<Rightarrow> xs) = (case b of None \<Rightarrow> [] | Some ys \<Rightarrow> ys))"

record DocReference =
  ref_ID :: string
  ref_Type :: string

text \<open>
  \<open>vfs.FileDoc\<close> with the fields that the modelled functions read or write.  Times are
  opaque numbers, the metadata an association list.
\<close>

record FileDoc =
  DocID :: string
  DocRev :: string
  DocName :: string
  DirID :: string
  CreatedAt :: nat
  ByteSize :: int
  MD5Sum :: bytes
  Mime :: string
  Class :: string
  Executable :: bool
  Trashed :: bool
  Tags :: "string list"
  Metadata :: "(string \<times> string) list"
  ReferencedBy :: "DocReference list"
  InternalID :: string
  Fullpath :: string

text \<open>
  Modelled from the spec: \<open>FileDoc.ResetFullpath\<close> (model/vfs/file.go) is not under src/.  The
  spec describes the full path of a file as a cached, denormalized value that \<open>FilePath\<close> may
  recompute from the indexer; resetting it empties the cache and touches no other field.
\<close>

definition ResetFullpath :: "FileDoc \<Rightarrow> FileDoc" where
  "ResetFullpath d = d\<lparr>Fullpath := []\<rparr>"

record Version =
  v_DocID :: string
  v_MD5Sum :: bytes
  v_ByteSize :: int

section \<open>Object naming in the Swift back-end (model/vfs/vfsswift/impl\_v3.go)\<close>

definition swiftV3ContainerPrefix :: string where
  "swiftV3ContainerPrefix = ''cozy-v3-''"

text \<open>The \<open>container\<close> field that \<open>NewV3\<close> computes from the database prefix of the instance.\<close>

definition NewV3_container :: "string \<Rightarrow> string" where
  "NewV3_container dbPrefix = swiftV3ContainerPrefix @ dbPrefix"

text \<open>The Go slice \<open>s[i:j]\<close> of a string, used only where the bounds are in range.\<close>

definition slice :: "string \<Rightarrow> nat \<Rightarrow> nat \<Rightarrow> string" where
  "slice s i j = take (j - i) (drop i s)"

definition MakeObjectNameV3 :: "string \<Rightarrow> string \<Rightarrow> string" where
  "MakeObjectNameV3 docID internalID =
     (if length docID \<noteq> 32 \<or> length internalID \<noteq> 16
      then docID @ ''/'' @ internalID
      else slice docID 0 22 @ ''/'' @ slice docID 22 27 @ ''/'' @ drop 27 docID @ ''/'' @ internalID)"

section \<open>Lexical paths (Go's \<open>path\<close> and \<open>strings\<close> packages)\<close>

fun split_on :: "char \<Rightarrow> string \<Rightarrow> string list" where
  "split_on c [] = [[]]"
| "split_on c (x # xs) =
     (if x = c then [] # split_on c xs
      else (case split_on c xs of [] \<Rightarrow> [[x]] | w # ws \<Rightarrow> (x # w) # ws))"

fun join_slash :: "string list \<Rightarrow> string" where
  "join_slash [] = []"
| "join_slash [x] = x"
| "join_slash (x # y # ys) = x @ ''/'' @ join_slash (y # ys)"

text \<open>
  The elements of a cleaned path, as \<open>path.Clean\<close> documents them: empty elements and \<open>.\<close> are
  dropped, an inner \<open>..\<close> removes the element before it, a \<open>..\<close> at the start of a rooted
  path is dropped and one at the start of a relative path is kept.  \<open>acc\<close> is the output so
  far, last element first.
\<close>

fun clean_elems :: "bool \<Rightarrow> string list \<Rightarrow> string list \<Rightarrow> string list" where
  "clean_elems rooted acc [] = rev acc"
| "clean_elems rooted acc (e # es) =
     (if e = [] \<or> e = ''.'' then clean_elems rooted acc es
      else if e = ''..'' then
        (case acc of
           [] \<Rightarrow> if rooted then clean_elems rooted [] es else clean_elems rooted [''..''] es
         | a # as \<Rightarrow> if a = ''..'' then clean_elems rooted (''..'' # acc) es
                    else clean_elems rooted as es)
      else clean_elems rooted (e # acc) es)"

definition path_Clean :: "string \<Rightarrow> string" where
  "path_Clean p =
     (if p = [] then ''.''
      else let rooted = (hd p = CHR ''/'');
               out = (if rooted then ''/'' else []) @ join_slash (clean_elems rooted [] (split_on CHR ''/'' p))
           in if out = [] then ''.'' else out)"

definition path_IsAbs :: "string \<Rightarrow> bool" where
  "path_IsAbs p = (p \<noteq> [] \<and> hd p = CHR ''/'')"

definition strings_HasPrefix :: "string \<Rightarrow> string \<Rightarrow> bool" where
  "strings_HasPrefix s pre = prefix pre s"

text \<open>\<open>path.Join\<close>: the non-empty elements joined by slashes and cleaned; empty when there are none.\<close>

definition path_Join :: "string list \<Rightarrow> string" where
  "path_Join elems =
     (let es = filter (\<lambda>e. e \<noteq> []) elems in if es = [] then [] else path_Clean (join_slash es))"

text \<open>\<open>filepath.Dir\<close> on a slash-separated path: everything up to the last slash, cleaned.\<close>

definition filepath_Dir :: "string \<Rightarrow> string" where
  "filepath_Dir p = path_Clean (rev (dropWhile (\<lambda>c. c \<noteq> CHR ''/'') (rev p)))"

section \<open>The local-filesystem back-end (package vfsafero)\<close>

text \<open>
  The back-end works on three collaborators that are interfaces in the source: the
  \<open>afero.Fs\<close> file system with the temporary file \<open>f.f\<close>, the \<open>vfs.Indexer\<close> and the lock
  \<open>afs.mu\<close>.  Every call to one of them is an event; the trace of events, oldest first, is the
  state that the model passes along, and a collaborator answers a call as a function of the
  trace at the time of the call.
\<close>

datatype VersionAction = KeepCandidateVersion | CleanCandidateVersion | OtherVersionAction

datatype afero_event =
    MetaWrite "byte list"
  | MetaAbort error
  | MetaClose
  | FWrite "byte list"
  | FClose
  | FsStat string
  | FsRename string string
  | FsRemove string
  | FsMkdirAll string
  | MuLock
  | MuUnlock
  | IdxDirChildExists string string
  | IdxFilePath FileDoc
  | IdxUpdateFileDoc FileDoc FileDoc
  | IdxCreateFileDoc FileDoc
  | IdxCreateNamedFileDoc FileDoc
  | IdxDeleteFileDoc FileDoc
  | IdxCreateVersion Version
  | IdxDeleteVersion Version
  | FindVersionsToClean string Version
  | PushDiskQuotaAlert bool

type_synonym afero_trace = "afero_event list"

text \<open>
  \<open>aferoVFS\<close>: the answers of the collaborators, and the parts of package \<open>vfs\<close> that are not
  under src/ (\<open>TrashDirName\<close>, \<open>VersionsDirName\<close>, \<open>NewVersion\<close>, \<open>MergeMetadata\<close> on the metadata
  of the document, the result of the metadata extractor) together with the MD5 function.
  An indexer call that writes a document answers with the document as the indexer left it
  (it sets the identifier and the revision through the pointer).
\<close>

record aferoVFS =
  a_MetaWrite :: "afero_trace \<Rightarrow> byte list \<Rightarrow> error option"
  a_MetaClose :: "afero_trace \<Rightarrow> error option"
  a_MetaResult :: "afero_trace \<Rightarrow> (string \<times> string) list"
  a_FWrite :: "afero_trace \<Rightarrow> byte list \<Rightarrow> int \<times> error option"
  a_FClose :: "afero_trace \<Rightarrow> error option"
  a_Stat :: "afero_trace \<Rightarrow> string \<Rightarrow> error option"
  a_Rename :: "afero_trace \<Rightarrow> string \<Rightarrow> string \<Rightarrow> error option"
  a_Remove :: "afero_trace \<Rightarrow> string \<Rightarrow> error option"
  a_Lock :: "afero_trace \<Rightarrow> error option"
  a_DirChildExists :: "afero_trace \<Rightarrow> string \<Rightarrow> string \<Rightarrow> error + bool"
  a_FilePath :: "afero_trace \<Rightarrow> FileDoc \<Rightarrow> error + string"
  a_UpdateFileDoc :: "afero_trace \<Rightarrow> FileDoc \<Rightarrow> FileDoc \<Rightarrow> error option \<times> FileDoc"
  a_CreateFileDoc :: "afero_trace \<Rightarrow> FileDoc \<Rightarrow> error option \<times> FileDoc"
  a_CreateNamedFileDoc :: "afero_trace \<Rightarrow> FileDoc \<Rightarrow> error option \<times> FileDoc"
  a_CreateVersion :: "afero_trace \<Rightarrow> Version \<Rightarrow> error option"
  a_DeleteVersion :: "afero_trace \<Rightarrow> Version \<Rightarrow> error option"
  a_FindVersionsToClean :: "afero_trace \<Rightarrow> string \<Rightarrow> Version \<Rightarrow> VersionAction \<times> Version list"
  a_md5 :: "byte list \<Rightarrow> byte list"
  a_MergeMetadata :: "(string \<times> string) list \<Rightarrow> (string \<times> string) list \<Rightarrow> (string \<times> string) list"
  a_NewVersion :: "FileDoc \<Rightarrow> Version"
  a_TrashDirName :: string
  a_VersionsDirName :: string

subsection \<open>safeRenameDir\<close>

definition safeRenameDir :: "aferoVFS \<Rightarrow> string \<Rightarrow> string \<Rightarrow> afero_trace \<Rightarrow> error option \<times> afero_trace" where
  "safeRenameDir afs oldpath0 newpath0 tr =
     (let newpath = path_Clean newpath0;
          oldpath = path_Clean oldpath0
      in if \<not> path_IsAbs newpath \<or> \<not> path_IsAbs oldpath then (Some ErrNonAbsolutePath, tr)
         else if strings_HasPrefix newpath (oldpath @ ''/'') then (Some ErrForbiddenDocMove, tr)
         else (case a_Stat afs tr newpath of
                 None \<Rightarrow> (Some os_ErrExist, tr @ [FsStat newpath])
               | Some err \<Rightarrow>
                   if err \<noteq> os_ErrNotExist then (Some err, tr @ [FsStat newpath])
                   else (a_Rename afs (tr @ [FsStat newpath]) oldpath newpath,
                         tr @ [FsStat newpath, FsRename oldpath newpath])))"

subsection \<open>aferoFileCreation: Write and Close\<close>

text \<open>
  The handle of a file that is being created.  \<open>fc_hash\<close> holds the bytes fed to the MD5
  hash so far, \<open>fc_meta\<close> tells whether the metadata extractor is still there (\<open>f.meta != nil\<close>).
  The sizes are \<open>int64\<close> in the source; they count bytes of one file and are modelled as
  integers.
\<close>

record aferoFileCreation =
  fc_newdoc :: FileDoc
  fc_olddoc :: "FileDoc option"
  fc_tmppath :: string
  fc_w :: int
  fc_size :: int
  fc_maxsize :: int
  fc_capsize :: int
  fc_hash :: "byte list"
  fc_meta :: bool
  fc_err :: "error option"

definition Write_meta :: "aferoVFS \<Rightarrow> aferoFileCreation \<Rightarrow> byte list \<Rightarrow> afero_trace \<Rightarrow> aferoFileCreation \<times> afero_trace" where
  "Write_meta afs f p tr =
     (if fc_meta f then
        (case a_MetaWrite afs tr p of
           None \<Rightarrow> (f, tr @ [MetaWrite p])
         | Some err \<Rightarrow>
             if err \<noteq> io_ErrClosedPipe then (f\<lparr>fc_meta := False\<rparr>, tr @ [MetaWrite p, MetaAbort err])
             else (f, tr @ [MetaWrite p]))
      else (f, tr))"

definition Write :: "aferoVFS \<Rightarrow> aferoFileCreation \<Rightarrow> byte list \<Rightarrow> afero_trace
    \<Rightarrow> (int \<times> error option) \<times> aferoFileCreation \<times> afero_trace" where
  "Write afs f0 p tr0 =
     (case Write_meta afs f0 p tr0 of (f, tr) \<Rightarrow>
        (case a_FWrite afs tr p of
           (n, Some err) \<Rightarrow> ((n, Some err), f\<lparr>fc_err := Some err\<rparr>, tr @ [FWrite p])
         | (n, None) \<Rightarrow>
             let f1 = f\<lparr>fc_w := fc_w f + n\<rparr> in
             if fc_maxsize f1 \<ge> 0 \<and> fc_w f1 > fc_maxsize f1
             then ((n, Some ErrFileTooBig), f1\<lparr>fc_err := Some ErrFileTooBig\<rparr>, tr @ [FWrite p])
             else if fc_size f1 \<ge> 0 \<and> fc_w f1 > fc_size f1
             then ((n, Some ErrContentLengthMismatch), f1\<lparr>fc_err := Some ErrContentLengthMismatch\<rparr>, tr @ [FWrite p])
             else ((n, None), f1\<lparr>fc_hash := fc_hash f1 @ p\<rparr>, tr @ [FWrite p])))"

text \<open>
  A call either returns (with an error or with nil) or panics: \<open>pathForVersions\<close> slices the
  file identifier at 4 and panics on a shorter one.
\<close>

datatype 'a go = Returns 'a | Panics

text \<open>\<open>strings.SplitN(s, "/", 2)\<close>: the part before the first slash and, if there is one, the rest.\<close>

definition SplitN2 :: "string \<Rightarrow> string \<times> string option" where
  "SplitN2 s =
     (takeWhile (\<lambda>c. c \<noteq> CHR ''/'') s,
      if CHR ''/'' \<in> set s then Some (tl (dropWhile (\<lambda>c. c \<noteq> CHR ''/'') s)) else None)"

definition pathForVersions :: "aferoVFS \<Rightarrow> string \<Rightarrow> string option" where
  "pathForVersions afs fileID =
     (if length fileID < 4 then None
      else Some (path_Join [a_VersionsDirName afs, take 4 fileID, drop 4 fileID]))"

definition pathForVersion :: "aferoVFS \<Rightarrow> Version \<Rightarrow> string option" where
  "pathForVersion afs v =
     (case SplitN2 (v_DocID v) of (fileID, rest) \<Rightarrow>
        let versionID = (case rest of None \<Rightarrow> fileID | Some r \<Rightarrow> r)
        in (case pathForVersions afs fileID of
              None \<Rightarrow> None
            | Some dir \<Rightarrow> Some (path_Join [dir, versionID])))"

definition cleanOldVersion :: "aferoVFS \<Rightarrow> Version \<Rightarrow> afero_trace \<Rightarrow> error option go \<times> afero_trace" where
  "cleanOldVersion afs version tr =
     (case a_DeleteVersion afs tr version of
        Some err \<Rightarrow> (Returns (Some err), tr @ [IdxDeleteVersion version])
      | None \<Rightarrow>
          (case pathForVersion afs version of
             None \<Rightarrow> (Panics, tr @ [IdxDeleteVersion version])
           | Some vPath \<Rightarrow>
               (Returns (a_Remove afs (tr @ [IdxDeleteVersion version]) vPath),
                tr @ [IdxDeleteVersion version, FsRemove vPath])))"

text \<open>The loop \<open>for _, old := range toClean\<close>: the errors are dropped, a panic ends it.\<close>

fun cleanOldVersions :: "aferoVFS \<Rightarrow> Version list \<Rightarrow> afero_trace \<Rightarrow> bool \<times> afero_trace" where
  "cleanOldVersions afs [] tr = (True, tr)"
| "cleanOldVersions afs (old # rest) tr =
     (case cleanOldVersion afs old tr of
        (Panics, tr1) \<Rightarrow> (False, tr1)
      | (Returns r, tr1) \<Rightarrow> cleanOldVersions afs rest tr1)"

text \<open>The second look at the name of a new file, under the lock.\<close>

definition Close_exists :: "aferoVFS \<Rightarrow> FileDoc option \<Rightarrow> FileDoc \<Rightarrow> afero_trace \<Rightarrow> error option \<times> afero_trace" where
  "Close_exists afs olddoc newdoc tr =
     (if olddoc = None then
        (case a_DirChildExists afs tr (DirID newdoc) (DocName newdoc) of
           Inl err \<Rightarrow> (Some err, tr @ [IdxDirChildExists (DirID newdoc) (DocName newdoc)])
         | Inr exists \<Rightarrow>
             (if exists then Some os_ErrExist else None,
              tr @ [IdxDirChildExists (DirID newdoc) (DocName newdoc)]))
      else (None, tr))"

text \<open>The index update: the candidate version, the error, the document as the indexer left it.\<close>

definition Close_index :: "aferoVFS \<Rightarrow> FileDoc option \<Rightarrow> FileDoc \<Rightarrow> afero_trace
    \<Rightarrow> Version option \<times> error option \<times> FileDoc \<times> afero_trace" where
  "Close_index afs olddoc newdoc tr =
     (case olddoc of
        Some old \<Rightarrow>
          (case a_UpdateFileDoc afs tr old newdoc of (err, nd) \<Rightarrow>
             (Some (a_NewVersion afs old), err, nd, tr @ [IdxUpdateFileDoc old newdoc]))
      | None \<Rightarrow>
          if DocID newdoc = [] then
            (case a_CreateFileDoc afs tr newdoc of (err, nd) \<Rightarrow>
               (None, err, nd, tr @ [IdxCreateFileDoc newdoc]))
          else
            (case a_CreateNamedFileDoc afs tr newdoc of (err, nd) \<Rightarrow>
               (None, err, nd, tr @ [IdxCreateNamedFileDoc newdoc])))"

text \<open>
  Moving the old content to its version path; when the move fails the version is given up
  (\<open>v = nil\<close>).  \<open>None\<close> is the panic of \<open>pathForVersion\<close>.
\<close>

definition Close_stash :: "aferoVFS \<Rightarrow> Version option \<Rightarrow> string \<Rightarrow> afero_trace
    \<Rightarrow> (Version option \<times> afero_trace) option" where
  "Close_stash afs v newpath tr =
     (case v of
        None \<Rightarrow> Some (None, tr)
      | Some ver \<Rightarrow>
          (case pathForVersion afs ver of
             None \<Rightarrow> None
           | Some vPath \<Rightarrow>
               (case a_Rename afs (tr @ [FsMkdirAll (filepath_Dir vPath)]) newpath vPath of
                  Some err \<Rightarrow> Some (None, tr @ [FsMkdirAll (filepath_Dir vPath), FsRename newpath vPath])
                | None \<Rightarrow> Some (Some ver, tr @ [FsMkdirAll (filepath_Dir vPath), FsRename newpath vPath]))))"

text \<open>After the temporary file is in place: keep or clean the candidate version, clean the old ones.\<close>

definition Close_versions :: "aferoVFS \<Rightarrow> aferoFileCreation \<Rightarrow> FileDoc \<Rightarrow> Version option \<Rightarrow> afero_trace
    \<Rightarrow> bool \<times> afero_trace" where
  "Close_versions afs f newdoc v tr =
     (case v of
        None \<Rightarrow> (True, tr)
      | Some ver \<Rightarrow>
          (case fc_olddoc f of
             None \<Rightarrow> (False, tr)
           | Some olddoc \<Rightarrow>
               (case a_FindVersionsToClean afs tr (DocID newdoc) ver of (actionV0, toClean) \<Rightarrow>
                  let tr1 = tr @ [FindVersionsToClean (DocID newdoc) ver];
                      actionV1 = (if bytes_Equal (MD5Sum newdoc) (MD5Sum olddoc) then CleanCandidateVersion else actionV0);
                      errv = (if actionV1 = KeepCandidateVersion then a_CreateVersion afs tr1 ver else None);
                      tr2 = (if actionV1 = KeepCandidateVersion then tr1 @ [IdxCreateVersion ver] else tr1);
                      actionV2 = (if actionV1 = KeepCandidateVersion \<and> errv \<noteq> None then CleanCandidateVersion else actionV1)
                  in if actionV2 = CleanCandidateVersion then
                       (case pathForVersion afs ver of
                          None \<Rightarrow> (False, tr2)
                        | Some vPath \<Rightarrow> cleanOldVersions afs toClean (tr2 @ [FsRemove vPath]))
                     else cleanOldVersions afs toClean tr2)))"

definition Close_move :: "aferoVFS \<Rightarrow> aferoFileCreation \<Rightarrow> FileDoc \<Rightarrow> string \<Rightarrow> Version option \<Rightarrow> afero_trace
    \<Rightarrow> error option go \<times> afero_trace" where
  "Close_move afs f newdoc newpath v0 tr0 =
     (case Close_stash afs v0 newpath tr0 of
        None \<Rightarrow> (Panics, tr0)
      | Some (v, tr) \<Rightarrow>
          (case a_Rename afs tr (fc_tmppath f) newpath of
             Some err \<Rightarrow>
               (case v of
                  None \<Rightarrow> (Returns (Some err), tr @ [FsRename (fc_tmppath f) newpath])
                | Some ver \<Rightarrow>
                    (case pathForVersion afs ver of
                       None \<Rightarrow> (Panics, tr @ [FsRename (fc_tmppath f) newpath])
                     | Some vPath \<Rightarrow>
                         (Returns (Some err), tr @ [FsRename (fc_tmppath f) newpath, FsRename vPath newpath])))
           | None \<Rightarrow>
               (case Close_versions afs f newdoc v (tr @ [FsRename (fc_tmppath f) newpath]) of
                  (False, tr1) \<Rightarrow> (Panics, tr1)
                | (True, tr1) \<Rightarrow>
                    if fc_capsize f > 0 \<and> fc_size f \<ge> fc_capsize f
                    then (Returns None, tr1 @ [PushDiskQuotaAlert True])
                    else (Returns None, tr1))))"

text \<open>The part of \<open>Close\<close> that runs with the lock held.\<close>

definition Close_locked :: "aferoVFS \<Rightarrow> aferoFileCreation \<Rightarrow> FileDoc \<Rightarrow> afero_trace
    \<Rightarrow> error option go \<times> FileDoc \<times> afero_trace" where
  "Close_locked afs f newdoc tr =
     (case Close_exists afs (fc_olddoc f) newdoc tr of
        (Some err, tr1) \<Rightarrow> (Returns (Some err), newdoc, tr1)
      | (None, tr1) \<Rightarrow>
          (case a_FilePath afs tr1 newdoc of
             Inl err \<Rightarrow> (Returns (Some err), newdoc, tr1 @ [IdxFilePath newdoc])
           | Inr newpath \<Rightarrow>
               if strings_HasPrefix newpath (a_TrashDirName afs @ ''/'')
               then (Returns (Some ErrParentInTrash), newdoc, tr1 @ [IdxFilePath newdoc])
               else
                 (case Close_index afs (fc_olddoc f) newdoc (tr1 @ [IdxFilePath newdoc]) of
                    (v, Some err, nd, tr2) \<Rightarrow> (Returns (Some err), nd, tr2)
                  | (v, None, nd, tr2) \<Rightarrow>
                      (case Close_move afs f nd newpath v tr2 of (r, tr3) \<Rightarrow> (r, nd, tr3)))))"

text \<open>From the test of the write error to the return, without the deferred clean-up.\<close>

definition Close_checked :: "aferoVFS \<Rightarrow> aferoFileCreation \<Rightarrow> FileDoc \<Rightarrow> afero_trace
    \<Rightarrow> error option go \<times> FileDoc \<times> afero_trace" where
  "Close_checked afs f newdoc0 tr =
     (case fc_err f of
        Some err \<Rightarrow> (Returns (Some err), newdoc0, tr)
      | None \<Rightarrow>
          let md5sum = Some (a_md5 afs (fc_hash f));
              newdoc1 = (if MD5Sum newdoc0 = None then newdoc0\<lparr>MD5Sum := md5sum\<rparr> else newdoc0)
          in if \<not> bytes_Equal (MD5Sum newdoc1) md5sum then (Returns (Some ErrInvalidHash), newdoc1, tr)
             else
               let newdoc2 = (if fc_size f < 0 then newdoc1\<lparr>ByteSize := fc_w f\<rparr> else newdoc1)
               in if ByteSize newdoc2 \<noteq> fc_w f then (Returns (Some ErrContentLengthMismatch), newdoc2, tr)
                  else
                    (case a_Lock afs tr of
                       Some lockerr \<Rightarrow> (Returns (Some lockerr), newdoc2, tr @ [MuLock])
                     | None \<Rightarrow>
                         (case Close_locked afs f newdoc2 (tr @ [MuLock]) of
                            (r, nd, tr1) \<Rightarrow> (r, nd, tr1 @ [MuUnlock]))))"

text \<open>
  \<open>Close\<close>: the file is closed, the metadata merged, the checks and the locked part run, and
  the deferred function cleans up when the error that \<open>Close\<close> returns is not nil.  At each
  panic the named result \<open>err\<close> is nil, so the deferred function does nothing then.
  The result carries the new document as \<open>Close\<close> leaves it.
\<close>

definition Close :: "aferoVFS \<Rightarrow> aferoFileCreation \<Rightarrow> afero_trace \<Rightarrow> error option go \<times> FileDoc \<times> afero_trace" where
  "Close afs f tr =
     (let cerr = a_FClose afs tr;
          tr1 = (case cerr of
                   None \<Rightarrow> tr @ [FClose]
                 | Some err \<Rightarrow> if fc_meta f then tr @ [FClose, MetaAbort err] else tr @ [FClose]);
          ferr = (case cerr of
                    None \<Rightarrow> fc_err f
                  | Some err \<Rightarrow> if fc_err f = None then Some err else fc_err f);
          merged = (if fc_meta f \<and> a_MetaClose afs tr1 = None
                    then (fc_newdoc f)\<lparr>Metadata := a_MergeMetadata afs (Metadata (fc_newdoc f)) (a_MetaResult afs (tr1 @ [MetaClose]))\<rparr>
                    else fc_newdoc f);
          tr2 = (if fc_meta f then tr1 @ [MetaClose] else tr1)
      in case Close_checked afs (f\<lparr>fc_err := ferr\<rparr>) merged tr2 of
           (Returns (Some err), nd, tr3) \<Rightarrow>
             (Returns (Some err), nd,
              if fc_olddoc f = None \<and> \<not> IsCouchError err
              then tr3 @ [FsRemove (fc_tmppath f), IdxDeleteFileDoc nd]
              else tr3 @ [FsRemove (fc_tmppath f)])
         | (r, nd, tr3) \<Rightarrow> (r, nd, tr3))"

subsection \<open>A concrete back-end and concrete handles\<close>

text \<open>
  A back-end on which every call succeeds: nothing exists at any path, no name is taken, the
  indexer leaves the documents as they are, the path of a file is its name under the root.
  The hash is a stand-in that returns the bytes it was fed.
\<close>

definition quiet_afs :: aferoVFS where
  "quiet_afs = \<lparr>
     a_MetaWrite = (\<lambda>tr p. None),
     a_MetaClose = (\<lambda>tr. None),
     a_MetaResult = (\<lambda>tr. []),
     a_FWrite = (\<lambda>tr p. (int (length p), None)),
     a_FClose = (\<lambda>tr. None),
     a_Stat = (\<lambda>tr p. Some os_ErrNotExist),
     a_Rename = (\<lambda>tr p q. None),
     a_Remove = (\<lambda>tr p. None),
     a_Lock = (\<lambda>tr. None),
     a_DirChildExists = (\<lambda>tr d n. Inr False),
     a_FilePath = (\<lambda>tr d. Inr (''/'' @ DocName d)),
     a_UpdateFileDoc = (\<lambda>tr old new. (None, new)),
     a_CreateFileDoc = (\<lambda>tr new. (None, new)),
     a_CreateNamedFileDoc = (\<lambda>tr new. (None, new)),
     a_CreateVersion = (\<lambda>tr v. None),
     a_DeleteVersion = (\<lambda>tr v. None),
     a_FindVersionsToClean = (\<lambda>tr i v. (KeepCandidateVersion, [])),
     a_md5 = (\<lambda>bs. bs),
     a_MergeMetadata = (\<lambda>old new. old @ new),
     a_NewVersion = (\<lambda>d. \<lparr>v_DocID = DocID d @ ''/'' @ InternalID d, v_MD5Sum = MD5Sum d, v_ByteSize = ByteSize d\<rparr>),
     a_TrashDirName = ''/.cozy_trash'',
     a_VersionsDirName = ''/.cozy_versions'' \<rparr>"

text \<open>The same back-end, except that CouchDB refuses the new document with a conflict.\<close>

definition conflict_afs :: aferoVFS where
  "conflict_afs = quiet_afs\<lparr>a_CreateNamedFileDoc := (\<lambda>tr new. (Some (CouchError 409 ''conflict''), new))\<rparr>"

definition note_doc :: FileDoc where
  "note_doc = \<lparr>DocID = ''f1'', DocRev = [], DocName = ''note.txt'', DirID = ''d1'', CreatedAt = 0,
     ByteSize = 2, MD5Sum = Some [1, 2], Mime = ''text/plain'', Class = ''text'', Executable = False,
     Trashed = False, Tags = [], Metadata = [], ReferencedBy = [], InternalID = [], Fullpath = []\<rparr>"

text \<open>The creation of a new file (no old document) after two bytes were written.\<close>

definition note_upload :: aferoFileCreation where
  "note_upload = \<lparr>fc_newdoc = note_doc, fc_olddoc = None, fc_tmppath = ''/note.tmp'', fc_w = 2,
     fc_size = 2, fc_maxsize = - 1, fc_capsize = 0, fc_hash = [1, 2], fc_meta = False, fc_err = None\<rparr>"

definition bad_hash_upload :: aferoFileCreation where
  "bad_hash_upload = note_upload\<lparr>fc_newdoc := note_doc\<lparr>MD5Sum := Some [7, 7]\<rparr>\<rparr>"

definition bad_size_upload :: aferoFileCreation where
  "bad_size_upload = note_upload\<lparr>fc_newdoc := note_doc\<lparr>ByteSize := 3\<rparr>, fc_size := 3\<rparr>"

section \<open>The sharing package: data\<close>

text \<open>
  Modelled from the spec: the doctype names of pkg/consts are not under src/.  The spec's
  peer-to-peer routes \<open>/sharings/{id}/{doctype}/...\<close> and the literal path in \<open>uploadFile\<close>
  give \<open>io.cozy.files\<close>; the sharing documents are of the doctype \<open>io.cozy.sharings\<close>.
\<close>

definition consts_Files :: string where
  "consts_Files = ''io.cozy.files''"

definition consts_Sharings :: string where
  "consts_Sharings = ''io.cozy.sharings''"

definition consts_Shared :: string where
  "consts_Shared = ''io.cozy.shared''"

definition consts_BitwardenOrganizations :: string where
  "consts_BitwardenOrganizations = ''com.bitwarden.organizations''"

datatype conflictStatus = NoConflict | LostConflict | WonConflict

record RevsStruct =
  Start :: int
  IDs :: "string list"

datatype RevsTree = RevsTree string "RevsTree list"

record SharedInfo =
  Rule :: int
  Binary :: bool
  Removed :: bool
  Dissociated :: bool

text \<open>A \<open>SharedRef\<close>; the Go map \<open>Infos\<close> is an association list read with \<open>map_of\<close>.\<close>

record SharedRef =
  sr_SID :: string
  sr_Revisions :: "RevsTree option"
  sr_Infos :: "(string \<times> SharedInfo) list"

record FileDocWithRevisions =
  fdr_Doc :: FileDoc
  fdr_Revisions :: RevsStruct

record DirDoc =
  dir_DocID :: string
  dir_DocName :: string
  dir_DirID :: string
  dir_Fullpath :: string

record Rule =
  rule_Title :: string
  rule_DocType :: string
  rule_Mime :: string
  rule_Values :: "string list"

text \<open>
  Modelled from the spec: the member status constants (model/sharing/member.go) are not
  under src/; the spec lists the statuses owner, mail-not-sent, pending, ready, revoked.
\<close>

datatype MemberStatus =
    MemberStatusOwner
  | MemberStatusMailNotSent
  | MemberStatusPendingInvitation
  | MemberStatusReady
  | MemberStatusRevoked

record Member =
  Status :: MemberStatus
  Instance :: string
  Email :: string

record Credentials =
  XorKey :: "byte list"
  AccessToken :: "string option"
  InboundClientID :: string

record Triggers =
  TrackID :: string
  TrackIDs :: "string list"
  ReplicateID :: string
  UploadID :: string

record Sharing =
  SID :: string
  SRev :: string
  Triggers :: Triggers
  Active :: bool
  Owner :: bool
  NbFiles :: int
  Initial :: bool
  ShortcutID :: string
  Rules :: "Rule list"
  Members :: "Member list"
  Credentials :: "Credentials list"

text \<open>\<open>&s.Rules[i]\<close>: \<open>None\<close> is the panic of an index out of range.\<close>

definition Rules_at :: "Sharing \<Rightarrow> int \<Rightarrow> Rule option" where
  "Rules_at s i = (if 0 \<le> i \<and> nat i < length (Rules s) then Some (Rules s ! nat i) else None)"

text \<open>
  The indexer that \<open>newSharingIndexer\<close> builds from the revisions of the incoming document
  and the \<open>SharedRef\<close> it points to, and the two file systems of the package: the one of
  the instance, \<open>inst.VFS()\<close>, and that one with a sharing indexer.
\<close>

record bulkRevs =
  Rev :: string
  Revisions :: RevsStruct

record sharingIndexer =
  ix_bulkRevs :: bulkRevs
  ix_shared :: "SharedRef option"

datatype fsys = VFS | UseSharingIndexer sharingIndexer

definition newSharingIndexer :: "bulkRevs \<Rightarrow> SharedRef option \<Rightarrow> sharingIndexer" where
  "newSharingIndexer revs ref = \<lparr>ix_bulkRevs = revs, ix_shared = ref\<rparr>"

text \<open>What a file is filled from: the body of the HTTP request, or the content of a local file.\<close>

datatype body = RequestBody string | Content FileDoc

text \<open>A JSON value, for the file document that the upload worker reads from the changes feed.\<close>

datatype json = JNull | JBool bool | JNumber int | JString string | JOther string

type_synonym jsonmap = "(string \<times> json) list"

record Options =
  opt_Method :: string
  opt_Scheme :: string
  opt_Domain :: string
  opt_Path :: string
  opt_Queries :: "(string \<times> string) list"
  opt_Headers :: "(string \<times> string) list"
  opt_Body :: "body option"

record Response =
  StatusCode :: int
  res_Body :: string

section \<open>The sharing package: collaborators\<close>

text \<open>
  Every call that leaves the modelled functions is an event: the lock, the VFS of the
  instance, the file handles, the key store, CouchDB, the sharing indexer, the peer, and the
  functions of the package that are not under src/.  As for the back-end above, the state is
  the trace of events, oldest first, and a collaborator answers as a function of the trace.
  Logging is left out.
\<close>

datatype event =
    Mu_Lock string
  | Mu_Unlock string
  | VFS_FileByID fsys string
  | VFS_DirByID fsys string
  | VFS_OpenFile fsys FileDoc
  | VFS_CreateFile fsys FileDoc "FileDoc option"
  | VFS_UpdateFileDoc fsys FileDoc FileDoc
  | VFS_DestroyFile fsys FileDoc
  | Doc_Path fsys FileDoc
  | File_Copy FileDoc body
  | File_Close FileDoc
  | Body_Close body
  | Store_Save FileDocWithRevisions
  | Store_Get string
  | Couch_Get string string
  | Couch_Put Sharing
  | Couch_RTEvent Sharing
  | Couch_ExecView string
  | Couch_UpdateDoc Sharing
  | Indexer_WillResolveConflict sharingIndexer string "string list"
  | Indexer_StashRevision sharingIndexer bool
  | Indexer_UnstashRevision sharingIndexer
  | Indexer_IncrementRevision sharingIndexer
  | Indexer_conflictName sharingIndexer string string bool
  | Sharing_recreateParent string
  | Sharing_GetSharingDir
  | Sharing_EnsureSharedWithMeDir
  | Sharing_resolveConflictSamePath string string
  | Sharing_DeleteOAuthClient Member Credentials
  | Sharing_ClearLastSequenceNumbers Member
  | Sharing_RemoveSharedRefs string
  | Sharing_RemoveSharingDir
  | Job_DeleteTrigger string
  | Bitwarden_Delete string
  | Realtime_EventDelete string
  | Realtime_EventUpdate string int
  | Request_Req Options
  | Sharing_RefreshToken Options
  | Res_Body_Close

type_synonym trace = "event list"

text \<open>
  The pure functions of the repository that the modelled functions call and that are not
  under src/ (revision arithmetic, conflict identifiers, rules, copies of fields).  They
  are parameters: no property of them is assumed except where a theorem says so.
  \<open>p_Find\<close> tells whether \<open>RevsTree.Find\<close> returns a subtree; \<open>p_findRuleForNewFile\<close>
  returns the rule with its index, \<open>None\<close> for the nil rule.
\<close>

record helpers =
  p_detectConflict :: "string \<Rightarrow> string list \<Rightarrow> conflictStatus"
  p_conflictID :: "string \<Rightarrow> string \<Rightarrow> string"
  p_revsStructToChain :: "RevsStruct \<Rightarrow> string list"
  p_revsChainToStruct :: "string list \<Rightarrow> RevsStruct"
  p_Find :: "RevsTree option \<Rightarrow> string \<Rightarrow> bool"
  p_copySafeFieldsToFile :: "FileDoc \<Rightarrow> FileDoc \<Rightarrow> FileDoc"
  p_buildReferencedBy :: "FileDoc \<Rightarrow> FileDoc option \<Rightarrow> Rule \<Rightarrow> DocReference list"
  p_findRuleForNewFile :: "Sharing \<Rightarrow> FileDoc \<Rightarrow> (Rule \<times> int) option"
  p_hasExplicitRuleForFile :: "Sharing \<Rightarrow> FileDoc \<Rightarrow> bool"
  p_NewFileDoc :: "string \<Rightarrow> string \<Rightarrow> int \<Rightarrow> bytes \<Rightarrow> string \<Rightarrow> string \<Rightarrow> nat \<Rightarrow> bool \<Rightarrow> bool \<Rightarrow> bool
                    \<Rightarrow> string list \<Rightarrow> error + FileDoc"
  p_newBadIDError :: "string \<Rightarrow> error"
  p_FindCredentials :: "Sharing \<Rightarrow> Member \<Rightarrow> Credentials option"
  p_FirstFilesRule :: "Sharing \<Rightarrow> Rule option"
  p_FirstBitwardenOrganizationRule :: "Sharing \<Rightarrow> Rule option"

text \<open>The pure functions that \<open>uploadFile\<close> needs to talk to the peer.\<close>

record nethelpers =
  p_TransformFileToSent :: "Sharing \<Rightarrow> jsonmap \<Rightarrow> byte list \<Rightarrow> int \<Rightarrow> jsonmap"
  p_url_Parse :: "string \<Rightarrow> error + string \<times> string"
  p_json_Marshal :: "jsonmap \<Rightarrow> error + string"
  p_decodeKey :: "string \<Rightarrow> error + string"
  p_ContextualDomain :: string

text \<open>
  The VFS of the instance and its file handles.  \<open>CreateFile\<close> answers with the document
  behind the handle (it sets the identifier and the revision of the new document from the
  old one); closing a handle answers with the document as the close left it.
\<close>

record vfs_oracle =
  vfs_FileByID :: "trace \<Rightarrow> fsys \<Rightarrow> string \<Rightarrow> error + FileDoc"
  vfs_DirByID :: "trace \<Rightarrow> fsys \<Rightarrow> string \<Rightarrow> error + DirDoc"
  vfs_OpenFile :: "trace \<Rightarrow> fsys \<Rightarrow> FileDoc \<Rightarrow> error option"
  vfs_CreateFile :: "trace \<Rightarrow> fsys \<Rightarrow> FileDoc \<Rightarrow> FileDoc option \<Rightarrow> error + FileDoc"
  vfs_UpdateFileDoc :: "trace \<Rightarrow> fsys \<Rightarrow> FileDoc \<Rightarrow> FileDoc \<Rightarrow> error option \<times> FileDoc"
  vfs_DestroyFile :: "trace \<Rightarrow> fsys \<Rightarrow> FileDoc \<Rightarrow> error option"
  vfs_Path :: "trace \<Rightarrow> fsys \<Rightarrow> FileDoc \<Rightarrow> error + string"
  vfs_Copy :: "trace \<Rightarrow> FileDoc \<Rightarrow> body \<Rightarrow> error option"
  vfs_Close :: "trace \<Rightarrow> FileDoc \<Rightarrow> error option \<times> FileDoc"
  vfs_conflictName :: "trace \<Rightarrow> sharingIndexer \<Rightarrow> string \<Rightarrow> string \<Rightarrow> bool \<Rightarrow> string"

text \<open>
  The lock, the key store and CouchDB.  \<open>db_get...\<close> are the GET requests of \<open>GetDoc\<close> with
  the decoded document; \<open>db_ExecView\<close> answers with the rows, \<open>None\<close> for a row that does not
  decode to a \<open>SharedRef\<close>.
\<close>

record db_oracle =
  db_Lock :: "trace \<Rightarrow> string \<Rightarrow> error option"
  db_StoreSave :: "trace \<Rightarrow> FileDocWithRevisions \<Rightarrow> error + string"
  db_StoreGet :: "trace \<Rightarrow> string \<Rightarrow> error + FileDocWithRevisions option"
  db_getSharedRef :: "trace \<Rightarrow> string \<Rightarrow> error + SharedRef"
  db_getFile :: "trace \<Rightarrow> string \<Rightarrow> error option"
  db_getSharing :: "trace \<Rightarrow> string \<Rightarrow> error + Sharing"
  db_getOrganization :: "trace \<Rightarrow> string \<Rightarrow> error option"
  db_getOld :: "trace \<Rightarrow> string \<Rightarrow> string \<Rightarrow> error option"
  db_put :: "trace \<Rightarrow> Sharing \<Rightarrow> error + string"
  db_ExecView :: "trace \<Rightarrow> string \<Rightarrow> error + SharedRef option list"

text \<open>The functions of the sharing package and of its neighbours that are not under src/.\<close>

record sharing_oracle =
  sh_recreateParent :: "trace \<Rightarrow> string \<Rightarrow> error + DirDoc"
  sh_GetSharingDir :: "trace \<Rightarrow> error + DirDoc"
  sh_EnsureSharedWithMeDir :: "trace \<Rightarrow> error + DirDoc"
  sh_resolveConflictSamePath :: "trace \<Rightarrow> string \<Rightarrow> string \<Rightarrow> error + string"
  sh_DeleteOAuthClient :: "trace \<Rightarrow> Member \<Rightarrow> Credentials \<Rightarrow> error option"
  sh_ClearLastSequenceNumbers :: "trace \<Rightarrow> Member \<Rightarrow> error option"
  sh_RemoveSharedRefs :: "trace \<Rightarrow> string \<Rightarrow> error option"
  sh_RemoveSharingDir :: "trace \<Rightarrow> error option"
  sh_DeleteTrigger :: "trace \<Rightarrow> string \<Rightarrow> error option"
  sh_orgDelete :: "trace \<Rightarrow> string \<Rightarrow> error option"
  sh_Req :: "trace \<Rightarrow> Options \<Rightarrow> Response option \<times> error option"
  sh_RefreshToken :: "trace \<Rightarrow> Options \<Rightarrow> Response option \<times> error option"

record env =
  pure :: helpers
  net :: nethelpers
  vfs :: vfs_oracle
  db :: db_oracle
  sh :: sharing_oracle

section \<open>CouchDB documents (package couchdb)\<close>

definition validateDocID :: "helpers \<Rightarrow> string \<Rightarrow> error + string" where
  "validateDocID P docid = (if docid \<noteq> [] \<and> hd docid = CHR ''_'' then Inl (p_newBadIDError P docid) else Inr docid)"

text \<open>The checks of \<open>GetDoc\<close> before the request.\<close>

definition GetDoc_id :: "helpers \<Rightarrow> string \<Rightarrow> error + string" where
  "GetDoc_id P id0 =
     (case validateDocID P id0 of
        Inl err \<Rightarrow> Inl err
      | Inr docid \<Rightarrow> if docid = [] then Inl (OtherError ''Missing ID for GetDoc'') else Inr docid)"

text \<open>
  \<open>GetDoc\<close> at the types it is called with: the sharing (read into \<open>s\<close> itself, which is
  left as it was when the request fails), a \<open>SharedRef\<close>, a file document and a Bitwarden
  organization of which only the error is looked at.
\<close>

definition GetDoc_Sharing :: "env \<Rightarrow> string \<Rightarrow> Sharing \<Rightarrow> trace \<Rightarrow> error option \<times> Sharing \<times> trace" where
  "GetDoc_Sharing E id0 out tr =
     (case GetDoc_id (pure E) id0 of
        Inl err \<Rightarrow> (Some err, out, tr)
      | Inr docid \<Rightarrow>
          (case db_getSharing (db E) tr docid of
             Inl err \<Rightarrow> (Some err, out, tr @ [Couch_Get consts_Sharings docid])
           | Inr s \<Rightarrow> (None, s, tr @ [Couch_Get consts_Sharings docid])))"

definition GetDoc_SharedRef :: "env \<Rightarrow> string \<Rightarrow> trace \<Rightarrow> (error + SharedRef) \<times> trace" where
  "GetDoc_SharedRef E id0 tr =
     (case GetDoc_id (pure E) id0 of
        Inl err \<Rightarrow> (Inl err, tr)
      | Inr docid \<Rightarrow> (db_getSharedRef (db E) tr docid, tr @ [Couch_Get consts_Shared docid]))"

definition GetDoc_File :: "env \<Rightarrow> string \<Rightarrow> trace \<Rightarrow> error option \<times> trace" where
  "GetDoc_File E id0 tr =
     (case GetDoc_id (pure E) id0 of
        Inl err \<Rightarrow> (Some err, tr)
      | Inr docid \<Rightarrow> (db_getFile (db E) tr docid, tr @ [Couch_Get consts_Files docid]))"

definition GetDoc_Organization :: "env \<Rightarrow> string \<Rightarrow> trace \<Rightarrow> error option \<times> trace" where
  "GetDoc_Organization E id0 tr =
     (case GetDoc_id (pure E) id0 of
        Inl err \<Rightarrow> (Some err, tr)
      | Inr docid \<Rightarrow> (db_getOrganization (db E) tr docid, tr @ [Couch_Get consts_BitwardenOrganizations docid]))"

text \<open>
  \<open>UpdateDoc\<close> of a sharing.  The event \<open>Couch_UpdateDoc\<close> marks the call; the doctype of a
  sharing is the constant \<open>consts.Sharings\<close>, so the test for a missing doctype is left out.
  On success the sharing carries the new revision.
\<close>

definition UpdateDoc :: "env \<Rightarrow> Sharing \<Rightarrow> trace \<Rightarrow> error option \<times> Sharing \<times> trace" where
  "UpdateDoc E doc tr0 =
     (let tr = tr0 @ [Couch_UpdateDoc doc] in
      case validateDocID (pure E) (SID doc) of
        Inl err \<Rightarrow> (Some err, doc, tr)
      | Inr docid \<Rightarrow>
          if docid = [] then (Some (OtherError ''UpdateDoc: id is missing''), doc, tr)
          else if SRev doc = [] then (Some (OtherError ''UpdateDoc: rev is missing''), doc, tr)
          else
            (case db_getOld (db E) tr consts_Sharings docid of
               Some err \<Rightarrow> (Some err, doc, tr @ [Couch_Get consts_Sharings docid])
             | None \<Rightarrow>
                 (case db_put (db E) (tr @ [Couch_Get consts_Sharings docid]) doc of
                    Inl err \<Rightarrow> (Some err, doc, tr @ [Couch_Get consts_Sharings docid, Couch_Put doc])
                  | Inr newrev \<Rightarrow>
                      (None, doc\<lparr>SRev := newrev\<rparr>,
                       tr @ [Couch_Get consts_Sharings docid, Couch_Put doc, Couch_RTEvent (doc\<lparr>SRev := newrev\<rparr>)]))))"

section \<open>Revocation of a sharing (model/sharing/sharing.go)\<close>

definition removeSharingTrigger :: "env \<Rightarrow> string \<Rightarrow> trace \<Rightarrow> error option \<times> trace" where
  "removeSharingTrigger E triggerID tr =
     (if triggerID \<noteq> [] then
        (case sh_DeleteTrigger (sh E) tr triggerID of
           None \<Rightarrow> (None, tr @ [Job_DeleteTrigger triggerID])
         | Some err \<Rightarrow>
             (if err \<noteq> ErrNotFoundTrigger then Some err else None, tr @ [Job_DeleteTrigger triggerID]))
      else (None, tr))"

fun removeSharingTriggers :: "env \<Rightarrow> string list \<Rightarrow> trace \<Rightarrow> error option \<times> trace" where
  "removeSharingTriggers E [] tr = (None, tr)"
| "removeSharingTriggers E (i # ids) tr =
     (case removeSharingTrigger E i tr of
        (Some err, tr1) \<Rightarrow> (Some err, tr1)
      | (None, tr1) \<Rightarrow> removeSharingTriggers E ids tr1)"

definition no_Triggers :: Triggers where
  "no_Triggers = \<lparr>TrackID = [], TrackIDs = [], ReplicateID = [], UploadID = []\<rparr>"

definition RemoveTriggers :: "env \<Rightarrow> Sharing \<Rightarrow> trace \<Rightarrow> error option \<times> Sharing \<times> trace" where
  "RemoveTriggers E s tr =
     (case removeSharingTrigger E (TrackID (Triggers s)) tr of
        (Some err, tr1) \<Rightarrow> (Some err, s, tr1)
      | (None, tr1) \<Rightarrow>
          (case removeSharingTriggers E (TrackIDs (Triggers s)) tr1 of
             (Some err, tr2) \<Rightarrow> (Some err, s, tr2)
           | (None, tr2) \<Rightarrow>
               (case removeSharingTrigger E (ReplicateID (Triggers s)) tr2 of
                  (Some err, tr3) \<Rightarrow> (Some err, s, tr3)
                | (None, tr3) \<Rightarrow>
                    (case removeSharingTrigger E (UploadID (Triggers s)) tr3 of
                       (Some err, tr4) \<Rightarrow> (Some err, s, tr4)
                     | (None, tr4) \<Rightarrow> (None, s\<lparr>Triggers := no_Triggers\<rparr>, tr4)))))"

definition RemoveBitwardenOrganization :: "env \<Rightarrow> string \<Rightarrow> trace \<Rightarrow> error option \<times> trace" where
  "RemoveBitwardenOrganization E orgID tr =
     (case GetDoc_Organization E orgID tr of
        (Some err, tr1) \<Rightarrow> (if IsNotFoundError err then None else Some err, tr1)
      | (None, tr1) \<Rightarrow> (sh_orgDelete (sh E) tr1 orgID, tr1 @ [Bitwarden_Delete orgID]))"

text \<open>
  The inner loop over the members: the first member after the owner that has an instance
  URL becomes revoked.
\<close>

fun revokeFirstRecipient :: "nat \<Rightarrow> Member list \<Rightarrow> Member list" where
  "revokeFirstRecipient i [] = []"
| "revokeFirstRecipient i (m # ms) =
     (if i > 0 \<and> Instance m \<noteq> [] then m\<lparr>Status := MemberStatusRevoked\<rparr> # ms
      else m # revokeFirstRecipient (Suc i) ms)"

text \<open>What each round of the loop writes into the sharing before it updates the document.\<close>

definition revokedDoc :: "Sharing \<Rightarrow> Sharing" where
  "revokedDoc s = s\<lparr>Triggers := no_Triggers, Credentials := [], Active := False,
                    Members := revokeFirstRecipient 0 (Members s)\<rparr>"

text \<open>
  The loop \<open>for i := 0; i < 3; i++\<close> at the end of \<open>RevokeByNotification\<close>, from the value
  \<open>i\<close> of the counter.  The error of \<open>UpdateDoc\<close> is declared inside the loop and is lost
  when the loop ends.
\<close>

function revokeLoop :: "env \<Rightarrow> nat \<Rightarrow> Sharing \<Rightarrow> trace \<Rightarrow> Sharing \<times> trace" where
  "revokeLoop E i s tr =
     (if i < 3 then
        (case UpdateDoc E (revokedDoc s) tr of
           (None, s1, tr1) \<Rightarrow> (s1, tr1)
         | (Some err, s1, tr1) \<Rightarrow>
             if \<not> IsConflictError err then (s1, tr1)
             else
               (case GetDoc_Sharing E (SID s1) s1 tr1 of
                  (Some errb, s2, tr2) \<Rightarrow> (s2, tr2)
                | (None, s2, tr2) \<Rightarrow> revokeLoop E (Suc i) s2 tr2))
      else (s, tr))"
  by pat_completeness auto
termination
  by (relation "measure (\<lambda>(E, i, s, tr). 3 - i)") auto

declare revokeLoop.simps [simp del]

text \<open>The steps of \<open>RevokeByNotification\<close> between the removal of the triggers and the loop.\<close>

definition revokeCleanup :: "env \<Rightarrow> Sharing \<Rightarrow> Member \<Rightarrow> trace \<Rightarrow> error option \<times> trace" where
  "revokeCleanup E s m0 tr =
     (case sh_ClearLastSequenceNumbers (sh E) tr m0 of
        Some err \<Rightarrow> (Some err, tr @ [Sharing_ClearLastSequenceNumbers m0])
      | None \<Rightarrow>
          (case sh_RemoveSharedRefs (sh E) (tr @ [Sharing_ClearLastSequenceNumbers m0]) (SID s) of
             Some err \<Rightarrow> (Some err, tr @ [Sharing_ClearLastSequenceNumbers m0, Sharing_RemoveSharedRefs (SID s)])
           | None \<Rightarrow>
               (let tr2 = tr @ [Sharing_ClearLastSequenceNumbers m0, Sharing_RemoveSharedRefs (SID s)];
                    removeDir = (case p_FirstFilesRule (pure E) s of
                                   None \<Rightarrow> False
                                 | Some rule \<Rightarrow> rule_Mime rule = []);
                    errd = (if removeDir then sh_RemoveSharingDir (sh E) tr2 else None);
                    tr3 = (if removeDir then tr2 @ [Sharing_RemoveSharingDir] else tr2)
                in case errd of
                     Some err \<Rightarrow> (Some err, tr3)
                   | None \<Rightarrow>
                       (case p_FirstBitwardenOrganizationRule (pure E) s of
                          None \<Rightarrow> (None, tr3)
                        | Some rule \<Rightarrow>
                            (case rule_Values rule of
                               [] \<Rightarrow> (None, tr3)
                             | orgID # vs \<Rightarrow> RemoveBitwardenOrganization E orgID tr3)))))"

definition RevokeByNotification :: "env \<Rightarrow> Sharing \<Rightarrow> trace \<Rightarrow> error option go \<times> Sharing \<times> trace" where
  "RevokeByNotification E s tr =
     (if Owner s then (Returns (Some ErrInvalidSharing), s, tr)
      else
        (case Members s of
           [] \<Rightarrow> (Panics, s, tr)
         | m0 # ms \<Rightarrow>
             (case Credentials s of
                [] \<Rightarrow> (Panics, s, tr)
              | c0 # cs \<Rightarrow>
                  (case sh_DeleteOAuthClient (sh E) tr m0 c0 of
                     Some err \<Rightarrow> (Returns (Some err), s, tr @ [Sharing_DeleteOAuthClient m0 c0])
                   | None \<Rightarrow>
                       (case RemoveTriggers E s (tr @ [Sharing_DeleteOAuthClient m0 c0]) of
                          (Some err, s1, tr1) \<Rightarrow> (Returns (Some err), s1, tr1)
                        | (None, s1, tr1) \<Rightarrow>
                            (case revokeCleanup E s1 m0 tr1 of
                               (Some err, tr2) \<Rightarrow> (Returns (Some err), s1, tr2)
                             | (None, tr2) \<Rightarrow>
                                 (case revokeLoop E 0 s1 tr2 of
                                    (s2, tr3) \<Rightarrow> (Returns None, s2, tr3))))))))"

section \<open>Receiving a file (model/sharing/upload.go)\<close>

definition createUploadKey :: "env \<Rightarrow> FileDocWithRevisions \<Rightarrow> trace \<Rightarrow> (string option \<times> error option) \<times> trace" where
  "createUploadKey E target tr =
     (case db_StoreSave (db E) tr target of
        Inl err \<Rightarrow> ((None, Some err), tr @ [Store_Save target])
      | Inr key \<Rightarrow> ((Some key, None), tr @ [Store_Save target]))"

text \<open>\<open>prepareFileWithAncestors\<close> returns the error and the document with its parent set.\<close>

definition prepareFileWithAncestors :: "env \<Rightarrow> Sharing \<Rightarrow> FileDoc \<Rightarrow> string \<Rightarrow> trace
    \<Rightarrow> error option \<times> FileDoc \<times> trace" where
  "prepareFileWithAncestors E s newdoc dirID tr =
     (if p_hasExplicitRuleForFile (pure E) s newdoc then (None, newdoc, tr)
      else if dirID = [] then
        (case sh_GetSharingDir (sh E) tr of
           Inl err \<Rightarrow> (Some err, newdoc, tr @ [Sharing_GetSharingDir])
         | Inr parent \<Rightarrow> (None, newdoc\<lparr>DirID := dir_DocID parent\<rparr>, tr @ [Sharing_GetSharingDir]))
      else if dirID \<noteq> DirID newdoc then
        (case vfs_DirByID (vfs E) tr VFS dirID of
           Inr parent \<Rightarrow> (None, newdoc\<lparr>DirID := dir_DocID parent\<rparr>, tr @ [VFS_DirByID VFS dirID])
         | Inl err \<Rightarrow>
             if err = os_ErrNotExist then
               (case sh_recreateParent (sh E) (tr @ [VFS_DirByID VFS dirID]) dirID of
                  Inl err2 \<Rightarrow> (Some err2, newdoc, tr @ [VFS_DirByID VFS dirID, Sharing_recreateParent dirID])
                | Inr parent \<Rightarrow>
                    (None, newdoc\<lparr>DirID := dir_DocID parent\<rparr>,
                     tr @ [VFS_DirByID VFS dirID, Sharing_recreateParent dirID]))
             else (Some err, newdoc, tr @ [VFS_DirByID VFS dirID]))
      else (None, newdoc, tr))"

text \<open>
  The block that follows an \<open>os.ErrExist\<close> of \<open>UpdateFileDoc\<close> or \<open>CreateFile\<close> (three times
  in the source): the path of the document, the other name for it, and the renamed document.
\<close>

definition renameOnConflict :: "env \<Rightarrow> fsys \<Rightarrow> sharingIndexer \<Rightarrow> FileDoc \<Rightarrow> trace \<Rightarrow> (error + FileDoc) \<times> trace" where
  "renameOnConflict E fs indexer newdoc tr =
     (case vfs_Path (vfs E) tr fs newdoc of
        Inl errp \<Rightarrow> (Inl errp, tr @ [Doc_Path fs newdoc])
      | Inr pth \<Rightarrow>
          (case sh_resolveConflictSamePath (sh E) (tr @ [Doc_Path fs newdoc]) (DocID newdoc) pth of
             Inl errr \<Rightarrow>
               (Inl errr, tr @ [Doc_Path fs newdoc, Sharing_resolveConflictSamePath (DocID newdoc) pth])
           | Inr name \<Rightarrow>
               if name \<noteq> [] then
                 (Inr (ResetFullpath (newdoc\<lparr>DocName := name\<rparr>)),
                  tr @ [Doc_Path fs newdoc, Sharing_resolveConflictSamePath (DocID newdoc) pth,
                        Indexer_IncrementRevision indexer])
               else
                 (Inr newdoc, tr @ [Doc_Path fs newdoc, Sharing_resolveConflictSamePath (DocID newdoc) pth])))"

text \<open>\<open>fs.UpdateFileDoc(olddoc, newdoc)\<close>, tried again under another name after \<open>os.ErrExist\<close>.\<close>

definition updateWithRename :: "env \<Rightarrow> fsys \<Rightarrow> sharingIndexer \<Rightarrow> FileDoc \<Rightarrow> FileDoc \<Rightarrow> trace \<Rightarrow> error option \<times> trace" where
  "updateWithRename E fs indexer olddoc newdoc tr =
     (case vfs_UpdateFileDoc (vfs E) tr fs olddoc newdoc of
        (None, nd) \<Rightarrow> (None, tr @ [VFS_UpdateFileDoc fs olddoc newdoc])
      | (Some err, nd) \<Rightarrow>
          if err = os_ErrExist then
            (case renameOnConflict E fs indexer nd (tr @ [VFS_UpdateFileDoc fs olddoc newdoc]) of
               (Inl e, tr1) \<Rightarrow> (Some e, tr1)
             | (Inr nd1, tr1) \<Rightarrow>
                 (fst (vfs_UpdateFileDoc (vfs E) tr1 fs olddoc nd1), tr1 @ [VFS_UpdateFileDoc fs olddoc nd1]))
          else (Some err, tr @ [VFS_UpdateFileDoc fs olddoc newdoc]))"

definition no_SharedInfo :: SharedInfo where
  "no_SharedInfo = \<lparr>Rule = 0, Binary = False, Removed = False, Dissociated = False\<rparr>"

definition updateFileMetadata :: "env \<Rightarrow> Sharing \<Rightarrow> FileDocWithRevisions \<Rightarrow> FileDoc \<Rightarrow> SharedRef \<Rightarrow> trace
    \<Rightarrow> error option go \<times> trace" where
  "updateFileMetadata E s target newdoc0 shared tr0 =
     (let indexer = newSharingIndexer \<lparr>Rev = DocRev (fdr_Doc target), Revisions = fdr_Revisions target\<rparr> (Some shared);
          chain = p_revsStructToChain (pure E) (fdr_Revisions target);
          conflict = p_detectConflict (pure E) (DocRev newdoc0) chain
      in if conflict = LostConflict then (Returns None, tr0)
         else
           let tr = (if conflict = WonConflict
                     then tr0 @ [Indexer_WillResolveConflict indexer (DocRev newdoc0) chain] else tr0);
               fs = UseSharingIndexer indexer;
               olddoc = newdoc0
           in (case prepareFileWithAncestors E s (newdoc0\<lparr>DocName := DocName (fdr_Doc target)\<rparr>)
                       (DirID (fdr_Doc target)) tr of
                 (Some err, nd, tr1) \<Rightarrow> (Returns (Some err), tr1)
               | (None, nd, tr1) \<Rightarrow>
                   let newdoc1 = p_copySafeFieldsToFile (pure E) (fdr_Doc target) (ResetFullpath nd);
                       infos = (case map_of (sr_Infos shared) (SID s) of None \<Rightarrow> no_SharedInfo | Some i \<Rightarrow> i)
                   in (case Rules_at s (Rule infos) of
                         None \<Rightarrow> (Panics, tr1)
                       | Some rule \<Rightarrow>
                           (case updateWithRename E fs indexer olddoc
                                   (newdoc1\<lparr>ReferencedBy := p_buildReferencedBy (pure E) (fdr_Doc target) (Some newdoc1) rule\<rparr>)
                                   tr1 of
                              (err, tr2) \<Rightarrow> (Returns err, tr2)))))"

text \<open>\<open>SyncFile\<close> with the lock held.\<close>

definition SyncFile_locked :: "env \<Rightarrow> Sharing \<Rightarrow> FileDocWithRevisions \<Rightarrow> string \<Rightarrow> trace
    \<Rightarrow> (string option \<times> error option) go \<times> trace" where
  "SyncFile_locked E s target sid tr =
     (case vfs_FileByID (vfs E) tr VFS (DocID (fdr_Doc target)) of
        Inl err \<Rightarrow>
          if err = os_ErrNotExist then
            (if p_findRuleForNewFile (pure E) s (fdr_Doc target) = None
             then (Returns (None, Some ErrSafety), tr @ [VFS_FileByID VFS (DocID (fdr_Doc target))])
             else (case createUploadKey E target (tr @ [VFS_FileByID VFS (DocID (fdr_Doc target))]) of
                     (r, tr1) \<Rightarrow> (Returns r, tr1)))
          else (Returns (None, Some err), tr @ [VFS_FileByID VFS (DocID (fdr_Doc target))])
      | Inr current \<Rightarrow>
          (case GetDoc_SharedRef E sid (tr @ [VFS_FileByID VFS (DocID (fdr_Doc target))]) of
             (Inl err, tr1) \<Rightarrow> (Returns (None, Some (if IsNotFoundError err then ErrSafety else err)), tr1)
           | (Inr shared, tr1) \<Rightarrow>
               (case map_of (sr_Infos shared) (SID s) of
                  None \<Rightarrow> (Returns (None, Some ErrSafety), tr1)
                | Some infos \<Rightarrow>
                    if Removed infos \<and> \<not> Dissociated infos then (Returns (None, Some ErrSafety), tr1)
                    else if p_Find (pure E) (sr_Revisions shared) (DocRev (fdr_Doc target))
                    then (Returns (None, None), tr1)
                    else if \<not> bytes_Equal (MD5Sum (fdr_Doc target)) (MD5Sum current)
                    then (case createUploadKey E target tr1 of (r, tr2) \<Rightarrow> (Returns r, tr2))
                    else
                      (case updateFileMetadata E s target current shared tr1 of
                         (Panics, tr2) \<Rightarrow> (Panics, tr2)
                       | (Returns err, tr2) \<Rightarrow> (Returns (None, err), tr2)))))"

definition SyncFile :: "env \<Rightarrow> Sharing \<Rightarrow> FileDocWithRevisions \<Rightarrow> trace
    \<Rightarrow> (string option \<times> error option) go \<times> trace" where
  "SyncFile E s target tr =
     (if len_bytes (MD5Sum (fdr_Doc target)) = 0 then (Returns (None, Some ErrInvalidHash), tr)
      else
        let sid = consts_Files @ ''/'' @ DocID (fdr_Doc target) in
        (case db_Lock (db E) tr (''shared/'' @ sid) of
           Some err \<Rightarrow> (Returns (None, Some err), tr @ [Mu_Lock (''shared/'' @ sid)])
         | None \<Rightarrow>
             (case SyncFile_locked E s target sid (tr @ [Mu_Lock (''shared/'' @ sid)]) of
                (r, tr1) \<Rightarrow> (r, tr1 @ [Mu_Unlock (''shared/'' @ sid)]))))"

text \<open>\<open>copyFileContent\<close> returns the error and the document of the handle after its close.\<close>

definition copyFileContent :: "env \<Rightarrow> FileDoc \<Rightarrow> body \<Rightarrow> trace \<Rightarrow> error option \<times> FileDoc \<times> trace" where
  "copyFileContent E file b tr =
     (case vfs_Close (vfs E) (tr @ [File_Copy file b]) file of
        (cerr, doc) \<Rightarrow>
          (if cerr \<noteq> None \<and> vfs_Copy (vfs E) tr file b = None then cerr else vfs_Copy (vfs E) tr file b,
           doc, tr @ [File_Copy file b, File_Close file]))"

text \<open>The indexer of a conflict copy: the one revision \<open>r\<close>, no \<open>SharedRef\<close>.\<close>

definition conflictIndexer :: "env \<Rightarrow> string \<Rightarrow> sharingIndexer" where
  "conflictIndexer E r = newSharingIndexer \<lparr>Rev = r, Revisions = p_revsChainToStruct (pure E) [r]\<rparr> None"

definition uploadLostConflict :: "env \<Rightarrow> FileDocWithRevisions \<Rightarrow> FileDoc \<Rightarrow> body \<Rightarrow> trace \<Rightarrow> error option \<times> trace" where
  "uploadLostConflict E target newdoc0 b tr =
     (let r = DocRev (fdr_Doc target);
          indexer = conflictIndexer E r;
          fs = UseSharingIndexer indexer;
          newdoc1 = newdoc0\<lparr>DocID := p_conflictID (pure E) (DocID newdoc0) r\<rparr>
      in case vfs_FileByID (vfs E) tr fs (DocID newdoc1) of
           Inr existing \<Rightarrow> (None, tr @ [VFS_FileByID fs (DocID newdoc1), Body_Close b])
         | Inl err \<Rightarrow>
             if err \<noteq> os_ErrNotExist then (Some err, tr @ [VFS_FileByID fs (DocID newdoc1)])
             else
               let tr1 = tr @ [VFS_FileByID fs (DocID newdoc1)];
                   name = vfs_conflictName (vfs E) tr1 indexer (DirID newdoc1) (DocName newdoc1) True;
                   tr2 = tr1 @ [Indexer_conflictName indexer (DirID newdoc1) (DocName newdoc1) True];
                   newdoc2 = ResetFullpath (newdoc1\<lparr>DocName := name, DocRev := []\<rparr>)
               in (case vfs_CreateFile (vfs E) tr2 fs newdoc2 None of
                     Inl err \<Rightarrow> (Some err, tr2 @ [VFS_CreateFile fs newdoc2 None])
                   | Inr file \<Rightarrow>
                       (case copyFileContent E file b (tr2 @ [VFS_CreateFile fs newdoc2 None]) of
                          (err, d, tr3) \<Rightarrow> (err, tr3))))"

definition uploadWonConflict :: "env \<Rightarrow> FileDoc \<Rightarrow> trace \<Rightarrow> error option \<times> trace" where
  "uploadWonConflict E src tr =
     (let r = DocRev src;
          indexer = conflictIndexer E r;
          fs = UseSharingIndexer indexer;
          dst1 = src\<lparr>DocID := p_conflictID (pure E) (DocID src) r\<rparr>
      in case vfs_FileByID (vfs E) tr fs (DocID dst1) of
           Inr existing \<Rightarrow> (None, tr @ [VFS_FileByID fs (DocID dst1)])
         | Inl err \<Rightarrow>
             if err \<noteq> os_ErrNotExist then (Some err, tr @ [VFS_FileByID fs (DocID dst1)])
             else
               let tr1 = tr @ [VFS_FileByID fs (DocID dst1)];
                   name = vfs_conflictName (vfs E) tr1 indexer (DirID dst1) (DocName dst1) True;
                   tr2 = tr1 @ [Indexer_conflictName indexer (DirID dst1) (DocName dst1) True];
                   dst2 = ResetFullpath (dst1\<lparr>DocName := name\<rparr>)
               in (case vfs_OpenFile (vfs E) tr2 fs src of
                     Some err \<Rightarrow> (Some err, tr2 @ [VFS_OpenFile fs src])
                   | None \<Rightarrow>
                       (case vfs_CreateFile (vfs E) (tr2 @ [VFS_OpenFile fs src]) fs dst2 None of
                          Inl err \<Rightarrow>
                            (Some err, tr2 @ [VFS_OpenFile fs src, VFS_CreateFile fs dst2 None, Body_Close (Content src)])
                        | Inr file \<Rightarrow>
                            (case copyFileContent E file (Content src)
                                    (tr2 @ [VFS_OpenFile fs src, VFS_CreateFile fs dst2 None]) of
                               (err, d, tr3) \<Rightarrow> (err, tr3 @ [Body_Close (Content src)])))))"

text \<open>
  The end of \<open>UploadExistingFile\<close>, after the conflict is dealt with: the content alone when
  the path is the same, else the content under the old name and parent, then the new path.
\<close>

definition UploadExistingFile_content :: "env \<Rightarrow> fsys \<Rightarrow> sharingIndexer \<Rightarrow> FileDoc \<Rightarrow> FileDoc \<Rightarrow> body \<Rightarrow> trace
    \<Rightarrow> error option \<times> trace" where
  "UploadExistingFile_content E fs indexer olddoc newdoc b tr =
     (if DocName newdoc = DocName olddoc \<and> DirID newdoc = DirID olddoc then
        (case vfs_CreateFile (vfs E) tr fs newdoc (Some olddoc) of
           Inl errf \<Rightarrow> (Some errf, tr @ [VFS_CreateFile fs newdoc (Some olddoc)])
         | Inr file \<Rightarrow>
             (case copyFileContent E file b (tr @ [VFS_CreateFile fs newdoc (Some olddoc)]) of
                (err, d, tr1) \<Rightarrow> (err, tr1)))
      else
        let tr1 = tr @ [Indexer_StashRevision indexer False];
            tmpdoc = ResetFullpath (newdoc\<lparr>DocName := DocName olddoc, DirID := DirID olddoc\<rparr>)
        in (case vfs_CreateFile (vfs E) tr1 fs tmpdoc (Some olddoc) of
              Inl err \<Rightarrow> (Some err, tr1 @ [VFS_CreateFile fs tmpdoc (Some olddoc)])
            | Inr file \<Rightarrow>
                (case copyFileContent E file b (tr1 @ [VFS_CreateFile fs tmpdoc (Some olddoc)]) of
                   (Some err, tmpdoc1, tr2) \<Rightarrow> (Some err, tr2)
                 | (None, tmpdoc1, tr2) \<Rightarrow>
                     updateWithRename E fs indexer tmpdoc1
                       (newdoc\<lparr>DocRev := DocRev tmpdoc1, InternalID := InternalID tmpdoc1\<rparr>)
                       (tr2 @ [Indexer_UnstashRevision indexer]))))"

text \<open>The \<open>switch conflict\<close> of \<open>UploadExistingFile\<close> and what follows it.\<close>

definition UploadExistingFile_conflict :: "env \<Rightarrow> FileDocWithRevisions \<Rightarrow> sharingIndexer \<Rightarrow> FileDoc \<Rightarrow> FileDoc \<Rightarrow> body
    \<Rightarrow> trace \<Rightarrow> error option \<times> trace" where
  "UploadExistingFile_conflict E target indexer olddoc newdoc b tr =
     (let chain = p_revsStructToChain (pure E) (fdr_Revisions target);
          fs = UseSharingIndexer indexer
      in case p_detectConflict (pure E) (DocRev newdoc) chain of
           LostConflict \<Rightarrow> uploadLostConflict E target newdoc b tr
         | WonConflict \<Rightarrow>
             (case uploadWonConflict E olddoc tr of
                (Some err, tr1) \<Rightarrow> (Some err, tr1)
              | (None, tr1) \<Rightarrow>
                  UploadExistingFile_content E fs indexer olddoc newdoc b
                    (tr1 @ [Indexer_WillResolveConflict indexer (DocRev newdoc) chain]))
         | NoConflict \<Rightarrow>
             UploadExistingFile_content E fs indexer olddoc newdoc b
               (tr @ [Indexer_WillResolveConflict indexer (DocRev newdoc) chain]))"

text \<open>
  The start of \<open>UploadExistingFile\<close>, up to the document that is ready for the upload:
  either the function returns early (\<open>Inl\<close>), or the indexer and the new document are there.
\<close>

definition UploadExistingFile_prepare :: "env \<Rightarrow> Sharing \<Rightarrow> FileDocWithRevisions \<Rightarrow> FileDoc \<Rightarrow> trace
    \<Rightarrow> (error option go + sharingIndexer \<times> FileDoc) \<times> trace" where
  "UploadExistingFile_prepare E s target newdoc0 tr0 =
     (case GetDoc_SharedRef E (consts_Files @ ''/'' @ DocID (fdr_Doc target)) tr0 of
        (Inl err, tr) \<Rightarrow> (Inl (Returns (Some (if IsNotFoundError err then ErrSafety else err))), tr)
      | (Inr shared, tr) \<Rightarrow>
          let indexer = newSharingIndexer \<lparr>Rev = DocRev (fdr_Doc target), Revisions = fdr_Revisions target\<rparr> (Some shared);
              olddoc = newdoc0
          in (case map_of (sr_Infos shared) (SID s) of
                None \<Rightarrow> (Inl (Returns (Some ErrSafety)), tr)
              | Some infos \<Rightarrow>
                  if Removed infos \<and> \<not> Dissociated infos then (Inl (Returns (Some ErrSafety)), tr)
                  else
                    (case Rules_at s (Rule infos) of
                       None \<Rightarrow> (Inl Panics, tr)
                     | Some rule \<Rightarrow>
                         (case prepareFileWithAncestors E s
                                 ((p_copySafeFieldsToFile (pure E) (fdr_Doc target)
                                     (newdoc0\<lparr>ReferencedBy := p_buildReferencedBy (pure E) (fdr_Doc target) (Some olddoc) rule\<rparr>))
                                   \<lparr>DocName := DocName (fdr_Doc target)\<rparr>)
                                 (DirID (fdr_Doc target)) tr of
                            (Some err, nd, tr1) \<Rightarrow> (Inl (Returns (Some err)), tr1)
                          | (None, nd, tr1) \<Rightarrow>
                              (Inr (indexer, (ResetFullpath nd)\<lparr>ByteSize := ByteSize (fdr_Doc target),
                                                                    MD5Sum := MD5Sum (fdr_Doc target)\<rparr>),
                               tr1)))))"

definition UploadExistingFile :: "env \<Rightarrow> Sharing \<Rightarrow> FileDocWithRevisions \<Rightarrow> FileDoc \<Rightarrow> body \<Rightarrow> trace
    \<Rightarrow> error option go \<times> trace" where
  "UploadExistingFile E s target newdoc0 b tr0 =
     (case UploadExistingFile_prepare E s target newdoc0 tr0 of
        (Inl r, tr) \<Rightarrow> (r, tr)
      | (Inr (indexer, newdoc), tr) \<Rightarrow>
          (case UploadExistingFile_conflict E target indexer newdoc0 newdoc b tr of
             (err, tr1) \<Rightarrow> (Returns err, tr1)))"

subsection \<open>A new file\<close>

text \<open>
  \<open>cleanShortcutID\<close> and \<open>EndInitial\<close> (model/sharing/sharing.go) write into the sharing, so
  they return it.
\<close>

definition cleanShortcutID_update :: "env \<Rightarrow> Sharing \<Rightarrow> string \<Rightarrow> trace \<Rightarrow> string \<times> Sharing \<times> trace" where
  "cleanShortcutID_update E s parentID tr =
     (case UpdateDoc E (s\<lparr>ShortcutID := []\<rparr>) tr of
        (err, s1, tr1) \<Rightarrow> (parentID, s1, tr1))"

definition cleanShortcutID :: "env \<Rightarrow> Sharing \<Rightarrow> trace \<Rightarrow> string \<times> Sharing \<times> trace" where
  "cleanShortcutID E s tr =
     (if ShortcutID s = [] then ([], s, tr)
      else
        (case vfs_FileByID (vfs E) tr VFS (ShortcutID s) of
           Inl err \<Rightarrow> cleanShortcutID_update E s [] (tr @ [VFS_FileByID VFS (ShortcutID s)])
         | Inr file \<Rightarrow>
             (case vfs_DestroyFile (vfs E) (tr @ [VFS_FileByID VFS (ShortcutID s)]) VFS file of
                Some err \<Rightarrow> ([], s, tr @ [VFS_FileByID VFS (ShortcutID s), VFS_DestroyFile VFS file])
              | None \<Rightarrow>
                  cleanShortcutID_update E s (DirID file)
                    (tr @ [VFS_FileByID VFS (ShortcutID s), VFS_DestroyFile VFS file]))))"

definition EndInitial :: "env \<Rightarrow> Sharing \<Rightarrow> trace \<Rightarrow> error option \<times> Sharing \<times> trace" where
  "EndInitial E s tr =
     (if NbFiles s = 0 then (None, s, tr)
      else
        (case UpdateDoc E (s\<lparr>NbFiles := 0, Initial := False\<rparr>) tr of
           (Some err, s1, tr1) \<Rightarrow> (Some err, s1, tr1)
         | (None, s1, tr1) \<Rightarrow> (None, s1, tr1 @ [Realtime_EventDelete (SID s1)])))"

definition isBinaryFor :: "string \<Rightarrow> SharedRef option \<Rightarrow> bool" where
  "isBinaryFor sharingID row =
     (case row of
        None \<Rightarrow> False
      | Some doc \<Rightarrow> (case map_of (sr_Infos doc) sharingID of None \<Rightarrow> False | Some i \<Rightarrow> Binary i))"

definition countReceivedFiles :: "env \<Rightarrow> Sharing \<Rightarrow> trace \<Rightarrow> Sharing \<times> trace" where
  "countReceivedFiles E s tr =
     (let count = (case db_ExecView (db E) tr (SID s) of
                     Inl err \<Rightarrow> 0
                   | Inr rows \<Rightarrow> int (length (filter (isBinaryFor (SID s)) rows)))
      in if count \<ge> NbFiles s then
           (case EndInitial E s (tr @ [Couch_ExecView (SID s)]) of (err, s1, tr1) \<Rightarrow> (s1, tr1))
         else (s, tr @ [Couch_ExecView (SID s), Realtime_EventUpdate (SID s) count]))"

text \<open>
  The parent directory of a new file and the flag \<open>addReferencedBy\<close>.  \<open>None\<close> is the panic
  of \<open>rule.Values[0]\<close> on a rule without values.
\<close>

definition UploadNewFile_parent :: "env \<Rightarrow> Sharing \<Rightarrow> FileDocWithRevisions \<Rightarrow> fsys \<Rightarrow> Rule \<Rightarrow> trace
    \<Rightarrow> ((error + DirDoc) \<times> bool \<times> Sharing \<times> trace) option" where
  "UploadNewFile_parent E s target fs rule tr =
     (if DirID (fdr_Doc target) \<noteq> [] then
        (case vfs_DirByID (vfs E) tr fs (DirID (fdr_Doc target)) of
           Inr parent \<Rightarrow> Some (Inr parent, False, s, tr @ [VFS_DirByID fs (DirID (fdr_Doc target))])
         | Inl err \<Rightarrow>
             if err = os_ErrNotExist then
               Some (sh_recreateParent (sh E) (tr @ [VFS_DirByID fs (DirID (fdr_Doc target))]) (DirID (fdr_Doc target)),
                     False, s,
                     tr @ [VFS_DirByID fs (DirID (fdr_Doc target)), Sharing_recreateParent (DirID (fdr_Doc target))])
             else Some (Inl err, False, s, tr @ [VFS_DirByID fs (DirID (fdr_Doc target))]))
      else
        (case rule_Values rule of
           [] \<Rightarrow> None
         | v # vs \<Rightarrow>
             if DocID (fdr_Doc target) = v then
               (case cleanShortcutID E s tr of
                  (parentID, s1, tr1) \<Rightarrow>
                    if parentID \<noteq> [] then
                      Some (vfs_DirByID (vfs E) tr1 fs parentID, True, s1, tr1 @ [VFS_DirByID fs parentID])
                    else
                      Some (sh_EnsureSharedWithMeDir (sh E) tr1, True, s1, tr1 @ [Sharing_EnsureSharedWithMeDir]))
             else Some (sh_GetSharingDir (sh E) tr, False, s, tr @ [Sharing_GetSharingDir])))"

text \<open>\<open>fs.CreateFile(newdoc, nil)\<close>, tried again under another name after \<open>os.ErrExist\<close>.\<close>

definition createWithRename :: "env \<Rightarrow> fsys \<Rightarrow> sharingIndexer \<Rightarrow> FileDoc \<Rightarrow> trace \<Rightarrow> (error + FileDoc) \<times> trace" where
  "createWithRename E fs indexer newdoc tr =
     (case vfs_CreateFile (vfs E) tr fs newdoc None of
        Inr file \<Rightarrow> (Inr file, tr @ [VFS_CreateFile fs newdoc None])
      | Inl err \<Rightarrow>
          if err = os_ErrExist then
            (case renameOnConflict E fs indexer newdoc (tr @ [VFS_CreateFile fs newdoc None]) of
               (Inl e, tr1) \<Rightarrow> (Inl e, tr1)
             | (Inr nd1, tr1) \<Rightarrow> (vfs_CreateFile (vfs E) tr1 fs nd1 None, tr1 @ [VFS_CreateFile fs nd1 None]))
          else (Inl err, tr @ [VFS_CreateFile fs newdoc None]))"

text \<open>From the look at the deleted document to the end, with the parent found.\<close>

definition UploadNewFile_create :: "env \<Rightarrow> Sharing \<Rightarrow> FileDocWithRevisions \<Rightarrow> Rule \<Rightarrow> int \<Rightarrow> DirDoc \<Rightarrow> bool
    \<Rightarrow> body \<Rightarrow> trace \<Rightarrow> error option \<times> Sharing \<times> trace" where
  "UploadNewFile_create E s target rule ruleIndex parent addReferencedBy b tr0 =
     (let revs = \<lparr>Rev = DocRev (fdr_Doc target), Revisions = fdr_Revisions target\<rparr>;
          shared0 = \<lparr>sr_SID = [], sr_Revisions = None, sr_Infos = []\<rparr>;
          t = fdr_Doc target
      in case GetDoc_File E (DocID t) tr0 of
           (fake, tr1) \<Rightarrow>
             let tr = (case fake of
                         None \<Rightarrow> tr1
                       | Some err \<Rightarrow>
                           if IsDeletedError err
                           then tr1 @ [Indexer_IncrementRevision (newSharingIndexer revs (Some shared0))]
                           else tr1)
             in (case p_NewFileDoc (pure E) (DocName t) (dir_DocID parent) (ByteSize t) (MD5Sum t) (Mime t)
                        (Class t) (CreatedAt t) (Executable t) False False (Tags t) of
                   Inl err \<Rightarrow> (Some err, s, tr)
                 | Inr nd0 \<Rightarrow>
                     let nd1 = p_copySafeFieldsToFile (pure E) t (nd0\<lparr>DocID := DocID t\<rparr>);
                         shared = \<lparr>sr_SID = consts_Files @ ''/'' @ DocID t, sr_Revisions = None,
                                   sr_Infos = [(SID s, \<lparr>Rule = ruleIndex, Binary = True, Removed = False,
                                                         Dissociated = False\<rparr>)]\<rparr>;
                         refs = p_buildReferencedBy (pure E) t None rule;
                         nd2 = nd1\<lparr>ReferencedBy := (if addReferencedBy
                                  then refs @ [\<lparr>ref_ID = SID s, ref_Type = consts_Sharings\<rparr>] else refs)\<rparr>;
                         indexer = newSharingIndexer revs (Some shared)
                     in (case createWithRename E (UseSharingIndexer indexer) indexer nd2 tr of
                           (Inl err, tr2) \<Rightarrow> (Some err, s, tr2)
                         | (Inr file, tr2) \<Rightarrow>
                             (case copyFileContent E file b tr2 of
                                (err, d, tr3) \<Rightarrow>
                                  if NbFiles s > 0 then
                                    (case countReceivedFiles E s tr3 of (s1, tr4) \<Rightarrow> (err, s1, tr4))
                                  else (err, s, tr3)))))"

definition UploadNewFile :: "env \<Rightarrow> Sharing \<Rightarrow> FileDocWithRevisions \<Rightarrow> body \<Rightarrow> trace
    \<Rightarrow> error option go \<times> Sharing \<times> trace" where
  "UploadNewFile E s target b tr =
     (case p_findRuleForNewFile (pure E) s (fdr_Doc target) of
        None \<Rightarrow> (Returns (Some ErrSafety), s, tr)
      | Some (rule, ruleIndex) \<Rightarrow>
          (case UploadNewFile_parent E s target
                  (UseSharingIndexer (newSharingIndexer
                      \<lparr>Rev = DocRev (fdr_Doc target), Revisions = fdr_Revisions target\<rparr>
                      (Some \<lparr>sr_SID = [], sr_Revisions = None, sr_Infos = []\<rparr>)))
                  rule tr of
             None \<Rightarrow> (Panics, s, tr)
           | Some (Inl err, addReferencedBy, s1, tr1) \<Rightarrow> (Returns (Some err), s1, tr1)
           | Some (Inr parent, addReferencedBy, s1, tr1) \<Rightarrow>
               (case UploadNewFile_create E s1 target rule ruleIndex parent addReferencedBy b tr1 of
                  (err, s2, tr2) \<Rightarrow> (Returns err, s2, tr2))))"

definition HandleFileUpload :: "env \<Rightarrow> Sharing \<Rightarrow> string \<Rightarrow> body \<Rightarrow> trace \<Rightarrow> error option go \<times> Sharing \<times> trace" where
  "HandleFileUpload E s key b tr =
     (case db_StoreGet (db E) tr key of
        Inl err \<Rightarrow> (Returns (Some err), s, tr @ [Store_Get key, Body_Close b])
      | Inr None \<Rightarrow> (Returns (Some ErrMissingFileMetadata), s, tr @ [Store_Get key, Body_Close b])
      | Inr (Some target) \<Rightarrow>
          let name = ''shared/'' @ consts_Files @ ''/'' @ DocID (fdr_Doc target) in
          (case db_Lock (db E) (tr @ [Store_Get key]) name of
             Some err \<Rightarrow> (Returns (Some err), s, tr @ [Store_Get key, Mu_Lock name, Body_Close b])
           | None \<Rightarrow>
               (case vfs_FileByID (vfs E) (tr @ [Store_Get key, Mu_Lock name]) VFS (DocID (fdr_Doc target)) of
                  Inl err \<Rightarrow>
                    if err \<noteq> os_ErrNotExist then
                      (Returns (Some err), s,
                       tr @ [Store_Get key, Mu_Lock name, VFS_FileByID VFS (DocID (fdr_Doc target)),
                             Mu_Unlock name, Body_Close b])
                    else
                      (case UploadNewFile E s target b
                              (tr @ [Store_Get key, Mu_Lock name, VFS_FileByID VFS (DocID (fdr_Doc target))]) of
                         (r, s1, tr1) \<Rightarrow> (r, s1, tr1 @ [Mu_Unlock name, Body_Close b]))
                | Inr current \<Rightarrow>
                    (case UploadExistingFile E s target current b
                            (tr @ [Store_Get key, Mu_Lock name, VFS_FileByID VFS (DocID (fdr_Doc target))]) of
                       (r, tr1) \<Rightarrow> (r, s, tr1 @ [Mu_Unlock name, Body_Close b])))))"

section \<open>Sending a file (model/sharing/upload.go)\<close>

text \<open>Go's integer division truncates toward zero.\<close>

definition go_quot :: "int \<Rightarrow> int \<Rightarrow> int" where
  "go_quot a b = (if a \<ge> 0 then a div b else - ((- a) div b))"

definition is5xx :: "Response option \<Rightarrow> bool" where
  "is5xx res = (case res of None \<Rightarrow> False | Some r \<Rightarrow> go_quot (StatusCode r) 100 = 5)"

text \<open>Phase 2: the binary is read from the local file and sent under the key.\<close>

definition uploadFile_binary :: "env \<Rightarrow> Sharing \<Rightarrow> string \<Rightarrow> string \<Rightarrow> string \<Rightarrow> string \<Rightarrow> string \<Rightarrow> trace
    \<Rightarrow> error option go \<times> trace" where
  "uploadFile_binary E s scheme host token origFileID key tr =
     (case vfs_FileByID (vfs E) tr VFS origFileID of
        Inl err \<Rightarrow> (Returns (Some err), tr @ [VFS_FileByID VFS origFileID])
      | Inr fileDoc \<Rightarrow>
          (case vfs_OpenFile (vfs E) (tr @ [VFS_FileByID VFS origFileID]) VFS fileDoc of
             Some err \<Rightarrow> (Returns (Some err), tr @ [VFS_FileByID VFS origFileID, VFS_OpenFile VFS fileDoc])
           | None \<Rightarrow>
               let opts2 = \<lparr>opt_Method = ''PUT'', opt_Scheme = scheme, opt_Domain = host,
                             opt_Path = ''/sharings/'' @ SID s @ ''/io.cozy.files/'' @ key,
                             opt_Queries = [(''from'', p_ContextualDomain (net E))],
                             opt_Headers = [(''Content-Type'', Mime fileDoc),
                                            (''Authorization'', ''Bearer '' @ token)],
                             opt_Body = Some (Content fileDoc)\<rparr>;
                   tr1 = tr @ [VFS_FileByID VFS origFileID, VFS_OpenFile VFS fileDoc]
               in (case sh_Req (sh E) tr1 opts2 of
                     (res2, Some err) \<Rightarrow>
                       (Returns (Some (if is5xx res2 then ErrInternalServerError else err)),
                        tr1 @ [Request_Req opts2, Body_Close (Content fileDoc)])
                   | (None, None) \<Rightarrow> (Panics, tr1 @ [Request_Req opts2, Body_Close (Content fileDoc)])
                   | (Some r, None) \<Rightarrow>
                       (Returns None,
                        tr1 @ [Request_Req opts2, Res_Body_Close, Body_Close (Content fileDoc)]))))"

text \<open>Phase 1: the metadata are sent, the token refreshed on a 4xx answer, the answer read.\<close>

definition uploadFile_metadata :: "env \<Rightarrow> Sharing \<Rightarrow> string \<Rightarrow> string \<Rightarrow> string \<Rightarrow> string \<Rightarrow> Options \<Rightarrow> trace
    \<Rightarrow> error option go \<times> trace" where
  "uploadFile_metadata E s scheme host token origFileID opts tr =
     (case sh_Req (sh E) tr opts of
        (res0, err0) \<Rightarrow>
          let refresh = (case res0 of None \<Rightarrow> False | Some r \<Rightarrow> go_quot (StatusCode r) 100 = 4);
              answer = (if refresh then sh_RefreshToken (sh E) (tr @ [Request_Req opts]) opts else (res0, err0));
              tr1 = (if refresh then tr @ [Request_Req opts, Sharing_RefreshToken opts] else tr @ [Request_Req opts])
          in (case answer of
                (res, Some err) \<Rightarrow> (Returns (Some (if is5xx res then ErrInternalServerError else err)), tr1)
              | (None, None) \<Rightarrow> (Panics, tr1)
              | (Some r, None) \<Rightarrow>
                  if StatusCode r = 204 then (Returns None, tr1 @ [Res_Body_Close])
                  else
                    (case p_decodeKey (net E) (res_Body r) of
                       Inl err \<Rightarrow> (Returns (Some err), tr1 @ [Res_Body_Close])
                     | Inr key \<Rightarrow>
                         (case uploadFile_binary E s scheme host token origFileID key tr1 of
                            (res2, tr2) \<Rightarrow> (res2, tr2 @ [Res_Body_Close])))))"

text \<open>
  \<open>uploadFile\<close>.  The type assertions \<open>file["_id"].(string)\<close> and the read of the access token
  through a nil pointer panic.
\<close>

definition uploadFile :: "env \<Rightarrow> Sharing \<Rightarrow> Member \<Rightarrow> jsonmap \<Rightarrow> int \<Rightarrow> trace \<Rightarrow> error option go \<times> trace" where
  "uploadFile E s m file ruleIndex tr =
     (if (case map_of file ''trashed'' of Some (JBool trashed) \<Rightarrow> trashed | _ \<Rightarrow> False)
      then (Returns None, tr)
      else
        (case p_FindCredentials (pure E) s m of
           None \<Rightarrow> (Returns (Some ErrInvalidSharing), tr)
         | Some creds \<Rightarrow>
             (case p_url_Parse (net E) (Instance m) of
                Inl err \<Rightarrow> (Returns (Some err), tr)
              | Inr (scheme, host) \<Rightarrow>
                  (case map_of file ''_id'' of
                     Some (JString origFileID) \<Rightarrow>
                       let sent = p_TransformFileToSent (net E) s file (XorKey creds) ruleIndex in
                       (case map_of sent ''_id'' of
                          Some (JString xoredFileID) \<Rightarrow>
                            (case p_json_Marshal (net E) sent of
                               Inl err \<Rightarrow> (Returns (Some err), tr)
                             | Inr marshalled \<Rightarrow>
                                 (case AccessToken creds of
                                    None \<Rightarrow> (Panics, tr)
                                  | Some token \<Rightarrow>
                                      uploadFile_metadata E s scheme host token origFileID
                                        \<lparr>opt_Method = ''PUT'', opt_Scheme = scheme, opt_Domain = host,
                                          opt_Path = ''/sharings/'' @ SID s @ ''/io.cozy.files/'' @ xoredFileID @ ''/metadata'',
                                          opt_Queries = [(''from'', p_ContextualDomain (net E))],
                                          opt_Headers = [(''Accept'', ''application/json''),
                                                         (''Content-Type'', ''application/json''),
                                                         (''Authorization'', ''Bearer '' @ token)],
                                          opt_Body = Some (RequestBody marshalled)\<rparr>
                                        tr))
                        | _ \<Rightarrow> (Panics, tr))
                   | _ \<Rightarrow> (Panics, tr)))))"

section \<open>A concrete instance\<close>

text \<open>
  Stand-ins for the helpers that are not under src/, good enough to run the model: a
  revision is \<open>generation-body\<close>, the chain of a \<open>RevsStruct\<close> is its list of revisions,
  oldest first, and the conflict is decided as the spec says (none if the chain holds the
  local revision, won if the local generation is higher than that of the tip, lost
  otherwise).
\<close>

definition generation :: "string \<Rightarrow> nat" where
  "generation r = foldl (\<lambda>n c. 10 * n + (of_char c - 48)) 0 (takeWhile (\<lambda>c. c \<noteq> CHR ''-'') r)"

fun tree_revs :: "RevsTree \<Rightarrow> string list" where
  "tree_revs (RevsTree r branches) = r # concat (map tree_revs branches)"

definition plain_helpers :: helpers where
  "plain_helpers = \<lparr>
     p_detectConflict = (\<lambda>local chain.
        if local \<in> set chain then NoConflict
        else if chain \<noteq> [] \<and> generation local > generation (last chain) then WonConflict
        else LostConflict),
     p_conflictID = (\<lambda>docid r. docid @ ''~'' @ r),
     p_revsStructToChain = (\<lambda>rs. rev (IDs rs)),
     p_revsChainToStruct = (\<lambda>chain. \<lparr>Start = int (length chain), IDs = rev chain\<rparr>),
     p_Find = (\<lambda>tree r. case tree of None \<Rightarrow> False | Some t \<Rightarrow> r \<in> set (tree_revs t)),
     p_copySafeFieldsToFile = (\<lambda>t d. d\<lparr>Tags := Tags t, Metadata := Metadata t, CreatedAt := CreatedAt t,
                                          Mime := Mime t, Class := Class t, Executable := Executable t\<rparr>),
     p_buildReferencedBy = (\<lambda>t old rule. ReferencedBy t),
     p_findRuleForNewFile = (\<lambda>s d. case Rules s of
                                       [] \<Rightarrow> None
                                     | r # rs \<Rightarrow> if DirID d \<in> set (rule_Values r) \<or> DocID d \<in> set (rule_Values r)
                                                then Some (r, 0) else None),
     p_hasExplicitRuleForFile = (\<lambda>s d. False),
     p_NewFileDoc = (\<lambda>name dirID sz md5 mime class cdate exec trashed encrypted tags.
        if name = [] then Inl (OtherError ''invalid name'')
        else Inr \<lparr>DocID = [], DocRev = [], DocName = name, DirID = dirID, CreatedAt = cdate, ByteSize = sz,
                  MD5Sum = md5, Mime = mime, Class = class, Executable = exec, Trashed = trashed,
                  Tags = tags, Metadata = [], ReferencedBy = [], InternalID = [], Fullpath = []\<rparr>),
     p_newBadIDError = (\<lambda>docid. CouchError 400 ''bad_id''),
     p_FindCredentials = (\<lambda>s m. case Credentials s of [] \<Rightarrow> None | c # cs \<Rightarrow> Some c),
     p_FirstFilesRule = (\<lambda>s. find (\<lambda>r. rule_DocType r = consts_Files) (Rules s)),
     p_FirstBitwardenOrganizationRule = (\<lambda>s. find (\<lambda>r. rule_DocType r = consts_BitwardenOrganizations) (Rules s)) \<rparr>"

definition plain_nethelpers :: nethelpers where
  "plain_nethelpers = \<lparr>
     p_TransformFileToSent = (\<lambda>s file key ruleIndex. file),
     p_url_Parse = (\<lambda>u. Inr (''https'', u)),
     p_json_Marshal = (\<lambda>file. Inr ''{}''),
     p_decodeKey = (\<lambda>b. Inr b),
     p_ContextualDomain = ''bob.example'' \<rparr>"

text \<open>The local file: \<open>note.txt\<close> in the directory \<open>d1\<close>, at the revision \<open>2-b\<close>.\<close>

definition local_doc :: FileDoc where
  "local_doc = note_doc\<lparr>DocRev := ''2-b'', InternalID := ''i1''\<rparr>"

definition local_shared :: SharedRef where
  "local_shared = \<lparr>sr_SID = ''io.cozy.files/f1'',
     sr_Revisions = Some (RevsTree ''1-a'' [RevsTree ''2-b'' []]),
     sr_Infos = [(''s1'', \<lparr>Rule = 0, Binary = True, Removed = False, Dissociated = False\<rparr>)]\<rparr>"

definition team_sharing :: Sharing where
  "team_sharing = \<lparr>SID = ''s1'', SRev = ''1-s'',
     Triggers = \<lparr>TrackID = [], TrackIDs = [''t1''], ReplicateID = ''t2'', UploadID = ''t3''\<rparr>,
     Active = True, Owner = False, NbFiles = 0, Initial = False, ShortcutID = [],
     Rules = [\<lparr>rule_Title = ''docs'', rule_DocType = ''io.cozy.files'', rule_Mime = [], rule_Values = [''d1'']\<rparr>],
     Members = [\<lparr>Status = MemberStatusOwner, Instance = ''alice.example'', Email = ''alice@example''\<rparr>,
                \<lparr>Status = MemberStatusReady, Instance = ''bob.example'', Email = ''bob@example''\<rparr>],
     Credentials = [\<lparr>XorKey = [1, 2], AccessToken = Some ''token'', InboundClientID = ''c1''\<rparr>]\<rparr>"

text \<open>
  An instance on which every call succeeds: the file \<open>f1\<close> exists and no other, every
  directory exists, the shared index has the entry above for \<open>f1\<close> and no other, and the
  peer answers 204.
\<close>

definition calm_vfs :: vfs_oracle where
  "calm_vfs = \<lparr>
     vfs_FileByID = (\<lambda>tr fs docid. if docid = ''f1'' then Inr local_doc else Inl os_ErrNotExist),
     vfs_DirByID = (\<lambda>tr fs docid. Inr \<lparr>dir_DocID = docid, dir_DocName = docid, dir_DirID = ''root'',
                                           dir_Fullpath = ''/'' @ docid\<rparr>),
     vfs_OpenFile = (\<lambda>tr fs d. None),
     vfs_CreateFile = (\<lambda>tr fs nd old. Inr (case old of
                          None \<Rightarrow> nd
                        | Some od \<Rightarrow> nd\<lparr>DocID := DocID od, DocRev := DocRev od, CreatedAt := CreatedAt od\<rparr>)),
     vfs_UpdateFileDoc = (\<lambda>tr fs old nd. (None, nd)),
     vfs_DestroyFile = (\<lambda>tr fs d. None),
     vfs_Path = (\<lambda>tr fs d. Inr (''/'' @ DirID d @ ''/'' @ DocName d)),
     vfs_Copy = (\<lambda>tr file b. None),
     vfs_Close = (\<lambda>tr file. (None, file\<lparr>InternalID := ''i2''\<rparr>)),
     vfs_conflictName = (\<lambda>tr indexer dirID name isFile. name @ '' (conflict)'') \<rparr>"

definition calm_db :: db_oracle where
  "calm_db = \<lparr>
     db_Lock = (\<lambda>tr name. None),
     db_StoreSave = (\<lambda>tr target. Inr ''key1''),
     db_StoreGet = (\<lambda>tr key. Inr None),
     db_getSharedRef = (\<lambda>tr docid. if docid = ''io.cozy.files/f1'' then Inr local_shared
                                      else Inl (CouchError 404 ''missing'')),
     db_getFile = (\<lambda>tr docid. if docid = ''f1'' then None else Some (CouchError 404 ''missing'')),
     db_getSharing = (\<lambda>tr docid. Inr (team_sharing\<lparr>SRev := ''2-s''\<rparr>)),
     db_getOrganization = (\<lambda>tr docid. None),
     db_getOld = (\<lambda>tr doctype docid. None),
     db_put = (\<lambda>tr doc. Inr ''3-s''),
     db_ExecView = (\<lambda>tr key. Inr []) \<rparr>"

definition calm_sh :: sharing_oracle where
  "calm_sh = \<lparr>
     sh_recreateParent = (\<lambda>tr docid. Inr \<lparr>dir_DocID = docid, dir_DocName = docid, dir_DirID = ''root'',
                                              dir_Fullpath = ''/'' @ docid\<rparr>),
     sh_GetSharingDir = (\<lambda>tr. Inr \<lparr>dir_DocID = ''d1'', dir_DocName = ''docs'', dir_DirID = ''root'',
                                      dir_Fullpath = ''/docs''\<rparr>),
     sh_EnsureSharedWithMeDir = (\<lambda>tr. Inr \<lparr>dir_DocID = ''d0'', dir_DocName = ''shared'', dir_DirID = ''root'',
                                              dir_Fullpath = ''/shared''\<rparr>),
     sh_resolveConflictSamePath = (\<lambda>tr docid pth. Inr []),
     sh_DeleteOAuthClient = (\<lambda>tr m c. None),
     sh_ClearLastSequenceNumbers = (\<lambda>tr m. None),
     sh_RemoveSharedRefs = (\<lambda>tr sid. None),
     sh_RemoveSharingDir = (\<lambda>tr. None),
     sh_DeleteTrigger = (\<lambda>tr docid. None),
     sh_orgDelete = (\<lambda>tr docid. None),
     sh_Req = (\<lambda>tr opts. (Some \<lparr>StatusCode = 204, res_Body = []\<rparr>, None)),
     sh_RefreshToken = (\<lambda>tr opts. (Some \<lparr>StatusCode = 204, res_Body = []\<rparr>, None)) \<rparr>"

definition calm_env :: env where
  "calm_env = \<lparr>pure = plain_helpers, net = plain_nethelpers, vfs = calm_vfs, db = calm_db, sh = calm_sh\<rparr>"

text \<open>CouchDB answers the first update of a document with a conflict, the later ones with success.\<close>

fun is_Put :: "event \<Rightarrow> bool" where
  "is_Put (Couch_Put doc) = True"
| "is_Put e = False"

definition conflict_once_env :: env where
  "conflict_once_env = calm_env\<lparr>db := calm_db\<lparr>db_put :=
     (\<lambda>tr doc. if list_ex is_Put tr then Inr ''3-s'' else Inl (CouchError 409 ''conflict''))\<rparr>\<rparr>"

text \<open>The incoming documents: the file \<open>f1\<close> renamed and moved to \<open>d2\<close>, with new content.\<close>

definition incoming_doc :: FileDoc where
  "incoming_doc = note_doc\<lparr>DocRev := ''3-c'', DocName := ''memo.txt'', DirID := ''d2'', ByteSize := 3,
                           MD5Sum := Some [4, 5, 6]\<rparr>"

definition target_extends :: FileDocWithRevisions where
  "target_extends = \<lparr>fdr_Doc = incoming_doc, fdr_Revisions = \<lparr>Start = 3, IDs = [''3-c'', ''2-b'', ''1-a'']\<rparr>\<rparr>"

definition target_lost :: FileDocWithRevisions where
  "target_lost = \<lparr>fdr_Doc = incoming_doc\<lparr>DocRev := ''2-a''\<rparr>, fdr_Revisions = \<lparr>Start = 2, IDs = [''2-a'', ''1-a'']\<rparr>\<rparr>"

definition target_won :: FileDocWithRevisions where
  "target_won = \<lparr>fdr_Doc = incoming_doc\<lparr>DocRev := ''1-z''\<rparr>, fdr_Revisions = \<lparr>Start = 1, IDs = [''1-z'']\<rparr>\<rparr>"

text \<open>The same instance where the conflict copy of the incoming revision \<open>2-a\<close> is already there.\<close>

definition copy_exists_env :: env where
  "copy_exists_env = calm_env\<lparr>vfs := calm_vfs\<lparr>vfs_FileByID :=
     (\<lambda>tr fs docid. if docid = ''f1'' \<or> docid = ''f1~2-a'' then Inr local_doc else Inl os_ErrNotExist)\<rparr>\<rparr>"

text \<open>The same instance where the entry of \<open>f1\<close> is removed from the sharing.\<close>

definition removed_env :: env where
  "removed_env = calm_env\<lparr>db := calm_db\<lparr>db_getSharedRef :=
     (\<lambda>tr docid. Inr (local_shared\<lparr>sr_Infos := [(''s1'', \<lparr>Rule = 0, Binary = True, Removed = True,
                                                              Dissociated = False\<rparr>)]\<rparr>))\<rparr>\<rparr>"

text \<open>
  More incoming documents: a file \<open>f9\<close> that is not there and that no rule covers, the same
  without an MD5, the echo of the local revision, and a rename of \<open>f1\<close> with the same content.
\<close>

definition stray_target :: FileDocWithRevisions where
  "stray_target = \<lparr>fdr_Doc = incoming_doc\<lparr>DocID := ''f9''\<rparr>, fdr_Revisions = \<lparr>Start = 1, IDs = [''1-q'']\<rparr>\<rparr>"

definition nohash_target :: FileDocWithRevisions where
  "nohash_target = \<lparr>fdr_Doc = incoming_doc\<lparr>DocID := ''f9'', MD5Sum := None\<rparr>,
                     fdr_Revisions = \<lparr>Start = 1, IDs = [''1-q'']\<rparr>\<rparr>"




text \<open>
  Four more instances: the copy of the local revision \<open>2-b\<close> is already there; the local
  file cannot be opened; no file can be created; the copy of a body fails.
\<close>

definition won_copy_exists_env :: env where
  "won_copy_exists_env = calm_env\<lparr>vfs := calm_vfs\<lparr>vfs_FileByID :=
     (\<lambda>tr fs docid. if docid = ''f1'' \<or> docid = ''f1~2-b'' then Inr local_doc else Inl os_ErrNotExist)\<rparr>\<rparr>"

definition open_fails_env :: env where
  "open_fails_env = calm_env\<lparr>vfs := calm_vfs\<lparr>vfs_OpenFile := (\<lambda>tr fs d. Some (OtherError ''unreadable''))\<rparr>\<rparr>"

definition create_fails_env :: env where
  "create_fails_env = calm_env\<lparr>vfs := calm_vfs\<lparr>vfs_CreateFile :=
     (\<lambda>tr fs nd old. Inl (OtherError ''quota''))\<rparr>\<rparr>"

definition copy_fails_env :: env where
  "copy_fails_env = calm_env\<lparr>vfs := calm_vfs\<lparr>vfs_Copy := (\<lambda>tr fh b. Some (OtherError ''short read''))\<rparr>\<rparr>"

text \<open>
  The documents and indexers of the runs on these instances: the indexer and the document
  that \<open>UploadExistingFile\<close> prepares for an incoming document, the indexers of the two
  conflict copies, and the copies.
\<close>

definition ready_indexer :: "FileDocWithRevisions \<Rightarrow> sharingIndexer" where
  "ready_indexer t = newSharingIndexer \<lparr>Rev = DocRev (fdr_Doc t), Revisions = fdr_Revisions t\<rparr> (Some local_shared)"

definition ready_doc :: FileDoc where
  "ready_doc = local_doc\<lparr>DocName := ''memo.txt'', DirID := ''d2'', ByteSize := 3, MD5Sum := Some [4, 5, 6]\<rparr>"

definition ready_trace :: trace where
  "ready_trace = [Couch_Get consts_Shared ''io.cozy.files/f1'', VFS_DirByID VFS ''d2'']"

definition lost_indexer :: sharingIndexer where
  "lost_indexer = newSharingIndexer \<lparr>Rev = ''2-a'', Revisions = \<lparr>Start = 1, IDs = [''2-a'']\<rparr>\<rparr> None"

definition loser_doc :: FileDoc where
  "loser_doc = ready_doc\<lparr>DocID := ''f1~2-a'', DocRev := [], DocName := ''memo.txt (conflict)''\<rparr>"

definition won_indexer :: sharingIndexer where
  "won_indexer = newSharingIndexer \<lparr>Rev = ''2-b'', Revisions = \<lparr>Start = 1, IDs = [''2-b'']\<rparr>\<rparr> None"

definition kept_doc :: FileDoc where
  "kept_doc = local_doc\<lparr>DocID := ''f1~2-b'', DocName := ''note.txt (conflict)''\<rparr>"

text \<open>The document that receives the content under the old path, and the body of the request.\<close>

definition old_path_doc :: FileDoc where
  "old_path_doc = ready_doc\<lparr>DocName := ''note.txt'', DirID := ''d1''\<rparr>"

definition request_body :: body where
  "request_body = RequestBody ''xyz''"

text \<open>
  Three more answers of CouchDB to the update of a document: always a conflict; always
  another error; always a conflict, and the document cannot be read again.
\<close>

definition always_conflict_env :: env where
  "always_conflict_env = calm_env\<lparr>db := calm_db\<lparr>db_put := (\<lambda>tr doc. Inl (CouchError 409 ''conflict''))\<rparr>\<rparr>"

definition put_fails_env :: env where
  "put_fails_env = calm_env\<lparr>db := calm_db\<lparr>db_put := (\<lambda>tr doc. Inl (CouchError 500 ''internal''))\<rparr>\<rparr>"

definition reload_fails_env :: env where
  "reload_fails_env = calm_env\<lparr>db := calm_db\<lparr>db_put := (\<lambda>tr doc. Inl (CouchError 409 ''conflict'')),
                                                db_getSharing := (\<lambda>tr docid. Inl (CouchError 404 ''missing''))\<rparr>\<rparr>"


text \<open>The number of calls of \<open>couchdb.UpdateDoc\<close> in a trace.\<close>

fun is_UpdateDoc :: "event \<Rightarrow> bool" where
  "is_UpdateDoc (Couch_UpdateDoc s) = True"
| "is_UpdateDoc e = False"

definition updateAttempts :: "trace \<Rightarrow> nat" where
  "updateAttempts tr = length (filter is_UpdateDoc tr)"

text \<open>
  What the shared index says about a file and a sharing when it refuses the file: no entry,
  no information for this sharing in the entry, or the entry removed and not dissociated.
\<close>

definition refused :: "error + SharedRef \<Rightarrow> string \<Rightarrow> bool" where
  "refused answer sharingID =
     (case answer of
        Inl err \<Rightarrow> IsNotFoundError err
      | Inr shared \<Rightarrow>
          (case map_of (sr_Infos shared) sharingID of
             None \<Rightarrow> True
           | Some infos \<Rightarrow> Removed infos \<and> \<not> Dissociated infos))"

text \<open>
  The steps of a metadata update of the file \<open>current\<close>: the parent directory is looked up
  or recreated, the indexer is told about the revisions, the document is updated.  No
  content is created, copied or stored.
\<close>

fun metadata_step :: "FileDoc \<Rightarrow> event \<Rightarrow> bool" where
  "metadata_step current (VFS_UpdateFileDoc fs old new) = (old = current)"
| "metadata_step current (VFS_DirByID fs docid) = True"
| "metadata_step current (Doc_Path fs d) = True"
| "metadata_step current (Indexer_WillResolveConflict indexer r chain) = True"
| "metadata_step current (Indexer_IncrementRevision indexer) = True"
| "metadata_step current (Sharing_recreateParent docid) = True"
| "metadata_step current Sharing_GetSharingDir = True"
| "metadata_step current (Sharing_resolveConflictSamePath docid pth) = True"
| "metadata_step current e = False"

text \<open>
  The events that overwrite the file \<open>docid\<close>: new content or a new document for it
  (\<open>CreateFile\<close> and \<open>UpdateFileDoc\<close> with it as the old document), or its destruction.
  \<open>CreateFile\<close> without an old document creates a file and overwrites none.
\<close>

fun overwrites :: "string \<Rightarrow> event \<Rightarrow> bool" where
  "overwrites docid (VFS_CreateFile fs new (Some old)) = (DocID old = docid)"
| "overwrites docid (VFS_UpdateFileDoc fs old new) = (DocID old = docid)"
| "overwrites docid (VFS_DestroyFile fs d) = (DocID d = docid)"
| "overwrites docid e = False"

text \<open>The identifier of the \<open>SharedRef\<close> of an incoming file, and the name of its lock.\<close>

definition sid_of :: "FileDocWithRevisions \<Rightarrow> string" where
  "sid_of target = consts_Files @ ''/'' @ DocID (fdr_Doc target)"

definition lock_of :: "FileDocWithRevisions \<Rightarrow> string" where
  "lock_of target = ''shared/'' @ sid_of target"


text \<open>
  The events that undo a file creation on the local filesystem: a file is removed, a
  document is deleted from the index.
\<close>

fun cleanup_event :: "afero_event \<Rightarrow> bool" where
  "cleanup_event (FsRemove p) = True"
| "cleanup_event (IdxDeleteFileDoc d) = True"
| "cleanup_event e = False"

text \<open>The error of \<open>UpdateDoc\<close> after which \<open>RevokeByNotification\<close> tries again.\<close>

definition asks_retry :: "error option \<Rightarrow> bool" where
  "asks_retry e = (case e of None \<Rightarrow> False | Some err \<Rightarrow> IsConflictError err)"
section \<open>Properties of the Swift object names\<close>

text \<open>
  C8 (as the code has it): for a file document whose identifier is 32 bytes long and whose
  internal identifier is 16 bytes long, the object name is
  \<open>docid[0:22] / docid[22:27] / docid[27:32] / internal-id\<close>; a version of the same file,
  with another 16-byte internal identifier, has the same first 35 bytes (the prefix derived
  from the document identifier) followed by its own internal identifier.  Whenever the
  identifier is not 32 bytes long or the internal identifier is not 16 bytes long, the
  object name is the whole identifier, one slash and the internal identifier.  The container
  of an instance is \<open>cozy-v3-\<close> followed by the database prefix of the instance.
\<close>

theorem MakeObjectNameV3_layout:
  "(length docID = 32 \<and> length internalID = 16 \<longrightarrow>
      MakeObjectNameV3 docID internalID
        = slice docID 0 22 @ ''/'' @ slice docID 22 27 @ ''/'' @ slice docID 27 32 @ ''/'' @ internalID
      \<and> length (MakeObjectNameV3 docID internalID) = 51
      \<and> (length versionID = 16 \<longrightarrow>
            MakeObjectNameV3 docID versionID = take 35 (MakeObjectNameV3 docID internalID) @ versionID))
   \<and> (length docID \<noteq> 32 \<or> length internalID \<noteq> 16 \<longrightarrow>
        MakeObjectNameV3 docID internalID = docID @ ''/'' @ internalID)
   \<and> NewV3_container dbPrefix = ''cozy-v3-'' @ dbPrefix
   \<and> prefix ''cozy-v3-'' (NewV3_container dbPrefix)"
  by (auto simp add: MakeObjectNameV3_def slice_def NewV3_container_def swiftV3ContainerPrefix_def)

theorem MakeObjectNameV3_layout_witness:
  "length ''0123456789abcdef0123456789abcdef'' = 32 \<and> length ''0123456789ABCDEF'' = 16
   \<and> length ''GHIJKLMNOPQRSTUV'' = 16
   \<and> MakeObjectNameV3 ''0123456789abcdef0123456789abcdef'' ''0123456789ABCDEF''
        = ''0123456789abcdef012345/6789a/bcdef/0123456789ABCDEF''
   \<and> MakeObjectNameV3 ''0123456789abcdef0123456789abcdef'' ''GHIJKLMNOPQRSTUV''
        = ''0123456789abcdef012345/6789a/bcdef/GHIJKLMNOPQRSTUV''
   \<and> length ''io.cozy.files.root-dir'' \<noteq> 32
   \<and> MakeObjectNameV3 ''io.cozy.files.root-dir'' ''0123456789ABCDEF''
        = ''io.cozy.files.root-dir/0123456789ABCDEF''
   \<and> length ''short'' \<noteq> 16
   \<and> MakeObjectNameV3 ''0123456789abcdef0123456789abcdef'' ''short''
        = ''0123456789abcdef0123456789abcdef/short''
   \<and> prefix ''cozy-v3-'' (NewV3_container ''cozy1234'')"
proof -
  have h1: "length ''0123456789abcdef0123456789abcdef'' = 32 \<and> length ''0123456789ABCDEF'' = 16"
    by simp
  have h3: "length ''GHIJKLMNOPQRSTUV'' = 16" by simp
  have h4: "length ''io.cozy.files.root-dir'' \<noteq> 32 \<or> length ''0123456789ABCDEF'' \<noteq> 16" by simp
  have h5: "length ''0123456789abcdef0123456789abcdef'' \<noteq> 32 \<or> length ''short'' \<noteq> 16" by simp
  from MakeObjectNameV3_layout
         [of "''0123456789abcdef0123456789abcdef''" "''0123456789ABCDEF''" "''GHIJKLMNOPQRSTUV''" "''cozy1234''"]
       h1 h3
  have a: "MakeObjectNameV3 ''0123456789abcdef0123456789abcdef'' ''0123456789ABCDEF''
        = ''0123456789abcdef012345/6789a/bcdef/0123456789ABCDEF''
      \<and> MakeObjectNameV3 ''0123456789abcdef0123456789abcdef'' ''GHIJKLMNOPQRSTUV''
        = ''0123456789abcdef012345/6789a/bcdef/GHIJKLMNOPQRSTUV''
      \<and> prefix ''cozy-v3-'' (NewV3_container ''cozy1234'')"
    by (simp add: slice_def)
  from MakeObjectNameV3_layout [of "''io.cozy.files.root-dir''" "''0123456789ABCDEF''"] h4
  have b: "MakeObjectNameV3 ''io.cozy.files.root-dir'' ''0123456789ABCDEF''
        = ''io.cozy.files.root-dir/0123456789ABCDEF''"
    by simp
  from MakeObjectNameV3_layout [of "''0123456789abcdef0123456789abcdef''" "''short''"] h5
  have c: "MakeObjectNameV3 ''0123456789abcdef0123456789abcdef'' ''short''
        = ''0123456789abcdef0123456789abcdef/short''"
    by simp
  from a b c show ?thesis by simp
qed

text \<open>
  C8 fails as stated for a document identifier that is not 32 bytes long: the name is then
  the whole identifier, a slash and the internal identifier, without the two inner slashes.
\<close>

theorem MakeObjectNameV3_other_length:
  "MakeObjectNameV3 ''0123456789abcdef0123456789abcdefX'' ''0123456789ABCDEF''
     = ''0123456789abcdef0123456789abcdefX/0123456789ABCDEF''
   \<and> MakeObjectNameV3 ''0123456789abcdef0123456789abcdefX'' ''0123456789ABCDEF''
     \<noteq> slice ''0123456789abcdef0123456789abcdefX'' 0 22 @ ''/''
        @ slice ''0123456789abcdef0123456789abcdefX'' 22 27 @ ''/''
        @ slice ''0123456789abcdef0123456789abcdefX'' 27 32 @ ''/'' @ ''0123456789ABCDEF''"
  by (simp add: MakeObjectNameV3_def slice_def)

section \<open>Properties of the local-filesystem back-end\<close>

text \<open>
  C7 (as the code has it): when the cleaned destination has the cleaned source followed by
  a slash as a prefix, \<open>safeRenameDir\<close> fails and calls neither \<open>Stat\<close> nor \<open>Rename\<close> (the
  trace is unchanged), so a directory is never moved into its own descendant.  The error is
  \<open>ErrForbiddenDocMove\<close> when both cleaned paths are absolute, and \<open>ErrNonAbsolutePath\<close>
  otherwise, because the test for absolute paths comes first.
\<close>

theorem safeRenameDir_into_descendant:
  "strings_HasPrefix (path_Clean newpath) (path_Clean oldpath @ ''/'') \<Longrightarrow>
   safeRenameDir afs oldpath newpath tr =
     (Some (if path_IsAbs (path_Clean newpath) \<and> path_IsAbs (path_Clean oldpath)
            then ErrForbiddenDocMove else ErrNonAbsolutePath), tr)"
  by (simp add: safeRenameDir_def Let_def)

theorem safeRenameDir_into_descendant_witness:
  "strings_HasPrefix (path_Clean ''/a/b/../c'') (path_Clean ''/a/'' @ ''/'')
   \<and> safeRenameDir quiet_afs ''/a/'' ''/a/b/../c'' [] = (Some ErrForbiddenDocMove, [])"
proof -
  have h: "strings_HasPrefix (path_Clean ''/a/b/../c'') (path_Clean ''/a/'' @ ''/'')"
    by (simp add: strings_HasPrefix_def path_Clean_def)
  have "path_IsAbs (path_Clean ''/a/b/../c'') \<and> path_IsAbs (path_Clean ''/a/'')"
    by (simp add: path_Clean_def path_IsAbs_def)
  with safeRenameDir_into_descendant [OF h, of quiet_afs "[]"] h show ?thesis by simp
qed

text \<open>
  C7 fails as stated for relative paths: \<open>a/b\<close> is a proper descendant of \<open>a\<close>, and the
  error is \<open>ErrNonAbsolutePath\<close>, not \<open>ErrForbiddenDocMove\<close>.
\<close>

theorem safeRenameDir_relative_paths:
  "strings_HasPrefix (path_Clean ''a/b'') (path_Clean ''a'' @ ''/'')
   \<and> safeRenameDir quiet_afs ''a'' ''a/b'' [] = (Some ErrNonAbsolutePath, [])"
  by (simp add: safeRenameDir_def strings_HasPrefix_def path_Clean_def path_IsAbs_def)

subsection \<open>Closing a file creation\<close>

text \<open>A successful \<open>Write\<close> counts the bytes and feeds them to the hash.\<close>

lemma Write_success:
  "Write afs f p tr = ((n, None), f', tr') \<Longrightarrow>
     fc_w f' = fc_w f + n \<and> fc_hash f' = fc_hash f @ p \<and> fc_err f' = fc_err f
     \<and> fc_newdoc f' = fc_newdoc f \<and> fc_size f' = fc_size f"
  by (auto simp add: Write_def Write_meta_def Let_def split: prod.splits option.splits if_splits)

lemma Close_checked_hash:
  "fc_err f = None \<Longrightarrow> MD5Sum nd \<noteq> None
   \<Longrightarrow> \<not> bytes_Equal (MD5Sum nd) (Some (a_md5 afs (fc_hash f)))
   \<Longrightarrow> fst (Close_checked afs f nd tr) = Returns (Some ErrInvalidHash)"
  by (auto simp add: Close_checked_def Let_def)

lemma Close_checked_size:
  "fc_err f = None \<Longrightarrow> MD5Sum nd = None \<or> bytes_Equal (MD5Sum nd) (Some (a_md5 afs (fc_hash f)))
   \<Longrightarrow> 0 \<le> fc_size f \<Longrightarrow> ByteSize nd \<noteq> fc_w f
   \<Longrightarrow> fst (Close_checked afs f nd tr) = Returns (Some ErrContentLengthMismatch)"
  by (auto simp add: Close_checked_def Let_def bytes_Equal_def)

lemma fst_cleanup:
  "fst (case X of
          (Returns (Some err), nd, tr3) \<Rightarrow> (Returns (Some err), nd, g err nd tr3)
        | (r, nd, tr3) \<Rightarrow> (r, nd, tr3)) = fst X"
  by (auto split: prod.splits go.splits option.splits)

lemma fst_Close:
  "a_FClose afs tr = None \<Longrightarrow>
     fst (Close afs f tr) =
     fst (Close_checked afs f
            (if fc_meta f \<and> a_MetaClose afs (tr @ [FClose]) = None
             then (fc_newdoc f)\<lparr>Metadata := a_MergeMetadata afs (Metadata (fc_newdoc f))
                                               (a_MetaResult afs (tr @ [FClose, MetaClose]))\<rparr>
             else fc_newdoc f)
            (if fc_meta f then tr @ [FClose, MetaClose] else tr @ [FClose]))"
  unfolding Close_def Let_def fst_cleanup by simp

lemma fst_Close_recorded:
  "fc_err f = Some e \<Longrightarrow> fst (Close afs f tr) = Returns (Some e)"
  unfolding Close_def Let_def fst_cleanup
  by (simp add: Close_checked_def split: option.splits)

lemma fst_Close_unclosed:
  "fc_err f = None \<Longrightarrow> a_FClose afs tr = Some e \<Longrightarrow> fst (Close afs f tr) = Returns (Some e)"
  unfolding Close_def Let_def fst_cleanup
  by (simp add: Close_checked_def split: option.splits)

lemma Write_records_error:
  "Write afs f0 p tr0 = ((n, Some e), f, trw) \<Longrightarrow> fc_err f = Some e"
  by (auto simp add: Write_def Write_meta_def Let_def split: prod.splits option.splits if_splits)

lemma Write_too_long:
  assumes "Write afs f0 p tr0 = (res, f, trw)"
    and "a_FWrite afs (snd (Write_meta afs f0 p tr0)) p = (n, None)"
    and "\<not> (0 \<le> fc_maxsize f0 \<and> fc_maxsize f0 < fc_w f0 + n)"
    and "0 \<le> fc_size f0" and "fc_size f0 < fc_w f0 + n"
  shows "res = (n, Some ErrContentLengthMismatch) \<and> fc_err f = Some ErrContentLengthMismatch"
  using assms
  by (auto simp add: Write_def Write_meta_def Let_def split: prod.splits option.splits if_splits)

text \<open>Before its deferred clean-up, a failing \<open>Close\<close> removes no file and deletes no document.\<close>

lemma Close_move_error_trace:
  "Close_move afs f nd newpath v tr = (Returns (Some err), tr') \<Longrightarrow>
     \<exists>body. tr' = tr @ body \<and> list_all (\<lambda>e. \<not> cleanup_event e) body"
  by (auto simp add: Close_move_def Close_stash_def split: option.splits prod.splits bool.splits if_splits)

lemma Close_locked_error_trace:
  "Close_locked afs f nd tr = (Returns (Some err), nd', tr') \<Longrightarrow>
     \<exists>body. tr' = tr @ body \<and> list_all (\<lambda>e. \<not> cleanup_event e) body"
  unfolding Close_locked_def Close_exists_def Close_index_def
  by (auto split: option.splits prod.splits sum.splits if_splits dest!: Close_move_error_trace)

lemma Close_checked_error_trace:
  "Close_checked afs f nd tr = (Returns (Some err), nd', tr') \<Longrightarrow>
     \<exists>body. tr' = tr @ body \<and> list_all (\<lambda>e. \<not> cleanup_event e) body"
  unfolding Close_checked_def Let_def
  by (auto split: option.splits prod.splits if_splits dest!: Close_locked_error_trace)

lemma Close_cleanup:
  assumes "Close afs f tr = (Returns (Some err), nd, tr')"
  shows "\<exists>body. tr' = tr @ body @ FsRemove (fc_tmppath f)
                    # (if fc_olddoc f = None \<and> \<not> IsCouchError err then [IdxDeleteFileDoc nd] else [])
              \<and> list_all (\<lambda>e. \<not> cleanup_event e) body"
proof -
  define ferr where "ferr = (case a_FClose afs tr of
                    None \<Rightarrow> fc_err f
                  | Some err \<Rightarrow> if fc_err f = None then Some err else fc_err f)"
  define tr1 where "tr1 = (case a_FClose afs tr of
                   None \<Rightarrow> tr @ [FClose]
                 | Some err \<Rightarrow> if fc_meta f then tr @ [FClose, MetaAbort err] else tr @ [FClose])"
  define merged where "merged = (if fc_meta f \<and> a_MetaClose afs tr1 = None
                    then (fc_newdoc f)\<lparr>Metadata := a_MergeMetadata afs (Metadata (fc_newdoc f)) (a_MetaResult afs (tr1 @ [MetaClose]))\<rparr>
                    else fc_newdoc f)"
  define tr2 where "tr2 = (if fc_meta f then tr1 @ [MetaClose] else tr1)"
  obtain r3 nd3 tr3 where c: "Close_checked afs (f\<lparr>fc_err := ferr\<rparr>) merged tr2 = (r3, nd3, tr3)"
    by (cases "Close_checked afs (f\<lparr>fc_err := ferr\<rparr>) merged tr2") auto
  have whole: "Close afs f tr =
      (case (r3, nd3, tr3) of
           (Returns (Some err), nd, tr3) \<Rightarrow>
             (Returns (Some err), nd,
              if fc_olddoc f = None \<and> \<not> IsCouchError err
              then tr3 @ [FsRemove (fc_tmppath f), IdxDeleteFileDoc nd]
              else tr3 @ [FsRemove (fc_tmppath f)])
         | (r, nd, tr3) \<Rightarrow> (r, nd, tr3))"
    unfolding Close_def Let_def c [symmetric] ferr_def tr1_def merged_def tr2_def by (rule refl)
  from assms whole have r3: "r3 = Returns (Some err)" and nd3: "nd3 = nd"
    and tr': "tr' = (if fc_olddoc f = None \<and> \<not> IsCouchError err
              then tr3 @ [FsRemove (fc_tmppath f), IdxDeleteFileDoc nd]
              else tr3 @ [FsRemove (fc_tmppath f)])"
    by (auto split: go.splits option.splits)
  from Close_checked_error_trace [OF c [unfolded r3]]
  obtain body where body: "tr3 = tr2 @ body" "list_all (\<lambda>e. \<not> cleanup_event e) body" by blast
  have pre: "\<exists>p. tr2 = tr @ p \<and> list_all (\<lambda>e. \<not> cleanup_event e) p"
    unfolding tr2_def tr1_def by (auto split: option.splits)
  then obtain p where p: "tr2 = tr @ p" "list_all (\<lambda>e. \<not> cleanup_event e) p" by blast
  show ?thesis
  proof (intro exI [of _ "p @ body"] conjI)
    show "tr' = tr @ (p @ body) @ FsRemove (fc_tmppath f)
                    # (if fc_olddoc f = None \<and> \<not> IsCouchError err then [IdxDeleteFileDoc nd] else [])"
      using tr' body(1) p(1) by simp
    show "list_all (\<lambda>e. \<not> cleanup_event e) (p @ body)"
      using body(2) p(2) by simp
  qed
qed

text \<open>
  C5 (as the code has it), for the handle of the local-filesystem back-end.  \<open>Close\<close> runs
  its checks in this order and fails at the first that applies:

  - an error recorded by a \<open>Write\<close> is returned; a \<open>Write\<close> that returns an error records it,
    and a \<open>Write\<close> that takes the bytes written over the declared size (\<open>f.size\<close>, when it is
    not negative and the maximal size is not exceeded) records \<open>ErrContentLengthMismatch\<close>;
  - else the error of the close of the temporary file is returned;
  - else \<open>ErrInvalidHash\<close> is returned if the document declares an MD5 (not nil) that differs
    from the MD5 of the bytes written;
  - else \<open>ErrContentLengthMismatch\<close> is returned if the size is declared and the declared size
    differs from the number of bytes written.

  Whenever \<open>Close\<close> returns an error, its own steps remove no file and delete no document
  from the index; then the deferred function removes the temporary file; then, if there is
  no old document and the error is not a CouchDB error, it deletes the document from the
  index, and these are the last events.  For a CouchDB error, or with an old document, no
  document is deleted from the index at all.
\<close>

theorem Close_failure:
  assumes "Close afs f tr = (r, nd, tr')"
  shows "(\<forall>e. fc_err f = Some e \<longrightarrow> r = Returns (Some e))
       \<and> (\<forall>f0 p tr0 n e trw. Write afs f0 p tr0 = ((n, Some e), f, trw) \<longrightarrow> r = Returns (Some e))
       \<and> (\<forall>f0 p tr0 n res trw.
             Write afs f0 p tr0 = (res, f, trw)
             \<and> a_FWrite afs (snd (Write_meta afs f0 p tr0)) p = (n, None)
             \<and> \<not> (0 \<le> fc_maxsize f0 \<and> fc_maxsize f0 < fc_w f0 + n)
             \<and> 0 \<le> fc_size f0 \<and> fc_size f0 < fc_w f0 + n
           \<longrightarrow> res = (n, Some ErrContentLengthMismatch) \<and> r = Returns (Some ErrContentLengthMismatch))
       \<and> (\<forall>e. fc_err f = None \<and> a_FClose afs tr = Some e \<longrightarrow> r = Returns (Some e))
       \<and> (fc_err f = None \<and> a_FClose afs tr = None \<and> MD5Sum (fc_newdoc f) \<noteq> None
            \<and> \<not> bytes_Equal (MD5Sum (fc_newdoc f)) (Some (a_md5 afs (fc_hash f)))
          \<longrightarrow> r = Returns (Some ErrInvalidHash))
       \<and> (fc_err f = None \<and> a_FClose afs tr = None
            \<and> (MD5Sum (fc_newdoc f) = None
                 \<or> bytes_Equal (MD5Sum (fc_newdoc f)) (Some (a_md5 afs (fc_hash f))))
            \<and> 0 \<le> fc_size f \<and> ByteSize (fc_newdoc f) \<noteq> fc_w f
          \<longrightarrow> r = Returns (Some ErrContentLengthMismatch))
       \<and> (\<forall>err. r = Returns (Some err) \<longrightarrow>
            (\<exists>body. tr' = tr @ body @ FsRemove (fc_tmppath f)
                        # (if fc_olddoc f = None \<and> \<not> IsCouchError err then [IdxDeleteFileDoc nd] else [])
                  \<and> list_all (\<lambda>e. \<not> cleanup_event e) body))"
proof -
  have r: "r = fst (Close afs f tr)" using assms by simp
  have 1: "\<forall>e. fc_err f = Some e \<longrightarrow> r = Returns (Some e)"
    using r by (simp add: fst_Close_recorded)
  have 2: "\<forall>f0 p tr0 n e trw. Write afs f0 p tr0 = ((n, Some e), f, trw) \<longrightarrow> r = Returns (Some e)"
    using r by (auto dest!: Write_records_error simp add: fst_Close_recorded)
  have 3: "\<forall>f0 p tr0 n res trw.
             Write afs f0 p tr0 = (res, f, trw)
             \<and> a_FWrite afs (snd (Write_meta afs f0 p tr0)) p = (n, None)
             \<and> \<not> (0 \<le> fc_maxsize f0 \<and> fc_maxsize f0 < fc_w f0 + n)
             \<and> 0 \<le> fc_size f0 \<and> fc_size f0 < fc_w f0 + n
           \<longrightarrow> res = (n, Some ErrContentLengthMismatch) \<and> r = Returns (Some ErrContentLengthMismatch)"
  proof (intro allI impI)
    fix f0 p tr0 n res trw
    assume a: "Write afs f0 p tr0 = (res, f, trw)
             \<and> a_FWrite afs (snd (Write_meta afs f0 p tr0)) p = (n, None)
             \<and> \<not> (0 \<le> fc_maxsize f0 \<and> fc_maxsize f0 < fc_w f0 + n)
             \<and> 0 \<le> fc_size f0 \<and> fc_size f0 < fc_w f0 + n"
    then have "res = (n, Some ErrContentLengthMismatch) \<and> fc_err f = Some ErrContentLengthMismatch"
      using Write_too_long [of afs f0 p tr0 res f trw n] by blast
    with r show "res = (n, Some ErrContentLengthMismatch) \<and> r = Returns (Some ErrContentLengthMismatch)"
      by (simp add: fst_Close_recorded)
  qed
  have 4: "\<forall>e. fc_err f = None \<and> a_FClose afs tr = Some e \<longrightarrow> r = Returns (Some e)"
    using r by (simp add: fst_Close_unclosed)
  have 5: "fc_err f = None \<and> a_FClose afs tr = None \<and> MD5Sum (fc_newdoc f) \<noteq> None
            \<and> \<not> bytes_Equal (MD5Sum (fc_newdoc f)) (Some (a_md5 afs (fc_hash f)))
          \<longrightarrow> r = Returns (Some ErrInvalidHash)"
    using r fst_Close [of afs tr f] by (simp add: Close_checked_hash)
  have 6: "fc_err f = None \<and> a_FClose afs tr = None
            \<and> (MD5Sum (fc_newdoc f) = None
                 \<or> bytes_Equal (MD5Sum (fc_newdoc f)) (Some (a_md5 afs (fc_hash f))))
            \<and> 0 \<le> fc_size f \<and> ByteSize (fc_newdoc f) \<noteq> fc_w f
          \<longrightarrow> r = Returns (Some ErrContentLengthMismatch)"
    using r fst_Close [of afs tr f] by (simp add: Close_checked_size)
  have 7: "\<forall>err. r = Returns (Some err) \<longrightarrow>
            (\<exists>body. tr' = tr @ body @ FsRemove (fc_tmppath f)
                        # (if fc_olddoc f = None \<and> \<not> IsCouchError err then [IdxDeleteFileDoc nd] else [])
                  \<and> list_all (\<lambda>e. \<not> cleanup_event e) body)"
    using assms Close_cleanup by blast
  from 1 2 3 4 5 6 7 show ?thesis by blast
qed

lemma Close_bad_hash_upload:
  "Close quiet_afs bad_hash_upload []
     = (Returns (Some ErrInvalidHash), note_doc\<lparr>MD5Sum := Some [7, 7]\<rparr>,
        [FClose, FsRemove ''/note.tmp'', IdxDeleteFileDoc (note_doc\<lparr>MD5Sum := Some [7, 7]\<rparr>)])"
  by (simp add: Close_def Close_checked_def bad_hash_upload_def note_upload_def note_doc_def
      quiet_afs_def bytes_Equal_def Let_def)

lemma Close_bad_size_upload:
  "Close quiet_afs bad_size_upload []
     = (Returns (Some ErrContentLengthMismatch), note_doc\<lparr>ByteSize := 3\<rparr>,
        [FClose, FsRemove ''/note.tmp'', IdxDeleteFileDoc (note_doc\<lparr>ByteSize := 3\<rparr>)])"
  by (simp add: Close_def Close_checked_def bad_size_upload_def note_upload_def note_doc_def
      quiet_afs_def bytes_Equal_def Let_def)

lemma Write_long_upload:
  "Write quiet_afs note_upload [9] []
     = ((1, Some ErrContentLengthMismatch),
        note_upload\<lparr>fc_w := 3, fc_err := Some ErrContentLengthMismatch\<rparr>, [FWrite [9]])"
  by (simp add: Write_def Write_meta_def note_upload_def quiet_afs_def Let_def)

lemma Close_conflict_upload:
  "Close conflict_afs note_upload []
     = (Returns (Some (CouchError 409 ''conflict'')), note_doc,
        [FClose, MuLock, IdxDirChildExists ''d1'' ''note.txt'', IdxFilePath note_doc,
         IdxCreateNamedFileDoc note_doc, MuUnlock, FsRemove ''/note.tmp''])"
  by (simp add: Close_def Close_checked_def Close_locked_def Close_exists_def Close_index_def
      conflict_afs_def note_upload_def note_doc_def quiet_afs_def bytes_Equal_def
      strings_HasPrefix_def Let_def)

text \<open>
  The theorem at work on the creation of \<open>note.txt\<close> (two bytes declared, two written):
  a third byte is written; the temporary file does not close; the declared MD5 is another
  one; the declared size is 3; CouchDB refuses the document.
\<close>

theorem Close_failure_witness:
  "Write quiet_afs note_upload [9] []
     = ((1, Some ErrContentLengthMismatch),
        note_upload\<lparr>fc_w := 3, fc_err := Some ErrContentLengthMismatch\<rparr>, [FWrite [9]])
   \<and> a_FWrite quiet_afs (snd (Write_meta quiet_afs note_upload [9] [])) [9] = (1, None)
   \<and> 0 \<le> fc_size note_upload \<and> fc_size note_upload < fc_w note_upload + 1
   \<and> fst (Close quiet_afs (note_upload\<lparr>fc_w := 3, fc_err := Some ErrContentLengthMismatch\<rparr>) [FWrite [9]])
       = Returns (Some ErrContentLengthMismatch)
   \<and> fc_err note_upload = None
   \<and> fst (Close (quiet_afs\<lparr>a_FClose := (\<lambda>tr. Some (OtherError ''io''))\<rparr>) note_upload [])
       = Returns (Some (OtherError ''io''))
   \<and> fc_err bad_hash_upload = None \<and> a_FClose quiet_afs [] = None
   \<and> MD5Sum (fc_newdoc bad_hash_upload) \<noteq> None
   \<and> \<not> bytes_Equal (MD5Sum (fc_newdoc bad_hash_upload)) (Some (a_md5 quiet_afs (fc_hash bad_hash_upload)))
   \<and> fst (Close quiet_afs bad_hash_upload []) = Returns (Some ErrInvalidHash)
   \<and> fc_err bad_size_upload = None
   \<and> bytes_Equal (MD5Sum (fc_newdoc bad_size_upload)) (Some (a_md5 quiet_afs (fc_hash bad_size_upload)))
   \<and> 0 \<le> fc_size bad_size_upload \<and> ByteSize (fc_newdoc bad_size_upload) \<noteq> fc_w bad_size_upload
   \<and> fst (Close quiet_afs bad_size_upload []) = Returns (Some ErrContentLengthMismatch)
   \<and> fc_olddoc bad_size_upload = None \<and> \<not> IsCouchError ErrContentLengthMismatch
   \<and> (\<exists>body. snd (snd (Close quiet_afs bad_size_upload []))
          = body @ [FsRemove (fc_tmppath bad_size_upload), IdxDeleteFileDoc (note_doc\<lparr>ByteSize := 3\<rparr>)]
        \<and> list_all (\<lambda>e. \<not> cleanup_event e) body)
   \<and> IsCouchError (CouchError 409 ''conflict'')
   \<and> (\<exists>body. snd (snd (Close conflict_afs note_upload [])) = body @ [FsRemove (fc_tmppath note_upload)]
        \<and> list_all (\<lambda>e. \<not> cleanup_event e) body)"
proof -
  let ?long = "note_upload\<lparr>fc_w := 3, fc_err := Some ErrContentLengthMismatch\<rparr>"
  let ?unclosed = "quiet_afs\<lparr>a_FClose := (\<lambda>tr. Some (OtherError ''io''))\<rparr>"
  have w: "a_FWrite quiet_afs (snd (Write_meta quiet_afs note_upload [9] [])) [9] = (1, None)
      \<and> \<not> (0 \<le> fc_maxsize note_upload \<and> fc_maxsize note_upload < fc_w note_upload + 1)
      \<and> 0 \<le> fc_size note_upload \<and> fc_size note_upload < fc_w note_upload + 1"
    by (simp add: Write_meta_def note_upload_def quiet_afs_def)
  have h0: "fc_err note_upload = None \<and> a_FClose ?unclosed [] = Some (OtherError ''io'')"
    by (simp add: note_upload_def)
  have h1: "fc_err bad_hash_upload = None \<and> a_FClose quiet_afs [] = None
      \<and> MD5Sum (fc_newdoc bad_hash_upload) \<noteq> None
      \<and> \<not> bytes_Equal (MD5Sum (fc_newdoc bad_hash_upload)) (Some (a_md5 quiet_afs (fc_hash bad_hash_upload)))"
    by (simp add: bad_hash_upload_def note_upload_def note_doc_def quiet_afs_def bytes_Equal_def)
  have h2: "fc_err bad_size_upload = None \<and> a_FClose quiet_afs [] = None
      \<and> (MD5Sum (fc_newdoc bad_size_upload) = None
           \<or> bytes_Equal (MD5Sum (fc_newdoc bad_size_upload)) (Some (a_md5 quiet_afs (fc_hash bad_size_upload))))
      \<and> 0 \<le> fc_size bad_size_upload \<and> ByteSize (fc_newdoc bad_size_upload) \<noteq> fc_w bad_size_upload"
    by (simp add: bad_size_upload_def note_upload_def note_doc_def quiet_afs_def bytes_Equal_def)
  have h3: "fc_olddoc bad_size_upload = None \<and> \<not> IsCouchError ErrContentLengthMismatch"
    by (simp add: bad_size_upload_def note_upload_def)
  have h4: "bytes_Equal (MD5Sum (fc_newdoc bad_size_upload)) (Some (a_md5 quiet_afs (fc_hash bad_size_upload)))"
    by (simp add: bad_size_upload_def note_upload_def note_doc_def quiet_afs_def bytes_Equal_def)
  have h5: "fc_olddoc note_upload = None \<and> IsCouchError (CouchError 409 ''conflict'')"
    by (simp add: note_upload_def)
  obtain r0 nd0 tr0 where c0: "Close quiet_afs ?long [FWrite [9]] = (r0, nd0, tr0)"
    by (cases "Close quiet_afs ?long [FWrite [9]]") auto
  obtain ru ndu tru where cu: "Close ?unclosed note_upload [] = (ru, ndu, tru)"
    by (cases "Close ?unclosed note_upload []") auto
  obtain r1 nd1 tr1 where c1: "Close quiet_afs bad_hash_upload [] = (r1, nd1, tr1)"
    by (cases "Close quiet_afs bad_hash_upload []") auto
  obtain r2 nd2 tr2 where c2: "Close quiet_afs bad_size_upload [] = (r2, nd2, tr2)"
    by (cases "Close quiet_afs bad_size_upload []") auto
  obtain r3 nd3 tr3 where c3: "Close conflict_afs note_upload [] = (r3, nd3, tr3)"
    by (cases "Close conflict_afs note_upload []") auto
  have n2: "nd2 = note_doc\<lparr>ByteSize := 3\<rparr>"
    using c2 by (simp add: Close_bad_size_upload)
  have n3: "r3 = Returns (Some (CouchError 409 ''conflict''))"
    using c3 by (simp add: Close_conflict_upload)
  from Close_failure [OF c0] Write_long_upload w
  have r0: "r0 = Returns (Some ErrContentLengthMismatch)" by blast
  from Close_failure [OF cu] h0 have ru: "ru = Returns (Some (OtherError ''io''))" by blast
  from Close_failure [OF c1] h1 have r1: "r1 = Returns (Some ErrInvalidHash)" by blast
  from Close_failure [OF c2] h2 have r2: "r2 = Returns (Some ErrContentLengthMismatch)" by blast
  from Close_failure [OF c2] r2 h3
  have t2: "\<exists>body. tr2 = body @ [FsRemove (fc_tmppath bad_size_upload), IdxDeleteFileDoc nd2]
              \<and> list_all (\<lambda>e. \<not> cleanup_event e) body"
    by simp
  from Close_failure [OF c3] n3 h5
  have t3: "\<exists>body. tr3 = body @ [FsRemove (fc_tmppath note_upload)]
              \<and> list_all (\<lambda>e. \<not> cleanup_event e) body"
    by simp
  from Write_long_upload w h0 h1 h2 h3 h4 h5 r0 ru r1 r2 t2 t3 c0 cu c1 c2 c3 n2
  show ?thesis by simp
qed

text \<open>
  C5 fails as stated when the error is a CouchDB error: for a new file that CouchDB refuses
  with a conflict, \<open>Close\<close> removes the temporary file and does not delete the index entry.
\<close>

theorem Close_couch_error_keeps_index_entry:
  "fc_olddoc note_upload = None
   \<and> Close conflict_afs note_upload []
       = (Returns (Some (CouchError 409 ''conflict'')), note_doc,
          [FClose, MuLock, IdxDirChildExists ''d1'' ''note.txt'', IdxFilePath note_doc,
           IdxCreateNamedFileDoc note_doc, MuUnlock, FsRemove ''/note.tmp''])"
  by (simp add: Close_def Close_checked_def Close_locked_def Close_exists_def Close_index_def
      conflict_afs_def note_upload_def note_doc_def quiet_afs_def bytes_Equal_def
      strings_HasPrefix_def Let_def)

section \<open>Properties of the revocation by notification\<close>

lemma updateAttempts_append [simp]:
  "updateAttempts (tr @ tr') = updateAttempts tr + updateAttempts tr'"
  by (simp add: updateAttempts_def)

lemma updateAttempts_Cons [simp]:
  "updateAttempts (e # tr) = (if is_UpdateDoc e then 1 else 0) + updateAttempts tr"
  by (simp add: updateAttempts_def)

lemma updateAttempts_Nil [simp]: "updateAttempts [] = 0"
  by (simp add: updateAttempts_def)

lemma UpdateDoc_attempts:
  "UpdateDoc E d tr = (err, d', tr') \<Longrightarrow> updateAttempts tr' = Suc (updateAttempts tr)"
  by (auto simp add: UpdateDoc_def Let_def split: sum.splits option.splits if_splits)

lemma GetDoc_Sharing_attempts:
  "GetDoc_Sharing E i out tr = (err, s', tr') \<Longrightarrow> updateAttempts tr' = updateAttempts tr"
  by (auto simp add: GetDoc_Sharing_def split: sum.splits option.splits if_splits)

lemma removeSharingTrigger_attempts:
  "removeSharingTrigger E i tr = (err, tr') \<Longrightarrow> updateAttempts tr' = updateAttempts tr"
  by (auto simp add: removeSharingTrigger_def split: option.splits if_splits)

lemma removeSharingTriggers_attempts:
  "removeSharingTriggers E ids tr = (err, tr') \<Longrightarrow> updateAttempts tr' = updateAttempts tr"
proof (induction ids arbitrary: tr)
  case Nil
  then show ?case by simp
next
  case (Cons i ids)
  obtain e1 tr1 where r: "removeSharingTrigger E i tr = (e1, tr1)"
    by (cases "removeSharingTrigger E i tr") auto
  with Cons show ?case
    by (cases e1) (auto dest: removeSharingTrigger_attempts)
qed

lemma RemoveTriggers_attempts:
  "RemoveTriggers E s tr = (err, s', tr') \<Longrightarrow> updateAttempts tr' = updateAttempts tr"
  unfolding RemoveTriggers_def
  by (auto split: prod.splits option.splits
      dest!: removeSharingTrigger_attempts removeSharingTriggers_attempts)

lemma RemoveBitwardenOrganization_attempts:
  "RemoveBitwardenOrganization E orgID tr = (err, tr') \<Longrightarrow> updateAttempts tr' = updateAttempts tr"
  by (auto simp add: RemoveBitwardenOrganization_def GetDoc_Organization_def
      split: prod.splits option.splits sum.splits if_splits)

lemma revokeCleanup_attempts:
  "revokeCleanup E s m0 tr = (err, tr') \<Longrightarrow> updateAttempts tr' = updateAttempts tr"
  unfolding revokeCleanup_def Let_def
  by (auto split: option.splits list.splits if_splits dest!: RemoveBitwardenOrganization_attempts)

text \<open>From the value \<open>i\<close> of the counter, the loop calls \<open>UpdateDoc\<close> at most \<open>3 - i\<close> times.\<close>

lemma revokeLoop_attempts:
  "updateAttempts (snd (revokeLoop E i s tr)) \<le> updateAttempts tr + (3 - i)"
proof (induction E i s tr rule: revokeLoop.induct)
  case (1 E i s tr)
  note unfold = revokeLoop.simps [of E i s tr]
  show ?case
  proof (cases "i < 3")
    case False
    then show ?thesis by (simp add: unfold)
  next
    case True
    obtain err s1 tr1 where u: "UpdateDoc E (revokedDoc s) tr = (err, s1, tr1)"
      by (cases "UpdateDoc E (revokedDoc s) tr") auto
    note a1 = UpdateDoc_attempts [OF u]
    show ?thesis
    proof (cases err)
      case None
      with True u a1 show ?thesis by (simp add: unfold)
    next
      case (Some e)
      show ?thesis
      proof (cases "IsConflictError e")
        case False
        with True u a1 Some show ?thesis by (simp add: unfold)
      next
        case conflict: True
        obtain errb s2 tr2 where g: "GetDoc_Sharing E (SID s1) s1 tr1 = (errb, s2, tr2)"
          by (cases "GetDoc_Sharing E (SID s1) s1 tr1") auto
        note a2 = GetDoc_Sharing_attempts [OF g]
        show ?thesis
        proof (cases errb)
          case None
          have "updateAttempts (snd (revokeLoop E (Suc i) s2 tr2)) \<le> updateAttempts tr2 + (3 - Suc i)"
            using "1.IH" [OF True, of err "(s1, tr1)" e s1 tr1 errb "(s2, tr2)" s2 tr2]
              u \<open>err = Some e\<close> conflict g None by simp
          with True u Some conflict g None a1 a2 show ?thesis by (simp add: unfold)
        next
          case (Some eb)
          with True u \<open>err = Some e\<close> conflict g a1 a2 show ?thesis by (simp add: unfold)
        qed
      qed
    qed
  qed
qed

lemma RevokeByNotification_attempts:
  "updateAttempts (snd (snd (RevokeByNotification E s tr))) \<le> updateAttempts tr + 3"
proof -
  have loop: "\<And>s1 tr2. updateAttempts tr2 = updateAttempts tr
      \<Longrightarrow> updateAttempts (snd (revokeLoop E 0 s1 tr2)) \<le> updateAttempts tr + 3"
    using revokeLoop_attempts [of E 0] by (metis diff_zero)
  show ?thesis
    unfolding RevokeByNotification_def
    by (auto split: list.splits option.splits prod.splits
        dest!: RemoveTriggers_attempts revokeCleanup_attempts intro: loop [THEN order_trans])
qed

text \<open>The loop from its start, round by round: it has at most three rounds.\<close>

lemma revokeLoop_rounds:
  assumes "UpdateDoc E (revokedDoc s1) tr2 = (e1, d1, t1)" and "GetDoc_Sharing E (SID d1) d1 t1 = (b1, r1, u1)"
    and "UpdateDoc E (revokedDoc r1) u1 = (e2, d2, t2)" and "GetDoc_Sharing E (SID d2) d2 t2 = (b2, r2, u2)"
    and "UpdateDoc E (revokedDoc r2) u2 = (e3, d3, t3)" and "GetDoc_Sharing E (SID d3) d3 t3 = (b3, r3, u3)"
  shows "revokeLoop E 0 s1 tr2 =
          (if \<not> asks_retry e1 then (d1, t1)
           else if b1 \<noteq> None then (r1, u1)
           else if \<not> asks_retry e2 then (d2, t2)
           else if b2 \<noteq> None then (r2, u2)
           else if \<not> asks_retry e3 then (d3, t3)
           else (r3, u3))"
  using assms
  by (simp add: revokeLoop.simps [of E 0 s1 tr2] revokeLoop.simps [of E "Suc 0" r1 u1]
      revokeLoop.simps [of E "Suc (Suc 0)" r2 u2] revokeLoop.simps [of E "Suc (Suc (Suc 0))" r3 u3]
      asks_retry_def split: option.splits)

lemma UpdateDoc_event:
  "UpdateDoc E d tr = (err, d', tr') \<Longrightarrow> \<exists>more. tr' = tr @ Couch_UpdateDoc d # more"
  by (auto simp add: UpdateDoc_def Let_def split: sum.splits option.splits if_splits)

lemma GetDoc_Sharing_reload:
  "GetDoc_Sharing E i out tr = (None, s', tr') \<Longrightarrow>
     tr' = tr @ [Couch_Get consts_Sharings i] \<and> db_getSharing (db E) tr i = Inr s'"
  by (auto simp add: GetDoc_Sharing_def GetDoc_id_def validateDocID_def split: sum.splits option.splits if_splits)

text \<open>
  C6.  \<open>RevokeByNotification\<close> calls \<open>UpdateDoc\<close> on the sharing at most three times.  When
  the steps before the loop succeed, the loop runs as follows, where \<open>e1, e2, e3\<close> are the
  errors of the three possible calls of \<open>UpdateDoc\<close> and \<open>b1, b2, b3\<close> those of the reloads
  that follow them:

  - the first call is always made, on the sharing with its triggers and credentials
    emptied, inactive, and its first recipient revoked;
  - a call that succeeds, or fails with an error that is not a CouchDB conflict, is the last
    event of the function: no reload and no other call follows;
  - after a conflict the document is read again from CouchDB; if that fails, the function
    ends there; if it succeeds, the next call (if fewer than three were made) is made on
    the document that was read, emptied and revoked in the same way;
  - after the third call no other call is made, so the number of calls is 1, 2 or 3 as given
    below.
\<close>

theorem RevokeByNotification_bounded_retry:
  "updateAttempts (snd (snd (RevokeByNotification E s tr))) \<le> updateAttempts tr + 3
   \<and> (\<not> Owner s \<and> Members s = m0 # ms \<and> Credentials s = c0 # cs
       \<and> sh_DeleteOAuthClient (sh E) tr m0 c0 = None
       \<and> RemoveTriggers E s (tr @ [Sharing_DeleteOAuthClient m0 c0]) = (None, s1, tr1)
       \<and> revokeCleanup E s1 m0 tr1 = (None, tr2)
       \<and> UpdateDoc E (revokedDoc s1) tr2 = (e1, d1, t1) \<and> GetDoc_Sharing E (SID d1) d1 t1 = (b1, r1, u1)
       \<and> UpdateDoc E (revokedDoc r1) u1 = (e2, d2, t2) \<and> GetDoc_Sharing E (SID d2) d2 t2 = (b2, r2, u2)
       \<and> UpdateDoc E (revokedDoc r2) u2 = (e3, d3, t3) \<and> GetDoc_Sharing E (SID d3) d3 t3 = (b3, r3, u3)
      \<longrightarrow>
        RevokeByNotification E s tr =
          (if \<not> asks_retry e1 then (Returns None, d1, t1)
           else if b1 \<noteq> None then (Returns None, r1, u1)
           else if \<not> asks_retry e2 then (Returns None, d2, t2)
           else if b2 \<noteq> None then (Returns None, r2, u2)
           else if \<not> asks_retry e3 then (Returns None, d3, t3)
           else (Returns None, r3, u3))
      \<and> updateAttempts (snd (snd (RevokeByNotification E s tr)))
          = updateAttempts tr + (if \<not> asks_retry e1 \<or> b1 \<noteq> None then 1
                                 else if \<not> asks_retry e2 \<or> b2 \<noteq> None then 2 else 3)
      \<and> updateAttempts tr2 = updateAttempts tr
      \<and> (\<exists>more. t1 = tr2 @ Couch_UpdateDoc (revokedDoc s1) # more) \<and> updateAttempts t1 = updateAttempts tr + 1
      \<and> (b1 = None \<longrightarrow> u1 = t1 @ [Couch_Get consts_Sharings (SID d1)]
                          \<and> db_getSharing (db E) t1 (SID d1) = Inr r1
                          \<and> (\<exists>more. t2 = u1 @ Couch_UpdateDoc (revokedDoc r1) # more)
                          \<and> updateAttempts t2 = updateAttempts tr + 2)
      \<and> (b1 = None \<and> b2 = None \<longrightarrow> u2 = t2 @ [Couch_Get consts_Sharings (SID d2)]
                          \<and> db_getSharing (db E) t2 (SID d2) = Inr r2
                          \<and> (\<exists>more. t3 = u2 @ Couch_UpdateDoc (revokedDoc r2) # more)
                          \<and> updateAttempts t3 = updateAttempts tr + 3
                          \<and> updateAttempts u3 = updateAttempts tr + 3))"
proof (intro conjI impI)
  show "updateAttempts (snd (snd (RevokeByNotification E s tr))) \<le> updateAttempts tr + 3"
    by (rule RevokeByNotification_attempts)
next
  assume a: "\<not> Owner s \<and> Members s = m0 # ms \<and> Credentials s = c0 # cs
       \<and> sh_DeleteOAuthClient (sh E) tr m0 c0 = None
       \<and> RemoveTriggers E s (tr @ [Sharing_DeleteOAuthClient m0 c0]) = (None, s1, tr1)
       \<and> revokeCleanup E s1 m0 tr1 = (None, tr2)
       \<and> UpdateDoc E (revokedDoc s1) tr2 = (e1, d1, t1) \<and> GetDoc_Sharing E (SID d1) d1 t1 = (b1, r1, u1)
       \<and> UpdateDoc E (revokedDoc r1) u1 = (e2, d2, t2) \<and> GetDoc_Sharing E (SID d2) d2 t2 = (b2, r2, u2)
       \<and> UpdateDoc E (revokedDoc r2) u2 = (e3, d3, t3) \<and> GetDoc_Sharing E (SID d3) d3 t3 = (b3, r3, u3)"
  then have up1: "UpdateDoc E (revokedDoc s1) tr2 = (e1, d1, t1)"
    and g1: "GetDoc_Sharing E (SID d1) d1 t1 = (b1, r1, u1)"
    and up2: "UpdateDoc E (revokedDoc r1) u1 = (e2, d2, t2)"
    and g2: "GetDoc_Sharing E (SID d2) d2 t2 = (b2, r2, u2)"
    and up3: "UpdateDoc E (revokedDoc r2) u2 = (e3, d3, t3)"
    and g3: "GetDoc_Sharing E (SID d3) d3 t3 = (b3, r3, u3)"
    by simp_all
  have c0: "updateAttempts tr2 = updateAttempts tr"
    using a RemoveTriggers_attempts [of E s "tr @ [Sharing_DeleteOAuthClient m0 c0]" None s1 tr1]
      revokeCleanup_attempts [of E s1 m0 tr1 None tr2] by simp
  note n1 = UpdateDoc_attempts [OF up1] GetDoc_Sharing_attempts [OF g1]
  note n2 = UpdateDoc_attempts [OF up2] GetDoc_Sharing_attempts [OF g2]
  note n3 = UpdateDoc_attempts [OF up3] GetDoc_Sharing_attempts [OF g3]
  have whole: "RevokeByNotification E s tr =
          (if \<not> asks_retry e1 then (Returns None, d1, t1)
           else if b1 \<noteq> None then (Returns None, r1, u1)
           else if \<not> asks_retry e2 then (Returns None, d2, t2)
           else if b2 \<noteq> None then (Returns None, r2, u2)
           else if \<not> asks_retry e3 then (Returns None, d3, t3)
           else (Returns None, r3, u3))"
    using a by (simp add: RevokeByNotification_def revokeLoop_rounds [OF up1 g1 up2 g2 up3 g3])
  show "RevokeByNotification E s tr =
          (if \<not> asks_retry e1 then (Returns None, d1, t1)
           else if b1 \<noteq> None then (Returns None, r1, u1)
           else if \<not> asks_retry e2 then (Returns None, d2, t2)
           else if b2 \<noteq> None then (Returns None, r2, u2)
           else if \<not> asks_retry e3 then (Returns None, d3, t3)
           else (Returns None, r3, u3))"
    by (rule whole)
  show "updateAttempts (snd (snd (RevokeByNotification E s tr)))
          = updateAttempts tr + (if \<not> asks_retry e1 \<or> b1 \<noteq> None then 1
                                 else if \<not> asks_retry e2 \<or> b2 \<noteq> None then 2 else 3)"
    using c0 n1 n2 n3 by (simp add: whole)
  show "updateAttempts tr2 = updateAttempts tr" by (rule c0)
  show "\<exists>more. t1 = tr2 @ Couch_UpdateDoc (revokedDoc s1) # more" by (rule UpdateDoc_event [OF up1])
  show "updateAttempts t1 = updateAttempts tr + 1" using c0 n1 by simp
  show "u1 = t1 @ [Couch_Get consts_Sharings (SID d1)]" if "b1 = None"
    using GetDoc_Sharing_reload [of E "SID d1" d1 t1 r1 u1] g1 that by simp
  show "db_getSharing (db E) t1 (SID d1) = Inr r1" if "b1 = None"
    using GetDoc_Sharing_reload [of E "SID d1" d1 t1 r1 u1] g1 that by simp
  show "\<exists>more. t2 = u1 @ Couch_UpdateDoc (revokedDoc r1) # more" by (rule UpdateDoc_event [OF up2])
  show "updateAttempts t2 = updateAttempts tr + 2" using c0 n1 n2 by simp
  show "u2 = t2 @ [Couch_Get consts_Sharings (SID d2)]" if "b1 = None \<and> b2 = None"
    using GetDoc_Sharing_reload [of E "SID d2" d2 t2 r2 u2] g2 that by simp
  show "db_getSharing (db E) t2 (SID d2) = Inr r2" if "b1 = None \<and> b2 = None"
    using GetDoc_Sharing_reload [of E "SID d2" d2 t2 r2 u2] g2 that by simp
  show "\<exists>more. t3 = u2 @ Couch_UpdateDoc (revokedDoc r2) # more" by (rule UpdateDoc_event [OF up3])
  show "updateAttempts t3 = updateAttempts tr + 3" using c0 n1 n2 n3 by simp
  show "updateAttempts u3 = updateAttempts tr + 3" using c0 n1 n2 n3 by simp
qed

lemma team_preamble:
  assumes "E0 = calm_env \<or> E0 = conflict_once_env \<or> E0 = always_conflict_env \<or> E0 = put_fails_env
         \<or> E0 = reload_fails_env"
  shows "\<not> Owner team_sharing
     \<and> Members team_sharing = hd (Members team_sharing) # tl (Members team_sharing)
     \<and> Credentials team_sharing = hd (Credentials team_sharing) # tl (Credentials team_sharing)
     \<and> sh_DeleteOAuthClient (sh E0) [] (hd (Members team_sharing)) (hd (Credentials team_sharing)) = None
     \<and> RemoveTriggers E0 team_sharing
          ([] @ [Sharing_DeleteOAuthClient (hd (Members team_sharing)) (hd (Credentials team_sharing))])
        = (None, team_sharing\<lparr>Triggers := no_Triggers\<rparr>,
           [Sharing_DeleteOAuthClient (hd (Members team_sharing)) (hd (Credentials team_sharing)),
            Job_DeleteTrigger ''t1'', Job_DeleteTrigger ''t2'', Job_DeleteTrigger ''t3''])
     \<and> revokeCleanup E0 (team_sharing\<lparr>Triggers := no_Triggers\<rparr>) (hd (Members team_sharing))
          [Sharing_DeleteOAuthClient (hd (Members team_sharing)) (hd (Credentials team_sharing)),
           Job_DeleteTrigger ''t1'', Job_DeleteTrigger ''t2'', Job_DeleteTrigger ''t3'']
        = (None,
           [Sharing_DeleteOAuthClient (hd (Members team_sharing)) (hd (Credentials team_sharing)),
            Job_DeleteTrigger ''t1'', Job_DeleteTrigger ''t2'', Job_DeleteTrigger ''t3'',
            Sharing_ClearLastSequenceNumbers (hd (Members team_sharing)),
            Sharing_RemoveSharedRefs ''s1'', Sharing_RemoveSharingDir])"
  using assms
  by (auto simp add: RemoveTriggers_def removeSharingTrigger_def revokeCleanup_def
      calm_env_def conflict_once_env_def always_conflict_env_def put_fails_env_def reload_fails_env_def
      calm_sh_def plain_helpers_def team_sharing_def consts_Files_def consts_BitwardenOrganizations_def
      Let_def)

lemma team_updates:
  assumes "SID d = ''s1''" and "SRev d \<noteq> []"
  shows "\<not> asks_retry (fst (UpdateDoc calm_env d tr))"
    and "\<not> asks_retry (fst (UpdateDoc put_fails_env d tr))"
    and "asks_retry (fst (UpdateDoc always_conflict_env d tr))"
    and "asks_retry (fst (UpdateDoc reload_fails_env d tr))"
    and "asks_retry (fst (UpdateDoc conflict_once_env d tr)) = (\<not> list_ex is_Put tr)"
    and "E0 = calm_env \<or> E0 = conflict_once_env \<or> E0 = always_conflict_env \<or> E0 = put_fails_env
         \<or> E0 = reload_fails_env \<Longrightarrow> SID (fst (snd (UpdateDoc E0 d tr))) = ''s1''"
    and "E0 = calm_env \<or> E0 = conflict_once_env \<or> E0 = always_conflict_env \<or> E0 = put_fails_env
         \<or> E0 = reload_fails_env \<Longrightarrow> list_ex is_Put (snd (snd (UpdateDoc E0 d tr)))"
  using assms
  by (auto simp add: UpdateDoc_def validateDocID_def asks_retry_def
      calm_env_def conflict_once_env_def always_conflict_env_def put_fails_env_def reload_fails_env_def
      calm_db_def plain_helpers_def Let_def split: sum.splits)

lemma team_reloads:
  shows "GetDoc_Sharing calm_env ''s1'' out tr = (None, team_sharing\<lparr>SRev := ''2-s''\<rparr>, tr @ [Couch_Get consts_Sharings ''s1''])"
    and "GetDoc_Sharing conflict_once_env ''s1'' out tr = (None, team_sharing\<lparr>SRev := ''2-s''\<rparr>, tr @ [Couch_Get consts_Sharings ''s1''])"
    and "GetDoc_Sharing always_conflict_env ''s1'' out tr = (None, team_sharing\<lparr>SRev := ''2-s''\<rparr>, tr @ [Couch_Get consts_Sharings ''s1''])"
    and "fst (GetDoc_Sharing reload_fails_env ''s1'' out tr) \<noteq> None"
  by (auto simp add: GetDoc_Sharing_def GetDoc_id_def validateDocID_def
      calm_env_def conflict_once_env_def always_conflict_env_def put_fails_env_def reload_fails_env_def
      calm_db_def plain_helpers_def)

lemma team_docs:
  "SID (revokedDoc s) = SID s" "SRev (revokedDoc s) = SRev s"
  "SID (team_sharing\<lparr>Triggers := no_Triggers\<rparr>) = ''s1''" "SRev (team_sharing\<lparr>Triggers := no_Triggers\<rparr>) = ''1-s''"
  "SID (team_sharing\<lparr>SRev := ''2-s''\<rparr>) = ''s1''" "SRev (team_sharing\<lparr>SRev := ''2-s''\<rparr>) = ''2-s''"
  by (simp_all add: revokedDoc_def team_sharing_def)

text \<open>
  The theorem at work on the sharing \<open>s1\<close> of a recipient, with five answers of CouchDB:
  success, an error that is not a conflict, a conflict with a failing reload (one call
  each), a conflict at the first call only (two calls), a conflict at every call (three).
\<close>

theorem RevokeByNotification_bounded_retry_witness:
  "\<not> Owner team_sharing
   \<and> sh_DeleteOAuthClient (sh calm_env) [] (hd (Members team_sharing)) (hd (Credentials team_sharing)) = None
   \<and> fst (RemoveTriggers calm_env team_sharing
             [Sharing_DeleteOAuthClient (hd (Members team_sharing)) (hd (Credentials team_sharing))]) = None
   \<and> updateAttempts (snd (snd (RevokeByNotification calm_env team_sharing []))) = 1
   \<and> updateAttempts (snd (snd (RevokeByNotification put_fails_env team_sharing []))) = 1
   \<and> updateAttempts (snd (snd (RevokeByNotification reload_fails_env team_sharing []))) = 1
   \<and> updateAttempts (snd (snd (RevokeByNotification conflict_once_env team_sharing []))) = 2
   \<and> updateAttempts (snd (snd (RevokeByNotification always_conflict_env team_sharing []))) = 3"
proof -
  let ?m0 = "hd (Members team_sharing)"
  let ?c0 = "hd (Credentials team_sharing)"
  let ?s1 = "team_sharing\<lparr>Triggers := no_Triggers\<rparr>"
  let ?tr1 = "[Sharing_DeleteOAuthClient ?m0 ?c0,
               Job_DeleteTrigger ''t1'', Job_DeleteTrigger ''t2'', Job_DeleteTrigger ''t3'']"
  let ?tr2 = "[Sharing_DeleteOAuthClient ?m0 ?c0,
               Job_DeleteTrigger ''t1'', Job_DeleteTrigger ''t2'', Job_DeleteTrigger ''t3'',
               Sharing_ClearLastSequenceNumbers ?m0, Sharing_RemoveSharedRefs ''s1'', Sharing_RemoveSharingDir]"
  have noput: "\<not> list_ex is_Put ?tr2" by simp
  have calm_env: "updateAttempts (snd (snd (RevokeByNotification calm_env team_sharing []))) = 1"
  proof -
    note env = disjI1 [OF refl]
    note p = team_preamble [OF env]
    obtain e1 d1 t1 where up1: "UpdateDoc calm_env (revokedDoc ?s1) ?tr2 = (e1, d1, t1)"
      by (cases "UpdateDoc calm_env (revokedDoc ?s1) ?tr2") auto
    obtain b1 r1 u1 where g1: "GetDoc_Sharing calm_env (SID d1) d1 t1 = (b1, r1, u1)"
      by (cases "GetDoc_Sharing calm_env (SID d1) d1 t1") auto
    obtain e2 d2 t2 where up2: "UpdateDoc calm_env (revokedDoc r1) u1 = (e2, d2, t2)"
      by (cases "UpdateDoc calm_env (revokedDoc r1) u1") auto
    obtain b2 r2 u2 where g2: "GetDoc_Sharing calm_env (SID d2) d2 t2 = (b2, r2, u2)"
      by (cases "GetDoc_Sharing calm_env (SID d2) d2 t2") auto
    obtain e3 d3 t3 where up3: "UpdateDoc calm_env (revokedDoc r2) u2 = (e3, d3, t3)"
      by (cases "UpdateDoc calm_env (revokedDoc r2) u2") auto
    obtain b3 r3 u3 where g3: "GetDoc_Sharing calm_env (SID d3) d3 t3 = (b3, r3, u3)"
      by (cases "GetDoc_Sharing calm_env (SID d3) d3 t3") auto
    have hyp: "\<not> Owner team_sharing \<and> Members team_sharing = ?m0 # tl (Members team_sharing)
       \<and> Credentials team_sharing = ?c0 # tl (Credentials team_sharing)
       \<and> sh_DeleteOAuthClient (sh calm_env) [] ?m0 ?c0 = None
       \<and> RemoveTriggers calm_env team_sharing ([] @ [Sharing_DeleteOAuthClient ?m0 ?c0]) = (None, ?s1, ?tr1)
       \<and> revokeCleanup calm_env ?s1 ?m0 ?tr1 = (None, ?tr2)
       \<and> UpdateDoc calm_env (revokedDoc ?s1) ?tr2 = (e1, d1, t1) \<and> GetDoc_Sharing calm_env (SID d1) d1 t1 = (b1, r1, u1)
       \<and> UpdateDoc calm_env (revokedDoc r1) u1 = (e2, d2, t2) \<and> GetDoc_Sharing calm_env (SID d2) d2 t2 = (b2, r2, u2)
       \<and> UpdateDoc calm_env (revokedDoc r2) u2 = (e3, d3, t3) \<and> GetDoc_Sharing calm_env (SID d3) d3 t3 = (b3, r3, u3)"
      using p up1 g1 up2 g2 up3 g3 by simp
    from RevokeByNotification_bounded_retry
           [of calm_env team_sharing "[]" ?m0 "tl (Members team_sharing)" ?c0 "tl (Credentials team_sharing)"
               ?s1 ?tr1 ?tr2 e1 d1 t1 b1 r1 u1 e2 d2 t2 b2 r2 u2 e3 d3 t3 b3 r3 u3, THEN conjunct2, THEN mp, OF hyp]
    have count: "updateAttempts (snd (snd (RevokeByNotification calm_env team_sharing [])))
        = updateAttempts [] + (if \<not> asks_retry e1 \<or> b1 \<noteq> None then 1
                               else if \<not> asks_retry e2 \<or> b2 \<noteq> None then 2 else 3)"
      by blast
    have "\<not> asks_retry e1"
      using team_updates(1) [of "revokedDoc ?s1" ?tr2] up1 by (simp add: team_docs)
    with count show ?thesis by simp
  qed
  have conflict_once_env: "updateAttempts (snd (snd (RevokeByNotification conflict_once_env team_sharing []))) = 2"
  proof -
    note env = disjI2 [OF disjI1 [OF refl]]
    note p = team_preamble [OF env]
    obtain e1 d1 t1 where up1: "UpdateDoc conflict_once_env (revokedDoc ?s1) ?tr2 = (e1, d1, t1)"
      by (cases "UpdateDoc conflict_once_env (revokedDoc ?s1) ?tr2") auto
    obtain b1 r1 u1 where g1: "GetDoc_Sharing conflict_once_env (SID d1) d1 t1 = (b1, r1, u1)"
      by (cases "GetDoc_Sharing conflict_once_env (SID d1) d1 t1") auto
    obtain e2 d2 t2 where up2: "UpdateDoc conflict_once_env (revokedDoc r1) u1 = (e2, d2, t2)"
      by (cases "UpdateDoc conflict_once_env (revokedDoc r1) u1") auto
    obtain b2 r2 u2 where g2: "GetDoc_Sharing conflict_once_env (SID d2) d2 t2 = (b2, r2, u2)"
      by (cases "GetDoc_Sharing conflict_once_env (SID d2) d2 t2") auto
    obtain e3 d3 t3 where up3: "UpdateDoc conflict_once_env (revokedDoc r2) u2 = (e3, d3, t3)"
      by (cases "UpdateDoc conflict_once_env (revokedDoc r2) u2") auto
    obtain b3 r3 u3 where g3: "GetDoc_Sharing conflict_once_env (SID d3) d3 t3 = (b3, r3, u3)"
      by (cases "GetDoc_Sharing conflict_once_env (SID d3) d3 t3") auto
    have hyp: "\<not> Owner team_sharing \<and> Members team_sharing = ?m0 # tl (Members team_sharing)
       \<and> Credentials team_sharing = ?c0 # tl (Credentials team_sharing)
       \<and> sh_DeleteOAuthClient (sh conflict_once_env) [] ?m0 ?c0 = None
       \<and> RemoveTriggers conflict_once_env team_sharing ([] @ [Sharing_DeleteOAuthClient ?m0 ?c0]) = (None, ?s1, ?tr1)
       \<and> revokeCleanup conflict_once_env ?s1 ?m0 ?tr1 = (None, ?tr2)
       \<and> UpdateDoc conflict_once_env (revokedDoc ?s1) ?tr2 = (e1, d1, t1) \<and> GetDoc_Sharing conflict_once_env (SID d1) d1 t1 = (b1, r1, u1)
       \<and> UpdateDoc conflict_once_env (revokedDoc r1) u1 = (e2, d2, t2) \<and> GetDoc_Sharing conflict_once_env (SID d2) d2 t2 = (b2, r2, u2)
       \<and> UpdateDoc conflict_once_env (revokedDoc r2) u2 = (e3, d3, t3) \<and> GetDoc_Sharing conflict_once_env (SID d3) d3 t3 = (b3, r3, u3)"
      using p up1 g1 up2 g2 up3 g3 by simp
    from RevokeByNotification_bounded_retry
           [of conflict_once_env team_sharing "[]" ?m0 "tl (Members team_sharing)" ?c0 "tl (Credentials team_sharing)"
               ?s1 ?tr1 ?tr2 e1 d1 t1 b1 r1 u1 e2 d2 t2 b2 r2 u2 e3 d3 t3 b3 r3 u3, THEN conjunct2, THEN mp, OF hyp]
    have count: "updateAttempts (snd (snd (RevokeByNotification conflict_once_env team_sharing [])))
        = updateAttempts [] + (if \<not> asks_retry e1 \<or> b1 \<noteq> None then 1
                               else if \<not> asks_retry e2 \<or> b2 \<noteq> None then 2 else 3)"
      by blast
    have a1: "asks_retry e1"
      using team_updates(5) [of "revokedDoc ?s1" ?tr2] up1 noput by (simp add: team_docs)
    have d1: "SID d1 = ''s1''"
      using team_updates(6) [OF _ _ env, of "revokedDoc ?s1" ?tr2] up1 by (simp add: team_docs)
    have put: "list_ex is_Put t1"
      using team_updates(7) [OF _ _ env, of "revokedDoc ?s1" ?tr2] up1 by (simp add: team_docs)
    have r1: "b1 = None \<and> r1 = team_sharing\<lparr>SRev := ''2-s''\<rparr> \<and> list_ex is_Put u1"
      using team_reloads(2) [of d1 t1] g1 d1 put by auto
    have "\<not> asks_retry e2"
      using team_updates(5) [of "revokedDoc r1" u1] up2 r1 by (simp add: team_docs)
    with count a1 r1 show ?thesis by simp
  qed
  have always_conflict_env: "updateAttempts (snd (snd (RevokeByNotification always_conflict_env team_sharing []))) = 3"
  proof -
    note env = disjI2 [OF disjI2 [OF disjI1 [OF refl]]]
    note p = team_preamble [OF env]
    obtain e1 d1 t1 where up1: "UpdateDoc always_conflict_env (revokedDoc ?s1) ?tr2 = (e1, d1, t1)"
      by (cases "UpdateDoc always_conflict_env (revokedDoc ?s1) ?tr2") auto
    obtain b1 r1 u1 where g1: "GetDoc_Sharing always_conflict_env (SID d1) d1 t1 = (b1, r1, u1)"
      by (cases "GetDoc_Sharing always_conflict_env (SID d1) d1 t1") auto
    obtain e2 d2 t2 where up2: "UpdateDoc always_conflict_env (revokedDoc r1) u1 = (e2, d2, t2)"
      by (cases "UpdateDoc always_conflict_env (revokedDoc r1) u1") auto
    obtain b2 r2 u2 where g2: "GetDoc_Sharing always_conflict_env (SID d2) d2 t2 = (b2, r2, u2)"
      by (cases "GetDoc_Sharing always_conflict_env (SID d2) d2 t2") auto
    obtain e3 d3 t3 where up3: "UpdateDoc always_conflict_env (revokedDoc r2) u2 = (e3, d3, t3)"
      by (cases "UpdateDoc always_conflict_env (revokedDoc r2) u2") auto
    obtain b3 r3 u3 where g3: "GetDoc_Sharing always_conflict_env (SID d3) d3 t3 = (b3, r3, u3)"
      by (cases "GetDoc_Sharing always_conflict_env (SID d3) d3 t3") auto
    have hyp: "\<not> Owner team_sharing \<and> Members team_sharing = ?m0 # tl (Members team_sharing)
       \<and> Credentials team_sharing = ?c0 # tl (Credentials team_sharing)
       \<and> sh_DeleteOAuthClient (sh always_conflict_env) [] ?m0 ?c0 = None
       \<and> RemoveTriggers always_conflict_env team_sharing ([] @ [Sharing_DeleteOAuthClient ?m0 ?c0]) = (None, ?s1, ?tr1)
       \<and> revokeCleanup always_conflict_env ?s1 ?m0 ?tr1 = (None, ?tr2)
       \<and> UpdateDoc always_conflict_env (revokedDoc ?s1) ?tr2 = (e1, d1, t1) \<and> GetDoc_Sharing always_conflict_env (SID d1) d1 t1 = (b1, r1, u1)
       \<and> UpdateDoc always_conflict_env (revokedDoc r1) u1 = (e2, d2, t2) \<and> GetDoc_Sharing always_conflict_env (SID d2) d2 t2 = (b2, r2, u2)
       \<and> UpdateDoc always_conflict_env (revokedDoc r2) u2 = (e3, d3, t3) \<and> GetDoc_Sharing always_conflict_env (SID d3) d3 t3 = (b3, r3, u3)"
      using p up1 g1 up2 g2 up3 g3 by simp
    from RevokeByNotification_bounded_retry
           [of always_conflict_env team_sharing "[]" ?m0 "tl (Members team_sharing)" ?c0 "tl (Credentials team_sharing)"
               ?s1 ?tr1 ?tr2 e1 d1 t1 b1 r1 u1 e2 d2 t2 b2 r2 u2 e3 d3 t3 b3 r3 u3, THEN conjunct2, THEN mp, OF hyp]
    have count: "updateAttempts (snd (snd (RevokeByNotification always_conflict_env team_sharing [])))
        = updateAttempts [] + (if \<not> asks_retry e1 \<or> b1 \<noteq> None then 1
                               else if \<not> asks_retry e2 \<or> b2 \<noteq> None then 2 else 3)"
      by blast
    have a1: "asks_retry e1"
      using team_updates(3) [of "revokedDoc ?s1" ?tr2] up1 by (simp add: team_docs)
    have d1: "SID d1 = ''s1''"
      using team_updates(6) [OF _ _ env, of "revokedDoc ?s1" ?tr2] up1 by (simp add: team_docs)
    have r1: "b1 = None \<and> r1 = team_sharing\<lparr>SRev := ''2-s''\<rparr>"
      using team_reloads(3) [of d1 t1] g1 d1 by simp
    have a2: "asks_retry e2"
      using team_updates(3) [of "revokedDoc r1" u1] up2 r1 by (simp add: team_docs)
    have d2: "SID d2 = ''s1''"
      using team_updates(6) [OF _ _ env, of "revokedDoc r1" u1] up2 r1 by (simp add: team_docs)
    have r2: "b2 = None"
      using team_reloads(3) [of d2 t2] g2 d2 by simp
    from count a1 r1 a2 r2 show ?thesis by simp
  qed
  have put_fails_env: "updateAttempts (snd (snd (RevokeByNotification put_fails_env team_sharing []))) = 1"
  proof -
    note env = disjI2 [OF disjI2 [OF disjI2 [OF disjI1 [OF refl]]]]
    note p = team_preamble [OF env]
    obtain e1 d1 t1 where up1: "UpdateDoc put_fails_env (revokedDoc ?s1) ?tr2 = (e1, d1, t1)"
      by (cases "UpdateDoc put_fails_env (revokedDoc ?s1) ?tr2") auto
    obtain b1 r1 u1 where g1: "GetDoc_Sharing put_fails_env (SID d1) d1 t1 = (b1, r1, u1)"
      by (cases "GetDoc_Sharing put_fails_env (SID d1) d1 t1") auto
    obtain e2 d2 t2 where up2: "UpdateDoc put_fails_env (revokedDoc r1) u1 = (e2, d2, t2)"
      by (cases "UpdateDoc put_fails_env (revokedDoc r1) u1") auto
    obtain b2 r2 u2 where g2: "GetDoc_Sharing put_fails_env (SID d2) d2 t2 = (b2, r2, u2)"
      by (cases "GetDoc_Sharing put_fails_env (SID d2) d2 t2") auto
    obtain e3 d3 t3 where up3: "UpdateDoc put_fails_env (revokedDoc r2) u2 = (e3, d3, t3)"
      by (cases "UpdateDoc put_fails_env (revokedDoc r2) u2") auto
    obtain b3 r3 u3 where g3: "GetDoc_Sharing put_fails_env (SID d3) d3 t3 = (b3, r3, u3)"
      by (cases "GetDoc_Sharing put_fails_env (SID d3) d3 t3") auto
    have hyp: "\<not> Owner team_sharing \<and> Members team_sharing = ?m0 # tl (Members team_sharing)
       \<and> Credentials team_sharing = ?c0 # tl (Credentials team_sharing)
       \<and> sh_DeleteOAuthClient (sh put_fails_env) [] ?m0 ?c0 = None
       \<and> RemoveTriggers put_fails_env team_sharing ([] @ [Sharing_DeleteOAuthClient ?m0 ?c0]) = (None, ?s1, ?tr1)
       \<and> revokeCleanup put_fails_env ?s1 ?m0 ?tr1 = (None, ?tr2)
       \<and> UpdateDoc put_fails_env (revokedDoc ?s1) ?tr2 = (e1, d1, t1) \<and> GetDoc_Sharing put_fails_env (SID d1) d1 t1 = (b1, r1, u1)
       \<and> UpdateDoc put_fails_env (revokedDoc r1) u1 = (e2, d2, t2) \<and> GetDoc_Sharing put_fails_env (SID d2) d2 t2 = (b2, r2, u2)
       \<and> UpdateDoc put_fails_env (revokedDoc r2) u2 = (e3, d3, t3) \<and> GetDoc_Sharing put_fails_env (SID d3) d3 t3 = (b3, r3, u3)"
      using p up1 g1 up2 g2 up3 g3 by simp
    from RevokeByNotification_bounded_retry
           [of put_fails_env team_sharing "[]" ?m0 "tl (Members team_sharing)" ?c0 "tl (Credentials team_sharing)"
               ?s1 ?tr1 ?tr2 e1 d1 t1 b1 r1 u1 e2 d2 t2 b2 r2 u2 e3 d3 t3 b3 r3 u3, THEN conjunct2, THEN mp, OF hyp]
    have count: "updateAttempts (snd (snd (RevokeByNotification put_fails_env team_sharing [])))
        = updateAttempts [] + (if \<not> asks_retry e1 \<or> b1 \<noteq> None then 1
                               else if \<not> asks_retry e2 \<or> b2 \<noteq> None then 2 else 3)"
      by blast
    have "\<not> asks_retry e1"
      using team_updates(2) [of "revokedDoc ?s1" ?tr2] up1 by (simp add: team_docs)
    with count show ?thesis by simp
  qed
  have reload_fails_env: "updateAttempts (snd (snd (RevokeByNotification reload_fails_env team_sharing []))) = 1"
  proof -
    note env = disjI2 [OF disjI2 [OF disjI2 [OF disjI2 [OF refl]]]]
    note p = team_preamble [OF env]
    obtain e1 d1 t1 where up1: "UpdateDoc reload_fails_env (revokedDoc ?s1) ?tr2 = (e1, d1, t1)"
      by (cases "UpdateDoc reload_fails_env (revokedDoc ?s1) ?tr2") auto
    obtain b1 r1 u1 where g1: "GetDoc_Sharing reload_fails_env (SID d1) d1 t1 = (b1, r1, u1)"
      by (cases "GetDoc_Sharing reload_fails_env (SID d1) d1 t1") auto
    obtain e2 d2 t2 where up2: "UpdateDoc reload_fails_env (revokedDoc r1) u1 = (e2, d2, t2)"
      by (cases "UpdateDoc reload_fails_env (revokedDoc r1) u1") auto
    obtain b2 r2 u2 where g2: "GetDoc_Sharing reload_fails_env (SID d2) d2 t2 = (b2, r2, u2)"
      by (cases "GetDoc_Sharing reload_fails_env (SID d2) d2 t2") auto
    obtain e3 d3 t3 where up3: "UpdateDoc reload_fails_env (revokedDoc r2) u2 = (e3, d3, t3)"
      by (cases "UpdateDoc reload_fails_env (revokedDoc r2) u2") auto
    obtain b3 r3 u3 where g3: "GetDoc_Sharing reload_fails_env (SID d3) d3 t3 = (b3, r3, u3)"
      by (cases "GetDoc_Sharing reload_fails_env (SID d3) d3 t3") auto
    have hyp: "\<not> Owner team_sharing \<and> Members team_sharing = ?m0 # tl (Members team_sharing)
       \<and> Credentials team_sharing = ?c0 # tl (Credentials team_sharing)
       \<and> sh_DeleteOAuthClient (sh reload_fails_env) [] ?m0 ?c0 = None
       \<and> RemoveTriggers reload_fails_env team_sharing ([] @ [Sharing_DeleteOAuthClient ?m0 ?c0]) = (None, ?s1, ?tr1)
       \<and> revokeCleanup reload_fails_env ?s1 ?m0 ?tr1 = (None, ?tr2)
       \<and> UpdateDoc reload_fails_env (revokedDoc ?s1) ?tr2 = (e1, d1, t1) \<and> GetDoc_Sharing reload_fails_env (SID d1) d1 t1 = (b1, r1, u1)
       \<and> UpdateDoc reload_fails_env (revokedDoc r1) u1 = (e2, d2, t2) \<and> GetDoc_Sharing reload_fails_env (SID d2) d2 t2 = (b2, r2, u2)
       \<and> UpdateDoc reload_fails_env (revokedDoc r2) u2 = (e3, d3, t3) \<and> GetDoc_Sharing reload_fails_env (SID d3) d3 t3 = (b3, r3, u3)"
      using p up1 g1 up2 g2 up3 g3 by simp
    from RevokeByNotification_bounded_retry
           [of reload_fails_env team_sharing "[]" ?m0 "tl (Members team_sharing)" ?c0 "tl (Credentials team_sharing)"
               ?s1 ?tr1 ?tr2 e1 d1 t1 b1 r1 u1 e2 d2 t2 b2 r2 u2 e3 d3 t3 b3 r3 u3, THEN conjunct2, THEN mp, OF hyp]
    have count: "updateAttempts (snd (snd (RevokeByNotification reload_fails_env team_sharing [])))
        = updateAttempts [] + (if \<not> asks_retry e1 \<or> b1 \<noteq> None then 1
                               else if \<not> asks_retry e2 \<or> b2 \<noteq> None then 2 else 3)"
      by blast
    have d1: "SID d1 = ''s1''"
      using team_updates(6) [OF _ _ env, of "revokedDoc ?s1" ?tr2] up1 by (simp add: team_docs)
    have "b1 \<noteq> None"
      using team_reloads(4) [of d1 t1] g1 d1 by simp
    with count show ?thesis by simp
  qed
  from team_preamble [OF disjI1 [OF refl]] calm_env put_fails_env reload_fails_env
       conflict_once_env always_conflict_env
  show ?thesis by simp
qed
section \<open>Properties of the upload worker and of \<open>SyncFile\<close>\<close>

text \<open>
  C9: for a file document whose \<open>trashed\<close> field is the boolean true, \<open>uploadFile\<close> returns
  nil and calls nothing: the trace is unchanged, so neither the metadata request nor the
  binary request is sent.
\<close>

theorem uploadFile_trashed:
  "map_of file ''trashed'' = Some (JBool True) \<Longrightarrow> uploadFile E s m file ruleIndex tr = (Returns None, tr)"
  by (simp add: uploadFile_def)

theorem uploadFile_trashed_witness:
  "map_of [(''_id'', JString ''f1''), (''trashed'', JBool True)] ''trashed'' = Some (JBool True)
   \<and> uploadFile calm_env team_sharing (hd (Members team_sharing))
        [(''_id'', JString ''f1''), (''trashed'', JBool True)] 0 [] = (Returns None, [])"
proof -
  have h: "map_of [(''_id'', JString ''f1''), (''trashed'', JBool True)] ''trashed'' = Some (JBool True)"
    by simp
  from uploadFile_trashed [OF h] h show ?thesis by blast
qed

text \<open>
  C10: for a target whose MD5 is empty, \<open>SyncFile\<close> returns \<open>ErrInvalidHash\<close> with no key and
  calls nothing: the trace is unchanged, so the lock is not taken and nothing is read.
\<close>

theorem SyncFile_empty_hash:
  "len_bytes (MD5Sum (fdr_Doc target)) = 0 \<Longrightarrow> SyncFile E s target tr = (Returns (None, Some ErrInvalidHash), tr)"
  by (simp add: SyncFile_def)

theorem SyncFile_empty_hash_witness:
  "len_bytes (MD5Sum (fdr_Doc nohash_target)) = 0
   \<and> SyncFile calm_env team_sharing nohash_target [] = (Returns (None, Some ErrInvalidHash), [])"
proof -
  have h: "len_bytes (MD5Sum (fdr_Doc nohash_target)) = 0"
    by (simp add: nohash_target_def incoming_doc_def note_doc_def len_bytes_def)
  from SyncFile_empty_hash [OF h] h show ?thesis by blast
qed

subsection \<open>The safety guards\<close>

lemma GetDoc_SharedRef_file:
  "GetDoc_SharedRef E (consts_Files @ ''/'' @ x) tr
     = (db_getSharedRef (db E) tr (consts_Files @ ''/'' @ x), tr @ [Couch_Get consts_Shared (consts_Files @ ''/'' @ x)])"
  by (simp add: GetDoc_SharedRef_def GetDoc_id_def validateDocID_def consts_Files_def)

lemma UploadExistingFile_prepare_refused:
  "refused (db_getSharedRef (db E) tr (sid_of target)) (SID s) \<Longrightarrow>
   UploadExistingFile_prepare E s target current tr
     = (Inl (Returns (Some ErrSafety)), tr @ [Couch_Get consts_Shared (sid_of target)])"
  unfolding UploadExistingFile_prepare_def GetDoc_SharedRef_file sid_of_def refused_def Let_def
  by (auto split: sum.splits option.splits)

lemma SyncFile_locked_refused:
  "vfs_FileByID (vfs E) tr VFS (DocID (fdr_Doc target)) = Inr current \<Longrightarrow>
   refused (db_getSharedRef (db E) (tr @ [VFS_FileByID VFS (DocID (fdr_Doc target))]) (sid_of target)) (SID s) \<Longrightarrow>
   SyncFile_locked E s target (sid_of target) tr
     = (Returns (None, Some ErrSafety),
        tr @ [VFS_FileByID VFS (DocID (fdr_Doc target)), Couch_Get consts_Shared (sid_of target)])"
  unfolding SyncFile_locked_def sid_of_def GetDoc_SharedRef_file refused_def
  by (auto split: sum.splits option.splits)

lemma SyncFile_unfold:
  "len_bytes (MD5Sum (fdr_Doc target)) \<noteq> 0 \<Longrightarrow> db_Lock (db E) tr (lock_of target) = None \<Longrightarrow>
   SyncFile E s target tr =
     (case SyncFile_locked E s target (sid_of target) (tr @ [Mu_Lock (lock_of target)]) of
        (r, tr1) \<Rightarrow> (r, tr1 @ [Mu_Unlock (lock_of target)]))"
  by (simp add: SyncFile_def lock_of_def sid_of_def Let_def)

text \<open>
  C3 (as the code has it).  \<open>UploadNewFile\<close> fails with \<open>ErrSafety\<close> before any call when no
  rule of the sharing covers the new file.  \<open>UploadExistingFile\<close> fails with \<open>ErrSafety\<close>
  after the one read of the shared index when that refuses the file (no entry, no
  information for this sharing, or removed and not dissociated).  \<open>SyncFile\<close> does the same
  for a target whose MD5 is not empty, once it holds the lock: the only calls are the lock,
  the reads and the unlock.  No document and no content is written in any of these cases.
\<close>

theorem ErrSafety_guards:
  "(p_findRuleForNewFile (pure E) s (fdr_Doc target) = None
      \<longrightarrow> UploadNewFile E s target b tr = (Returns (Some ErrSafety), s, tr))
   \<and> (refused (db_getSharedRef (db E) tr (sid_of target)) (SID s)
      \<longrightarrow> UploadExistingFile E s target current b tr
            = (Returns (Some ErrSafety), tr @ [Couch_Get consts_Shared (sid_of target)]))
   \<and> (len_bytes (MD5Sum (fdr_Doc target)) \<noteq> 0 \<and> db_Lock (db E) tr (lock_of target) = None
        \<and> vfs_FileByID (vfs E) (tr @ [Mu_Lock (lock_of target)]) VFS (DocID (fdr_Doc target)) = Inl os_ErrNotExist
        \<and> p_findRuleForNewFile (pure E) s (fdr_Doc target) = None
      \<longrightarrow> SyncFile E s target tr
            = (Returns (None, Some ErrSafety),
               tr @ [Mu_Lock (lock_of target), VFS_FileByID VFS (DocID (fdr_Doc target)),
                     Mu_Unlock (lock_of target)]))
   \<and> (len_bytes (MD5Sum (fdr_Doc target)) \<noteq> 0 \<and> db_Lock (db E) tr (lock_of target) = None
        \<and> vfs_FileByID (vfs E) (tr @ [Mu_Lock (lock_of target)]) VFS (DocID (fdr_Doc target)) = Inr current
        \<and> refused (db_getSharedRef (db E)
                     (tr @ [Mu_Lock (lock_of target), VFS_FileByID VFS (DocID (fdr_Doc target))])
                     (sid_of target)) (SID s)
      \<longrightarrow> SyncFile E s target tr
            = (Returns (None, Some ErrSafety),
               tr @ [Mu_Lock (lock_of target), VFS_FileByID VFS (DocID (fdr_Doc target)),
                     Couch_Get consts_Shared (sid_of target), Mu_Unlock (lock_of target)]))"
proof (intro conjI impI)
  assume "p_findRuleForNewFile (pure E) s (fdr_Doc target) = None"
  then show "UploadNewFile E s target b tr = (Returns (Some ErrSafety), s, tr)"
    by (simp add: UploadNewFile_def)
next
  assume "refused (db_getSharedRef (db E) tr (sid_of target)) (SID s)"
  then show "UploadExistingFile E s target current b tr
      = (Returns (Some ErrSafety), tr @ [Couch_Get consts_Shared (sid_of target)])"
    by (simp add: UploadExistingFile_def UploadExistingFile_prepare_refused)
next
  assume "len_bytes (MD5Sum (fdr_Doc target)) \<noteq> 0 \<and> db_Lock (db E) tr (lock_of target) = None
        \<and> vfs_FileByID (vfs E) (tr @ [Mu_Lock (lock_of target)]) VFS (DocID (fdr_Doc target)) = Inl os_ErrNotExist
        \<and> p_findRuleForNewFile (pure E) s (fdr_Doc target) = None"
  then show "SyncFile E s target tr
      = (Returns (None, Some ErrSafety),
         tr @ [Mu_Lock (lock_of target), VFS_FileByID VFS (DocID (fdr_Doc target)), Mu_Unlock (lock_of target)])"
    by (simp add: SyncFile_unfold SyncFile_locked_def)
next
  assume "len_bytes (MD5Sum (fdr_Doc target)) \<noteq> 0 \<and> db_Lock (db E) tr (lock_of target) = None
        \<and> vfs_FileByID (vfs E) (tr @ [Mu_Lock (lock_of target)]) VFS (DocID (fdr_Doc target)) = Inr current
        \<and> refused (db_getSharedRef (db E)
                     (tr @ [Mu_Lock (lock_of target), VFS_FileByID VFS (DocID (fdr_Doc target))])
                     (sid_of target)) (SID s)"
  then show "SyncFile E s target tr
      = (Returns (None, Some ErrSafety),
         tr @ [Mu_Lock (lock_of target), VFS_FileByID VFS (DocID (fdr_Doc target)),
               Couch_Get consts_Shared (sid_of target), Mu_Unlock (lock_of target)])"
    by (simp add: SyncFile_unfold SyncFile_locked_refused)
qed

lemma stray_facts:
  "p_findRuleForNewFile (pure calm_env) team_sharing (fdr_Doc stray_target) = None"
  "len_bytes (MD5Sum (fdr_Doc stray_target)) \<noteq> 0"
  "db_Lock (db calm_env) [] (lock_of stray_target) = None"
  "vfs_FileByID (vfs calm_env) ([] @ [Mu_Lock (lock_of stray_target)]) VFS (DocID (fdr_Doc stray_target))
     = Inl os_ErrNotExist"
  by (simp_all add: calm_env_def plain_helpers_def calm_db_def calm_vfs_def team_sharing_def
      stray_target_def incoming_doc_def note_doc_def len_bytes_def)

lemma removed_facts:
  "refused (db_getSharedRef (db removed_env) [] (sid_of target_extends)) (SID team_sharing)"
  "len_bytes (MD5Sum (fdr_Doc target_extends)) \<noteq> 0"
  "db_Lock (db removed_env) [] (lock_of target_extends) = None"
  "vfs_FileByID (vfs removed_env) ([] @ [Mu_Lock (lock_of target_extends)]) VFS (DocID (fdr_Doc target_extends))
     = Inr local_doc"
  "refused (db_getSharedRef (db removed_env)
              ([] @ [Mu_Lock (lock_of target_extends), VFS_FileByID VFS (DocID (fdr_Doc target_extends))])
              (sid_of target_extends)) (SID team_sharing)"
  by (simp_all add: removed_env_def calm_env_def calm_db_def calm_vfs_def team_sharing_def refused_def
      local_shared_def target_extends_def incoming_doc_def note_doc_def len_bytes_def)

theorem ErrSafety_guards_witness:
  "p_findRuleForNewFile (pure calm_env) team_sharing (fdr_Doc stray_target) = None
   \<and> UploadNewFile calm_env team_sharing stray_target (RequestBody ''abc'') []
        = (Returns (Some ErrSafety), team_sharing, [])
   \<and> SyncFile calm_env team_sharing stray_target []
        = (Returns (None, Some ErrSafety),
           [Mu_Lock (lock_of stray_target), VFS_FileByID VFS ''f9'', Mu_Unlock (lock_of stray_target)])
   \<and> refused (db_getSharedRef (db removed_env) [] (sid_of target_extends)) (SID team_sharing)
   \<and> UploadExistingFile removed_env team_sharing target_extends local_doc (RequestBody ''abc'') []
        = (Returns (Some ErrSafety), [Couch_Get consts_Shared (sid_of target_extends)])
   \<and> SyncFile removed_env team_sharing target_extends []
        = (Returns (None, Some ErrSafety),
           [Mu_Lock (lock_of target_extends), VFS_FileByID VFS ''f1'',
            Couch_Get consts_Shared (sid_of target_extends), Mu_Unlock (lock_of target_extends)])"
proof -
  have i1: "DocID (fdr_Doc stray_target) = ''f9''" "DocID (fdr_Doc target_extends) = ''f1''"
    by (simp_all add: stray_target_def target_extends_def incoming_doc_def note_doc_def)
  from ErrSafety_guards [of calm_env team_sharing stray_target "RequestBody ''abc''" "[]" local_doc]
       stray_facts
  have a: "UploadNewFile calm_env team_sharing stray_target (RequestBody ''abc'') []
        = (Returns (Some ErrSafety), team_sharing, [])
      \<and> SyncFile calm_env team_sharing stray_target []
        = (Returns (None, Some ErrSafety),
           [] @ [Mu_Lock (lock_of stray_target), VFS_FileByID VFS (DocID (fdr_Doc stray_target)),
                 Mu_Unlock (lock_of stray_target)])"
    by blast
  from ErrSafety_guards [of removed_env team_sharing target_extends "RequestBody ''abc''" "[]" local_doc]
       removed_facts
  have b: "UploadExistingFile removed_env team_sharing target_extends local_doc (RequestBody ''abc'') []
        = (Returns (Some ErrSafety), [] @ [Couch_Get consts_Shared (sid_of target_extends)])
      \<and> SyncFile removed_env team_sharing target_extends []
        = (Returns (None, Some ErrSafety),
           [] @ [Mu_Lock (lock_of target_extends), VFS_FileByID VFS (DocID (fdr_Doc target_extends)),
                 Couch_Get consts_Shared (sid_of target_extends), Mu_Unlock (lock_of target_extends)])"
    by blast
  from a b i1 stray_facts(1) removed_facts(1) show ?thesis by simp
qed

text \<open>
  C3 fails as stated for a sync whose target has no MD5: the file \<open>f9\<close> does not exist and
  no rule covers it, yet the error is \<open>ErrInvalidHash\<close>, returned before anything is read.
\<close>

theorem SyncFile_hash_checked_before_safety:
  "vfs_FileByID (vfs calm_env) [Mu_Lock (lock_of nohash_target)] VFS (DocID (fdr_Doc nohash_target))
     = Inl os_ErrNotExist
   \<and> p_findRuleForNewFile (pure calm_env) team_sharing (fdr_Doc nohash_target) = None
   \<and> SyncFile calm_env team_sharing nohash_target [] = (Returns (None, Some ErrInvalidHash), [])"
  by (simp add: SyncFile_def calm_env_def plain_helpers_def calm_vfs_def team_sharing_def
      nohash_target_def incoming_doc_def note_doc_def len_bytes_def)

subsection \<open>The metadata probe on an existing file\<close>



lemma renameOnConflict_steps:
  "renameOnConflict E fs indexer d tr = (r, tr') \<Longrightarrow>
     \<exists>ext. tr' = tr @ ext \<and> list_all (metadata_step c) ext"
  unfolding renameOnConflict_def
  by (auto split: if_splits sum.splits)

lemma updateWithRename_steps:
  assumes "updateWithRename E fs indexer c d tr = (r, tr')"
  shows "\<exists>ext. tr' = tr @ ext \<and> list_all (metadata_step c) ext"
proof (cases "vfs_UpdateFileDoc (vfs E) tr fs c d")
  case (Pair err nd)
  show ?thesis
  proof (cases "err = Some os_ErrExist")
    case False
    with Pair assms show ?thesis
      by (auto simp add: updateWithRename_def split: option.splits if_splits)
  next
    case True
    obtain r1 tr1 where rn: "renameOnConflict E fs indexer nd (tr @ [VFS_UpdateFileDoc fs c d]) = (r1, tr1)"
      by (cases "renameOnConflict E fs indexer nd (tr @ [VFS_UpdateFileDoc fs c d])") auto
    from renameOnConflict_steps [OF rn, of c]
    obtain ext where ext: "tr1 = (tr @ [VFS_UpdateFileDoc fs c d]) @ ext" "list_all (metadata_step c) ext"
      by blast
    from Pair True rn assms ext show ?thesis
      by (cases r1) (auto simp add: updateWithRename_def)
  qed
qed












section \<open>Properties of the upload on an existing file\<close>

lemma prepareFileWithAncestors_frame:
  "prepareFileWithAncestors E s d dirID tr = (err, nd, tr') \<Longrightarrow>
     DocID nd = DocID d \<and> DocRev nd = DocRev d \<and> DocName nd = DocName d"
  unfolding prepareFileWithAncestors_def
  by (auto split: if_splits sum.splits)

text \<open>
  When \<open>copySafeFieldsToFile\<close> leaves the identifier and the revision alone, the document
  that is ready for the upload is the local file under the incoming name, size and MD5.
\<close>

lemma UploadExistingFile_prepare_frame:
  assumes "UploadExistingFile_prepare E s target current tr = (Inr (ix, newdoc), tr1)"
    and "\<forall>t d. DocID (p_copySafeFieldsToFile (pure E) t d) = DocID d
             \<and> DocRev (p_copySafeFieldsToFile (pure E) t d) = DocRev d"
  shows "DocID newdoc = DocID current \<and> DocRev newdoc = DocRev current
       \<and> DocName newdoc = DocName (fdr_Doc target)
       \<and> ByteSize newdoc = ByteSize (fdr_Doc target) \<and> MD5Sum newdoc = MD5Sum (fdr_Doc target)"
  using assms
  unfolding UploadExistingFile_prepare_def Let_def
  by (auto simp add: ResetFullpath_def split: prod.splits sum.splits option.splits if_splits
      dest!: prepareFileWithAncestors_frame)

lemma UploadExistingFile_unfold:
  "UploadExistingFile_prepare E s target current tr = (Inr (ix, newdoc), tr1) \<Longrightarrow>
   UploadExistingFile E s target current b tr =
     (case UploadExistingFile_conflict E target ix current newdoc b tr1 of
        (err, tr2) \<Rightarrow> (Returns err, tr2))"
  by (simp add: UploadExistingFile_def)

lemma copyFileContent_trace:
  "copyFileContent E file b tr = (err, d, tr') \<Longrightarrow> tr' = tr @ [File_Copy file b, File_Close file]"
  by (auto simp add: copyFileContent_def split: prod.splits)

text \<open>Whatever the collaborators answer, the lost-conflict path overwrites no file.\<close>

lemma uploadLostConflict_overwrites_nothing:
  "uploadLostConflict E target nd b tr = (err, tr') \<Longrightarrow>
     \<exists>ext. tr' = tr @ ext \<and> list_all (\<lambda>e. \<not> overwrites x e) ext"
  unfolding uploadLostConflict_def Let_def
  by (auto split: sum.splits if_splits prod.splits dest!: copyFileContent_trace)

lemma uploadLostConflict_copy_exists:
  "vfs_FileByID (vfs E) tr (UseSharingIndexer (conflictIndexer E (DocRev (fdr_Doc target))))
     (p_conflictID (pure E) (DocID nd) (DocRev (fdr_Doc target))) = Inr existing \<Longrightarrow>
   uploadLostConflict E target nd b tr
     = (None, tr @ [VFS_FileByID (UseSharingIndexer (conflictIndexer E (DocRev (fdr_Doc target))))
                      (p_conflictID (pure E) (DocID nd) (DocRev (fdr_Doc target))),
                    Body_Close b])"
  by (simp add: uploadLostConflict_def Let_def)

lemma uploadLostConflict_new_copy:
  assumes "vfs_FileByID (vfs E) tr (UseSharingIndexer lix) cid = Inl os_ErrNotExist"
    and "lix = conflictIndexer E (DocRev (fdr_Doc target))"
    and "cid = p_conflictID (pure E) (DocID nd) (DocRev (fdr_Doc target))"
    and "ltr = tr @ [VFS_FileByID (UseSharingIndexer lix) cid,
                     Indexer_conflictName lix (DirID nd) (DocName nd) True]"
    and "loser = ResetFullpath (nd\<lparr>DocID := cid,
                   DocName := vfs_conflictName (vfs E) (tr @ [VFS_FileByID (UseSharingIndexer lix) cid])
                                lix (DirID nd) (DocName nd) True,
                   DocRev := []\<rparr>)"
  shows "(\<forall>err. vfs_CreateFile (vfs E) ltr (UseSharingIndexer lix) loser None = Inl err \<longrightarrow>
            uploadLostConflict E target nd b tr
              = (Some err, ltr @ [VFS_CreateFile (UseSharingIndexer lix) loser None]))
       \<and> (\<forall>fh. vfs_CreateFile (vfs E) ltr (UseSharingIndexer lix) loser None = Inr fh \<longrightarrow>
            uploadLostConflict E target nd b tr
              = (fst (copyFileContent E fh b (ltr @ [VFS_CreateFile (UseSharingIndexer lix) loser None])),
                 ltr @ [VFS_CreateFile (UseSharingIndexer lix) loser None, File_Copy fh b, File_Close fh]))"
  using assms
  unfolding uploadLostConflict_def Let_def
  by (auto simp add: copyFileContent_def split: prod.splits)

lemma uploadWonConflict_copy_exists:
  "vfs_FileByID (vfs E) tr (UseSharingIndexer (conflictIndexer E (DocRev src)))
     (p_conflictID (pure E) (DocID src) (DocRev src)) = Inr existing \<Longrightarrow>
   uploadWonConflict E src tr
     = (None, tr @ [VFS_FileByID (UseSharingIndexer (conflictIndexer E (DocRev src)))
                      (p_conflictID (pure E) (DocID src) (DocRev src))])"
  by (simp add: uploadWonConflict_def Let_def)

lemma uploadWonConflict_new_copy:
  assumes "vfs_FileByID (vfs E) tr (UseSharingIndexer (conflictIndexer E (DocRev src)))
     (p_conflictID (pure E) (DocID src) (DocRev src)) = Inl os_ErrNotExist"
    and "uploadWonConflict E src tr = (None, tr')"
  shows "\<exists>copy file.
     tr' = tr @ [VFS_FileByID (UseSharingIndexer (conflictIndexer E (DocRev src)))
                   (p_conflictID (pure E) (DocID src) (DocRev src)),
                 Indexer_conflictName (conflictIndexer E (DocRev src)) (DirID src) (DocName src) True,
                 VFS_OpenFile (UseSharingIndexer (conflictIndexer E (DocRev src))) src,
                 VFS_CreateFile (UseSharingIndexer (conflictIndexer E (DocRev src))) copy None,
                 File_Copy file (Content src), File_Close file, Body_Close (Content src)]
     \<and> DocID copy = p_conflictID (pure E) (DocID src) (DocRev src)
     \<and> DocName copy = vfs_conflictName (vfs E)
          (tr @ [VFS_FileByID (UseSharingIndexer (conflictIndexer E (DocRev src)))
                   (p_conflictID (pure E) (DocID src) (DocRev src))])
          (conflictIndexer E (DocRev src)) (DirID src) (DocName src) True"
  using assms
  unfolding uploadWonConflict_def Let_def
  by (auto simp add: ResetFullpath_def copyFileContent_def split: sum.splits prod.splits option.splits)

text \<open>
  The end of the upload, step by step: the file is written with the local file as the old
  document, under the new path if it is the old one, else under the old path; the new path
  is given only after the content is written and the handle closed without error.
\<close>

lemma UploadExistingFile_content_steps:
  assumes "pre = (if DocName newdoc = DocName olddoc \<and> DirID newdoc = DirID olddoc then []
                  else [Indexer_StashRevision ix False])"
    and "d = (if DocName newdoc = DocName olddoc \<and> DirID newdoc = DirID olddoc then newdoc
              else ResetFullpath (newdoc\<lparr>DocName := DocName olddoc, DirID := DirID olddoc\<rparr>))"
  shows "(\<forall>err. vfs_CreateFile (vfs E) (tr @ pre) fs d (Some olddoc) = Inl err \<longrightarrow>
            UploadExistingFile_content E fs ix olddoc newdoc b tr
              = (Some err, tr @ pre @ [VFS_CreateFile fs d (Some olddoc)]))
       \<and> (\<forall>fh cerr closed written.
             vfs_CreateFile (vfs E) (tr @ pre) fs d (Some olddoc) = Inr fh
             \<and> copyFileContent E fh b (tr @ pre @ [VFS_CreateFile fs d (Some olddoc)]) = (cerr, closed, written)
           \<longrightarrow> written = tr @ pre @ [VFS_CreateFile fs d (Some olddoc), File_Copy fh b, File_Close fh]
             \<and> ((DocName newdoc = DocName olddoc \<and> DirID newdoc = DirID olddoc) \<or> cerr \<noteq> None \<longrightarrow>
                  UploadExistingFile_content E fs ix olddoc newdoc b tr = (cerr, written))
             \<and> (\<not> (DocName newdoc = DocName olddoc \<and> DirID newdoc = DirID olddoc) \<and> cerr = None \<longrightarrow>
                  UploadExistingFile_content E fs ix olddoc newdoc b tr
                    = updateWithRename E fs ix closed
                        (newdoc\<lparr>DocRev := DocRev closed, InternalID := InternalID closed\<rparr>)
                        (written @ [Indexer_UnstashRevision ix])))"
proof (cases "DocName newdoc = DocName olddoc \<and> DirID newdoc = DirID olddoc")
  case True
  with assms show ?thesis
    unfolding UploadExistingFile_content_def
    by (auto dest: copyFileContent_trace)
next
  case False
  with assms show ?thesis
    unfolding UploadExistingFile_content_def Let_def
    by (auto dest: copyFileContent_trace)
qed

lemma UploadExistingFile_content_created:
  assumes "pre = (if DocName newdoc = DocName olddoc \<and> DirID newdoc = DirID olddoc then []
                  else [Indexer_StashRevision ix False])"
    and "d = (if DocName newdoc = DocName olddoc \<and> DirID newdoc = DirID olddoc then newdoc
              else ResetFullpath (newdoc\<lparr>DocName := DocName olddoc, DirID := DirID olddoc\<rparr>))"
    and "vfs_CreateFile (vfs E) (tr @ pre) fs d (Some olddoc) = Inr fh"
  shows "\<exists>rest. snd (UploadExistingFile_content E fs ix olddoc newdoc b tr)
            = tr @ pre @ [VFS_CreateFile fs d (Some olddoc), File_Copy fh b, File_Close fh] @ rest"
proof -
  obtain cerr closed written
    where c: "copyFileContent E fh b (tr @ pre @ [VFS_CreateFile fs d (Some olddoc)]) = (cerr, closed, written)"
    by (cases "copyFileContent E fh b (tr @ pre @ [VFS_CreateFile fs d (Some olddoc)])") auto
  note steps = UploadExistingFile_content_steps [OF assms(1) assms(2), of E tr fs b,
      THEN conjunct2, rule_format, OF conjI [OF assms(3) c]]
  show ?thesis
  proof (cases "(DocName newdoc = DocName olddoc \<and> DirID newdoc = DirID olddoc) \<or> cerr \<noteq> None")
    case True
    with steps have "UploadExistingFile_content E fs ix olddoc newdoc b tr = (cerr, written)
        \<and> written = tr @ pre @ [VFS_CreateFile fs d (Some olddoc), File_Copy fh b, File_Close fh]"
      by blast
    then show ?thesis by simp
  next
    case False
    obtain r tr3 where u: "updateWithRename E fs ix closed
          (newdoc\<lparr>DocRev := DocRev closed, InternalID := InternalID closed\<rparr>)
          (written @ [Indexer_UnstashRevision ix]) = (r, tr3)"
      by (cases "updateWithRename E fs ix closed
          (newdoc\<lparr>DocRev := DocRev closed, InternalID := InternalID closed\<rparr>)
          (written @ [Indexer_UnstashRevision ix])") auto
    from updateWithRename_steps [OF u] obtain ext where "tr3 = (written @ [Indexer_UnstashRevision ix]) @ ext"
      by blast
    moreover from False steps u
    have "UploadExistingFile_content E fs ix olddoc newdoc b tr = (r, tr3)
        \<and> written = tr @ pre @ [VFS_CreateFile fs d (Some olddoc), File_Copy fh b, File_Close fh]"
      by auto
    ultimately show ?thesis by simp
  qed
qed

text \<open>
  C1 (as the code has it).  Once \<open>UploadExistingFile\<close> has passed its guards and prepared the
  new document, and provided \<open>copySafeFieldsToFile\<close> keeps the identifier and the revision:

  - Lost: no event overwrites the local file, whatever the collaborators answer.  If no
    file has the identifier \<open>conflictID(id, rev)\<close> (\<open>rev\<close> the incoming revision), the
    document \<open>loser\<close> with that identifier, the name given by \<open>conflictName\<close>, no revision
    and the incoming size and MD5 is created without an old document; if the creation
    fails its error is returned, else the body is copied to the new file, the file is
    closed, and the error of the copy is returned.  If a file with that identifier exists
    already, the body is closed, nothing is written and the upload succeeds.

  - Won: when the copy step fails, its error is returned and nothing is accepted.  When it
    succeeds, then, if no file had the identifier \<open>conflictID(id, local rev)\<close>, the local
    file was copied to a new file with that identifier and the name given by
    \<open>conflictName\<close> (if one existed, only the lookup was made); after that the indexer is
    told of the conflict and the incoming content is written with the local file as the
    old document: the document \<open>d\<close> with the local identifier and the incoming size and MD5
    is created, then the body is copied to it and the file closed.

  - None: the indexer is told and the incoming content is written in the same way.
\<close>

theorem UploadExistingFile_conflict_handling:
  assumes prep: "UploadExistingFile_prepare E s target current tr = (Inr (ix, newdoc), tr1)"
    and frame: "\<forall>t d. DocID (p_copySafeFieldsToFile (pure E) t d) = DocID d
                    \<and> DocRev (p_copySafeFieldsToFile (pure E) t d) = DocRev d"
    and chain: "chain = p_revsStructToChain (pure E) (fdr_Revisions target)"
    and lostix: "lostix = conflictIndexer E (DocRev (fdr_Doc target))"
    and lostid: "lostid = p_conflictID (pure E) (DocID current) (DocRev (fdr_Doc target))"
    and losttr: "losttr = tr1 @ [VFS_FileByID (UseSharingIndexer lostix) lostid,
                                Indexer_conflictName lostix (DirID newdoc) (DocName (fdr_Doc target)) True]"
    and loser: "loser = ResetFullpath (newdoc\<lparr>DocID := lostid,
                   DocName := vfs_conflictName (vfs E) (tr1 @ [VFS_FileByID (UseSharingIndexer lostix) lostid])
                                lostix (DirID newdoc) (DocName (fdr_Doc target)) True,
                   DocRev := []\<rparr>)"
    and wonix: "wonix = conflictIndexer E (DocRev current)"
    and wonid: "wonid = p_conflictID (pure E) (DocID current) (DocRev current)"
    and will: "will = [Indexer_WillResolveConflict ix (DocRev current) chain]"
    and pre: "pre = (if DocName newdoc = DocName current \<and> DirID newdoc = DirID current then []
                     else [Indexer_StashRevision ix False])"
    and d: "d = (if DocName newdoc = DocName current \<and> DirID newdoc = DirID current then newdoc
                 else ResetFullpath (newdoc\<lparr>DocName := DocName current, DirID := DirID current\<rparr>))"
  shows
   "(p_detectConflict (pure E) (DocRev current) chain = LostConflict \<longrightarrow>
       (\<exists>ext. snd (UploadExistingFile E s target current b tr) = tr1 @ ext
              \<and> list_all (\<lambda>e. \<not> overwrites (DocID current) e) ext)
     \<and> (vfs_FileByID (vfs E) tr1 (UseSharingIndexer lostix) lostid = Inl os_ErrNotExist \<longrightarrow>
          (\<forall>err. vfs_CreateFile (vfs E) losttr (UseSharingIndexer lostix) loser None = Inl err \<longrightarrow>
             UploadExistingFile E s target current b tr
               = (Returns (Some err), losttr @ [VFS_CreateFile (UseSharingIndexer lostix) loser None]))
        \<and> (\<forall>fh. vfs_CreateFile (vfs E) losttr (UseSharingIndexer lostix) loser None = Inr fh \<longrightarrow>
             UploadExistingFile E s target current b tr
               = (Returns (fst (copyFileContent E fh b
                                  (losttr @ [VFS_CreateFile (UseSharingIndexer lostix) loser None]))),
                  losttr @ [VFS_CreateFile (UseSharingIndexer lostix) loser None,
                            File_Copy fh b, File_Close fh])))
     \<and> (\<forall>existing. vfs_FileByID (vfs E) tr1 (UseSharingIndexer lostix) lostid = Inr existing \<longrightarrow>
          UploadExistingFile E s target current b tr
            = (Returns None, tr1 @ [VFS_FileByID (UseSharingIndexer lostix) lostid, Body_Close b])))
  \<and> (p_detectConflict (pure E) (DocRev current) chain = WonConflict \<longrightarrow>
       (\<forall>err tr2. uploadWonConflict E current tr1 = (Some err, tr2) \<longrightarrow>
          UploadExistingFile E s target current b tr = (Returns (Some err), tr2))
     \<and> (\<forall>tr2. uploadWonConflict E current tr1 = (None, tr2) \<longrightarrow>
          (vfs_FileByID (vfs E) tr1 (UseSharingIndexer wonix) wonid = Inl os_ErrNotExist \<longrightarrow>
             (\<exists>copy file.
                 tr2 = tr1 @ [VFS_FileByID (UseSharingIndexer wonix) wonid,
                              Indexer_conflictName wonix (DirID current) (DocName current) True,
                              VFS_OpenFile (UseSharingIndexer wonix) current,
                              VFS_CreateFile (UseSharingIndexer wonix) copy None,
                              File_Copy file (Content current), File_Close file, Body_Close (Content current)]
               \<and> DocID copy = wonid
               \<and> DocName copy = vfs_conflictName (vfs E) (tr1 @ [VFS_FileByID (UseSharingIndexer wonix) wonid])
                                   wonix (DirID current) (DocName current) True))
        \<and> (\<forall>existing. vfs_FileByID (vfs E) tr1 (UseSharingIndexer wonix) wonid = Inr existing \<longrightarrow>
             tr2 = tr1 @ [VFS_FileByID (UseSharingIndexer wonix) wonid])
        \<and> (\<forall>err. vfs_CreateFile (vfs E) (tr2 @ will @ pre) (UseSharingIndexer ix) d (Some current) = Inl err \<longrightarrow>
             UploadExistingFile E s target current b tr
               = (Returns (Some err), tr2 @ will @ pre @ [VFS_CreateFile (UseSharingIndexer ix) d (Some current)]))
        \<and> (\<forall>fh. vfs_CreateFile (vfs E) (tr2 @ will @ pre) (UseSharingIndexer ix) d (Some current) = Inr fh \<longrightarrow>
             (\<exists>rest. snd (UploadExistingFile E s target current b tr)
                 = tr2 @ will @ pre @ [VFS_CreateFile (UseSharingIndexer ix) d (Some current),
                                       File_Copy fh b, File_Close fh] @ rest))))
  \<and> (p_detectConflict (pure E) (DocRev current) chain = NoConflict \<longrightarrow>
       (\<forall>err. vfs_CreateFile (vfs E) (tr1 @ will @ pre) (UseSharingIndexer ix) d (Some current) = Inl err \<longrightarrow>
          UploadExistingFile E s target current b tr
            = (Returns (Some err), tr1 @ will @ pre @ [VFS_CreateFile (UseSharingIndexer ix) d (Some current)]))
     \<and> (\<forall>fh. vfs_CreateFile (vfs E) (tr1 @ will @ pre) (UseSharingIndexer ix) d (Some current) = Inr fh \<longrightarrow>
          (\<exists>rest. snd (UploadExistingFile E s target current b tr)
              = tr1 @ will @ pre @ [VFS_CreateFile (UseSharingIndexer ix) d (Some current),
                                    File_Copy fh b, File_Close fh] @ rest)))
  \<and> DocID loser = p_conflictID (pure E) (DocID current) (DocRev (fdr_Doc target)) \<and> DocRev loser = []
  \<and> ByteSize loser = ByteSize (fdr_Doc target) \<and> MD5Sum loser = MD5Sum (fdr_Doc target)
  \<and> DocID d = DocID current
  \<and> ByteSize d = ByteSize (fdr_Doc target) \<and> MD5Sum d = MD5Sum (fdr_Doc target)"
proof -
  note fr = UploadExistingFile_prepare_frame [OF prep frame]
  note whole = UploadExistingFile_unfold [OF prep, of b]
  have created: "\<forall>fh. vfs_CreateFile (vfs E) (tr' @ will @ pre) (UseSharingIndexer ix) d (Some current) = Inr fh \<longrightarrow>
      (\<exists>rest. snd (UploadExistingFile_content E (UseSharingIndexer ix) ix current newdoc b (tr' @ will))
           = tr' @ will @ pre @ [VFS_CreateFile (UseSharingIndexer ix) d (Some current),
                                 File_Copy fh b, File_Close fh] @ rest)" for tr'
    using UploadExistingFile_content_created [OF pre d, of E "tr' @ will" "UseSharingIndexer ix" _ b]
    by simp
  have failed: "\<forall>err. vfs_CreateFile (vfs E) (tr' @ will @ pre) (UseSharingIndexer ix) d (Some current) = Inl err \<longrightarrow>
      UploadExistingFile_content E (UseSharingIndexer ix) ix current newdoc b (tr' @ will)
        = (Some err, tr' @ will @ pre @ [VFS_CreateFile (UseSharingIndexer ix) d (Some current)])" for tr'
    using UploadExistingFile_content_steps [OF pre d, of E "tr' @ will" "UseSharingIndexer ix" b,
        THEN conjunct1]
    by simp
  have lost: "p_detectConflict (pure E) (DocRev current) chain = LostConflict \<Longrightarrow>
      UploadExistingFile E s target current b tr
        = (Returns (fst (uploadLostConflict E target newdoc b tr1)), snd (uploadLostConflict E target newdoc b tr1))"
    using fr chain by (simp add: whole UploadExistingFile_conflict_def Let_def split: prod.splits)
  have L: "p_detectConflict (pure E) (DocRev current) chain = LostConflict \<longrightarrow>
       (\<exists>ext. snd (UploadExistingFile E s target current b tr) = tr1 @ ext
              \<and> list_all (\<lambda>e. \<not> overwrites (DocID current) e) ext)
     \<and> (vfs_FileByID (vfs E) tr1 (UseSharingIndexer lostix) lostid = Inl os_ErrNotExist \<longrightarrow>
          (\<forall>err. vfs_CreateFile (vfs E) losttr (UseSharingIndexer lostix) loser None = Inl err \<longrightarrow>
             UploadExistingFile E s target current b tr
               = (Returns (Some err), losttr @ [VFS_CreateFile (UseSharingIndexer lostix) loser None]))
        \<and> (\<forall>fh. vfs_CreateFile (vfs E) losttr (UseSharingIndexer lostix) loser None = Inr fh \<longrightarrow>
             UploadExistingFile E s target current b tr
               = (Returns (fst (copyFileContent E fh b
                                  (losttr @ [VFS_CreateFile (UseSharingIndexer lostix) loser None]))),
                  losttr @ [VFS_CreateFile (UseSharingIndexer lostix) loser None,
                            File_Copy fh b, File_Close fh])))
     \<and> (\<forall>existing. vfs_FileByID (vfs E) tr1 (UseSharingIndexer lostix) lostid = Inr existing \<longrightarrow>
          UploadExistingFile E s target current b tr
            = (Returns None, tr1 @ [VFS_FileByID (UseSharingIndexer lostix) lostid, Body_Close b]))"
  proof
    assume c: "p_detectConflict (pure E) (DocRev current) chain = LostConflict"
    note l = lost [OF c]
    have 1: "\<exists>ext. snd (UploadExistingFile E s target current b tr) = tr1 @ ext
              \<and> list_all (\<lambda>e. \<not> overwrites (DocID current) e) ext"
      using uploadLostConflict_overwrites_nothing
              [of E target newdoc b tr1 "fst (uploadLostConflict E target newdoc b tr1)"
                  "snd (uploadLostConflict E target newdoc b tr1)" "DocID current"]
      by (simp add: l)
    have 2: "vfs_FileByID (vfs E) tr1 (UseSharingIndexer lostix) lostid = Inl os_ErrNotExist \<longrightarrow>
          (\<forall>err. vfs_CreateFile (vfs E) losttr (UseSharingIndexer lostix) loser None = Inl err \<longrightarrow>
             UploadExistingFile E s target current b tr
               = (Returns (Some err), losttr @ [VFS_CreateFile (UseSharingIndexer lostix) loser None]))
        \<and> (\<forall>fh. vfs_CreateFile (vfs E) losttr (UseSharingIndexer lostix) loser None = Inr fh \<longrightarrow>
             UploadExistingFile E s target current b tr
               = (Returns (fst (copyFileContent E fh b
                                  (losttr @ [VFS_CreateFile (UseSharingIndexer lostix) loser None]))),
                  losttr @ [VFS_CreateFile (UseSharingIndexer lostix) loser None,
                            File_Copy fh b, File_Close fh]))"
    proof
      assume ne: "vfs_FileByID (vfs E) tr1 (UseSharingIndexer lostix) lostid = Inl os_ErrNotExist"
      have i: "lostid = p_conflictID (pure E) (DocID newdoc) (DocRev (fdr_Doc target))"
        using fr lostid by simp
      have t: "losttr = tr1 @ [VFS_FileByID (UseSharingIndexer lostix) lostid,
                               Indexer_conflictName lostix (DirID newdoc) (DocName newdoc) True]"
        using fr losttr by simp
      have o: "loser = ResetFullpath (newdoc\<lparr>DocID := lostid,
                   DocName := vfs_conflictName (vfs E) (tr1 @ [VFS_FileByID (UseSharingIndexer lostix) lostid])
                                lostix (DirID newdoc) (DocName newdoc) True,
                   DocRev := []\<rparr>)"
        using fr loser by simp
      from uploadLostConflict_new_copy [OF ne lostix i t o, of b]
      show "(\<forall>err. vfs_CreateFile (vfs E) losttr (UseSharingIndexer lostix) loser None = Inl err \<longrightarrow>
             UploadExistingFile E s target current b tr
               = (Returns (Some err), losttr @ [VFS_CreateFile (UseSharingIndexer lostix) loser None]))
        \<and> (\<forall>fh. vfs_CreateFile (vfs E) losttr (UseSharingIndexer lostix) loser None = Inr fh \<longrightarrow>
             UploadExistingFile E s target current b tr
               = (Returns (fst (copyFileContent E fh b
                                  (losttr @ [VFS_CreateFile (UseSharingIndexer lostix) loser None]))),
                  losttr @ [VFS_CreateFile (UseSharingIndexer lostix) loser None,
                            File_Copy fh b, File_Close fh]))"
        by (simp add: l)
    qed
    have 3: "\<forall>existing. vfs_FileByID (vfs E) tr1 (UseSharingIndexer lostix) lostid = Inr existing \<longrightarrow>
          UploadExistingFile E s target current b tr
            = (Returns None, tr1 @ [VFS_FileByID (UseSharingIndexer lostix) lostid, Body_Close b])"
      using fr lostix lostid uploadLostConflict_copy_exists [of E tr1 target newdoc _ b]
      by (simp add: l)
    from 1 2 3 show "(\<exists>ext. snd (UploadExistingFile E s target current b tr) = tr1 @ ext
              \<and> list_all (\<lambda>e. \<not> overwrites (DocID current) e) ext)
     \<and> (vfs_FileByID (vfs E) tr1 (UseSharingIndexer lostix) lostid = Inl os_ErrNotExist \<longrightarrow>
          (\<forall>err. vfs_CreateFile (vfs E) losttr (UseSharingIndexer lostix) loser None = Inl err \<longrightarrow>
             UploadExistingFile E s target current b tr
               = (Returns (Some err), losttr @ [VFS_CreateFile (UseSharingIndexer lostix) loser None]))
        \<and> (\<forall>fh. vfs_CreateFile (vfs E) losttr (UseSharingIndexer lostix) loser None = Inr fh \<longrightarrow>
             UploadExistingFile E s target current b tr
               = (Returns (fst (copyFileContent E fh b
                                  (losttr @ [VFS_CreateFile (UseSharingIndexer lostix) loser None]))),
                  losttr @ [VFS_CreateFile (UseSharingIndexer lostix) loser None,
                            File_Copy fh b, File_Close fh])))
     \<and> (\<forall>existing. vfs_FileByID (vfs E) tr1 (UseSharingIndexer lostix) lostid = Inr existing \<longrightarrow>
          UploadExistingFile E s target current b tr
            = (Returns None, tr1 @ [VFS_FileByID (UseSharingIndexer lostix) lostid, Body_Close b]))"
      by (intro conjI)
  qed
  have W: "p_detectConflict (pure E) (DocRev current) chain = WonConflict \<longrightarrow>
       (\<forall>err tr2. uploadWonConflict E current tr1 = (Some err, tr2) \<longrightarrow>
          UploadExistingFile E s target current b tr = (Returns (Some err), tr2))
     \<and> (\<forall>tr2. uploadWonConflict E current tr1 = (None, tr2) \<longrightarrow>
          (vfs_FileByID (vfs E) tr1 (UseSharingIndexer wonix) wonid = Inl os_ErrNotExist \<longrightarrow>
             (\<exists>copy file.
                 tr2 = tr1 @ [VFS_FileByID (UseSharingIndexer wonix) wonid,
                              Indexer_conflictName wonix (DirID current) (DocName current) True,
                              VFS_OpenFile (UseSharingIndexer wonix) current,
                              VFS_CreateFile (UseSharingIndexer wonix) copy None,
                              File_Copy file (Content current), File_Close file, Body_Close (Content current)]
               \<and> DocID copy = wonid
               \<and> DocName copy = vfs_conflictName (vfs E) (tr1 @ [VFS_FileByID (UseSharingIndexer wonix) wonid])
                                   wonix (DirID current) (DocName current) True))
        \<and> (\<forall>existing. vfs_FileByID (vfs E) tr1 (UseSharingIndexer wonix) wonid = Inr existing \<longrightarrow>
             tr2 = tr1 @ [VFS_FileByID (UseSharingIndexer wonix) wonid])
        \<and> (\<forall>err. vfs_CreateFile (vfs E) (tr2 @ will @ pre) (UseSharingIndexer ix) d (Some current) = Inl err \<longrightarrow>
             UploadExistingFile E s target current b tr
               = (Returns (Some err), tr2 @ will @ pre @ [VFS_CreateFile (UseSharingIndexer ix) d (Some current)]))
        \<and> (\<forall>fh. vfs_CreateFile (vfs E) (tr2 @ will @ pre) (UseSharingIndexer ix) d (Some current) = Inr fh \<longrightarrow>
             (\<exists>rest. snd (UploadExistingFile E s target current b tr)
                 = tr2 @ will @ pre @ [VFS_CreateFile (UseSharingIndexer ix) d (Some current),
                                       File_Copy fh b, File_Close fh] @ rest)))"
  proof
    assume c: "p_detectConflict (pure E) (DocRev current) chain = WonConflict"
    have 1: "\<forall>err tr2. uploadWonConflict E current tr1 = (Some err, tr2) \<longrightarrow>
          UploadExistingFile E s target current b tr = (Returns (Some err), tr2)"
      using c fr chain by (simp add: whole UploadExistingFile_conflict_def Let_def)
    have 2: "\<forall>tr2. uploadWonConflict E current tr1 = (None, tr2) \<longrightarrow>
          (vfs_FileByID (vfs E) tr1 (UseSharingIndexer wonix) wonid = Inl os_ErrNotExist \<longrightarrow>
             (\<exists>copy file.
                 tr2 = tr1 @ [VFS_FileByID (UseSharingIndexer wonix) wonid,
                              Indexer_conflictName wonix (DirID current) (DocName current) True,
                              VFS_OpenFile (UseSharingIndexer wonix) current,
                              VFS_CreateFile (UseSharingIndexer wonix) copy None,
                              File_Copy file (Content current), File_Close file, Body_Close (Content current)]
               \<and> DocID copy = wonid
               \<and> DocName copy = vfs_conflictName (vfs E) (tr1 @ [VFS_FileByID (UseSharingIndexer wonix) wonid])
                                   wonix (DirID current) (DocName current) True))
        \<and> (\<forall>existing. vfs_FileByID (vfs E) tr1 (UseSharingIndexer wonix) wonid = Inr existing \<longrightarrow>
             tr2 = tr1 @ [VFS_FileByID (UseSharingIndexer wonix) wonid])
        \<and> (\<forall>err. vfs_CreateFile (vfs E) (tr2 @ will @ pre) (UseSharingIndexer ix) d (Some current) = Inl err \<longrightarrow>
             UploadExistingFile E s target current b tr
               = (Returns (Some err), tr2 @ will @ pre @ [VFS_CreateFile (UseSharingIndexer ix) d (Some current)]))
        \<and> (\<forall>fh. vfs_CreateFile (vfs E) (tr2 @ will @ pre) (UseSharingIndexer ix) d (Some current) = Inr fh \<longrightarrow>
             (\<exists>rest. snd (UploadExistingFile E s target current b tr)
                 = tr2 @ will @ pre @ [VFS_CreateFile (UseSharingIndexer ix) d (Some current),
                                       File_Copy fh b, File_Close fh] @ rest))"
    proof (intro allI impI)
      fix tr2 assume w: "uploadWonConflict E current tr1 = (None, tr2)"
      have a: "vfs_FileByID (vfs E) tr1 (UseSharingIndexer wonix) wonid = Inl os_ErrNotExist \<longrightarrow>
             (\<exists>copy file.
                 tr2 = tr1 @ [VFS_FileByID (UseSharingIndexer wonix) wonid,
                              Indexer_conflictName wonix (DirID current) (DocName current) True,
                              VFS_OpenFile (UseSharingIndexer wonix) current,
                              VFS_CreateFile (UseSharingIndexer wonix) copy None,
                              File_Copy file (Content current), File_Close file, Body_Close (Content current)]
               \<and> DocID copy = wonid
               \<and> DocName copy = vfs_conflictName (vfs E) (tr1 @ [VFS_FileByID (UseSharingIndexer wonix) wonid])
                                   wonix (DirID current) (DocName current) True)"
        using uploadWonConflict_new_copy [of E tr1 current tr2] w wonix wonid by simp
      have e: "\<forall>existing. vfs_FileByID (vfs E) tr1 (UseSharingIndexer wonix) wonid = Inr existing \<longrightarrow>
             tr2 = tr1 @ [VFS_FileByID (UseSharingIndexer wonix) wonid]"
        using uploadWonConflict_copy_exists [of E tr1 current] w wonix wonid by simp
      have u: "UploadExistingFile E s target current b tr
          = (Returns (fst (UploadExistingFile_content E (UseSharingIndexer ix) ix current newdoc b (tr2 @ will))),
             snd (UploadExistingFile_content E (UseSharingIndexer ix) ix current newdoc b (tr2 @ will)))"
        using c w fr chain will by (simp add: whole UploadExistingFile_conflict_def Let_def split: prod.splits)
      have f: "\<forall>err. vfs_CreateFile (vfs E) (tr2 @ will @ pre) (UseSharingIndexer ix) d (Some current) = Inl err \<longrightarrow>
             UploadExistingFile E s target current b tr
               = (Returns (Some err), tr2 @ will @ pre @ [VFS_CreateFile (UseSharingIndexer ix) d (Some current)])"
        using failed [of tr2] by (simp add: u)
      have g: "\<forall>fh. vfs_CreateFile (vfs E) (tr2 @ will @ pre) (UseSharingIndexer ix) d (Some current) = Inr fh \<longrightarrow>
             (\<exists>rest. snd (UploadExistingFile E s target current b tr)
                 = tr2 @ will @ pre @ [VFS_CreateFile (UseSharingIndexer ix) d (Some current),
                                       File_Copy fh b, File_Close fh] @ rest)"
        using created [of tr2] by (simp add: u)
      from a e f g show "(vfs_FileByID (vfs E) tr1 (UseSharingIndexer wonix) wonid = Inl os_ErrNotExist \<longrightarrow>
             (\<exists>copy file.
                 tr2 = tr1 @ [VFS_FileByID (UseSharingIndexer wonix) wonid,
                              Indexer_conflictName wonix (DirID current) (DocName current) True,
                              VFS_OpenFile (UseSharingIndexer wonix) current,
                              VFS_CreateFile (UseSharingIndexer wonix) copy None,
                              File_Copy file (Content current), File_Close file, Body_Close (Content current)]
               \<and> DocID copy = wonid
               \<and> DocName copy = vfs_conflictName (vfs E) (tr1 @ [VFS_FileByID (UseSharingIndexer wonix) wonid])
                                   wonix (DirID current) (DocName current) True))
        \<and> (\<forall>existing. vfs_FileByID (vfs E) tr1 (UseSharingIndexer wonix) wonid = Inr existing \<longrightarrow>
             tr2 = tr1 @ [VFS_FileByID (UseSharingIndexer wonix) wonid])
        \<and> (\<forall>err. vfs_CreateFile (vfs E) (tr2 @ will @ pre) (UseSharingIndexer ix) d (Some current) = Inl err \<longrightarrow>
             UploadExistingFile E s target current b tr
               = (Returns (Some err), tr2 @ will @ pre @ [VFS_CreateFile (UseSharingIndexer ix) d (Some current)]))
        \<and> (\<forall>fh. vfs_CreateFile (vfs E) (tr2 @ will @ pre) (UseSharingIndexer ix) d (Some current) = Inr fh \<longrightarrow>
             (\<exists>rest. snd (UploadExistingFile E s target current b tr)
                 = tr2 @ will @ pre @ [VFS_CreateFile (UseSharingIndexer ix) d (Some current),
                                       File_Copy fh b, File_Close fh] @ rest))"
        by (intro conjI)
    qed
    from 1 2 show "(\<forall>err tr2. uploadWonConflict E current tr1 = (Some err, tr2) \<longrightarrow>
          UploadExistingFile E s target current b tr = (Returns (Some err), tr2))
     \<and> (\<forall>tr2. uploadWonConflict E current tr1 = (None, tr2) \<longrightarrow>
          (vfs_FileByID (vfs E) tr1 (UseSharingIndexer wonix) wonid = Inl os_ErrNotExist \<longrightarrow>
             (\<exists>copy file.
                 tr2 = tr1 @ [VFS_FileByID (UseSharingIndexer wonix) wonid,
                              Indexer_conflictName wonix (DirID current) (DocName current) True,
                              VFS_OpenFile (UseSharingIndexer wonix) current,
                              VFS_CreateFile (UseSharingIndexer wonix) copy None,
                              File_Copy file (Content current), File_Close file, Body_Close (Content current)]
               \<and> DocID copy = wonid
               \<and> DocName copy = vfs_conflictName (vfs E) (tr1 @ [VFS_FileByID (UseSharingIndexer wonix) wonid])
                                   wonix (DirID current) (DocName current) True))
        \<and> (\<forall>existing. vfs_FileByID (vfs E) tr1 (UseSharingIndexer wonix) wonid = Inr existing \<longrightarrow>
             tr2 = tr1 @ [VFS_FileByID (UseSharingIndexer wonix) wonid])
        \<and> (\<forall>err. vfs_CreateFile (vfs E) (tr2 @ will @ pre) (UseSharingIndexer ix) d (Some current) = Inl err \<longrightarrow>
             UploadExistingFile E s target current b tr
               = (Returns (Some err), tr2 @ will @ pre @ [VFS_CreateFile (UseSharingIndexer ix) d (Some current)]))
        \<and> (\<forall>fh. vfs_CreateFile (vfs E) (tr2 @ will @ pre) (UseSharingIndexer ix) d (Some current) = Inr fh \<longrightarrow>
             (\<exists>rest. snd (UploadExistingFile E s target current b tr)
                 = tr2 @ will @ pre @ [VFS_CreateFile (UseSharingIndexer ix) d (Some current),
                                       File_Copy fh b, File_Close fh] @ rest)))"
      by (intro conjI)
  qed
  have N: "p_detectConflict (pure E) (DocRev current) chain = NoConflict \<longrightarrow>
       (\<forall>err. vfs_CreateFile (vfs E) (tr1 @ will @ pre) (UseSharingIndexer ix) d (Some current) = Inl err \<longrightarrow>
          UploadExistingFile E s target current b tr
            = (Returns (Some err), tr1 @ will @ pre @ [VFS_CreateFile (UseSharingIndexer ix) d (Some current)]))
     \<and> (\<forall>fh. vfs_CreateFile (vfs E) (tr1 @ will @ pre) (UseSharingIndexer ix) d (Some current) = Inr fh \<longrightarrow>
          (\<exists>rest. snd (UploadExistingFile E s target current b tr)
              = tr1 @ will @ pre @ [VFS_CreateFile (UseSharingIndexer ix) d (Some current),
                                    File_Copy fh b, File_Close fh] @ rest))"
  proof
    assume c: "p_detectConflict (pure E) (DocRev current) chain = NoConflict"
    have u: "UploadExistingFile E s target current b tr
          = (Returns (fst (UploadExistingFile_content E (UseSharingIndexer ix) ix current newdoc b (tr1 @ will))),
             snd (UploadExistingFile_content E (UseSharingIndexer ix) ix current newdoc b (tr1 @ will)))"
      using c fr chain will by (simp add: whole UploadExistingFile_conflict_def Let_def split: prod.splits)
    have f: "\<forall>err. vfs_CreateFile (vfs E) (tr1 @ will @ pre) (UseSharingIndexer ix) d (Some current) = Inl err \<longrightarrow>
          UploadExistingFile E s target current b tr
            = (Returns (Some err), tr1 @ will @ pre @ [VFS_CreateFile (UseSharingIndexer ix) d (Some current)])"
      using failed [of tr1] by (simp add: u)
    have g: "\<forall>fh. vfs_CreateFile (vfs E) (tr1 @ will @ pre) (UseSharingIndexer ix) d (Some current) = Inr fh \<longrightarrow>
          (\<exists>rest. snd (UploadExistingFile E s target current b tr)
              = tr1 @ will @ pre @ [VFS_CreateFile (UseSharingIndexer ix) d (Some current),
                                    File_Copy fh b, File_Close fh] @ rest)"
      using created [of tr1] by (simp add: u)
    from f g show "(\<forall>err. vfs_CreateFile (vfs E) (tr1 @ will @ pre) (UseSharingIndexer ix) d (Some current) = Inl err \<longrightarrow>
          UploadExistingFile E s target current b tr
            = (Returns (Some err), tr1 @ will @ pre @ [VFS_CreateFile (UseSharingIndexer ix) d (Some current)]))
     \<and> (\<forall>fh. vfs_CreateFile (vfs E) (tr1 @ will @ pre) (UseSharingIndexer ix) d (Some current) = Inr fh \<longrightarrow>
          (\<exists>rest. snd (UploadExistingFile E s target current b tr)
              = tr1 @ will @ pre @ [VFS_CreateFile (UseSharingIndexer ix) d (Some current),
                                    File_Copy fh b, File_Close fh] @ rest))"
      by (intro conjI)
  qed
  have D: "DocID loser = p_conflictID (pure E) (DocID current) (DocRev (fdr_Doc target)) \<and> DocRev loser = []
      \<and> ByteSize loser = ByteSize (fdr_Doc target) \<and> MD5Sum loser = MD5Sum (fdr_Doc target)
      \<and> DocID d = DocID current
      \<and> ByteSize d = ByteSize (fdr_Doc target) \<and> MD5Sum d = MD5Sum (fdr_Doc target)"
    using fr loser lostid d by (simp add: ResetFullpath_def)
  from L W N D show ?thesis by (intro conjI) (elim conjE, assumption)+
qed

text \<open>The instances of the examples: what is prepared, which conflict, what the lookups answer.\<close>

lemma calm_frame:
  assumes "E0 = calm_env \<or> E0 = copy_exists_env \<or> E0 = won_copy_exists_env \<or> E0 = open_fails_env
         \<or> E0 = create_fails_env \<or> E0 = copy_fails_env"
  shows "\<forall>t d. DocID (p_copySafeFieldsToFile (pure E0) t d) = DocID d
             \<and> DocRev (p_copySafeFieldsToFile (pure E0) t d) = DocRev d"
  using assms
  by (auto simp add: calm_env_def copy_exists_env_def won_copy_exists_env_def open_fails_env_def
      create_fails_env_def copy_fails_env_def plain_helpers_def)

lemma calm_prepare:
  assumes "E0 = calm_env \<or> E0 = copy_exists_env \<or> E0 = won_copy_exists_env \<or> E0 = open_fails_env
         \<or> E0 = create_fails_env \<or> E0 = copy_fails_env"
    and "t = target_lost \<or> t = target_won \<or> t = target_extends"
  shows "UploadExistingFile_prepare E0 team_sharing t local_doc []
           = (Inr (ready_indexer t, ready_doc), ready_trace)"
  using assms
  by (auto simp add: UploadExistingFile_prepare_def GetDoc_SharedRef_def GetDoc_id_def validateDocID_def
      prepareFileWithAncestors_def ResetFullpath_def Rules_at_def
      calm_env_def copy_exists_env_def won_copy_exists_env_def open_fails_env_def
      create_fails_env_def copy_fails_env_def plain_helpers_def calm_db_def calm_vfs_def
      team_sharing_def local_shared_def local_doc_def target_lost_def target_won_def target_extends_def
      incoming_doc_def note_doc_def ready_indexer_def ready_doc_def ready_trace_def
      consts_Files_def consts_Shared_def Let_def)

lemma calm_names:
  assumes "E0 = calm_env \<or> E0 = copy_exists_env \<or> E0 = won_copy_exists_env \<or> E0 = open_fails_env
         \<or> E0 = create_fails_env \<or> E0 = copy_fails_env"
  shows "[''1-a'', ''2-a''] = p_revsStructToChain (pure E0) (fdr_Revisions target_lost)"
    and "[''1-z''] = p_revsStructToChain (pure E0) (fdr_Revisions target_won)"
    and "[''1-a'', ''2-b'', ''3-c''] = p_revsStructToChain (pure E0) (fdr_Revisions target_extends)"
    and "lost_indexer = conflictIndexer E0 (DocRev (fdr_Doc target_lost))"
    and "''f1~2-a'' = p_conflictID (pure E0) (DocID local_doc) (DocRev (fdr_Doc target_lost))"
    and "ready_trace @ [VFS_FileByID (UseSharingIndexer lost_indexer) ''f1~2-a'',
                        Indexer_conflictName lost_indexer ''d2'' ''memo.txt'' True]
         = ready_trace @ [VFS_FileByID (UseSharingIndexer lost_indexer) ''f1~2-a'',
                          Indexer_conflictName lost_indexer (DirID ready_doc) (DocName (fdr_Doc target_lost)) True]"
    and "loser_doc = ResetFullpath (ready_doc\<lparr>DocID := ''f1~2-a'',
           DocName := vfs_conflictName (vfs E0) (ready_trace @ [VFS_FileByID (UseSharingIndexer lost_indexer) ''f1~2-a''])
                        lost_indexer (DirID ready_doc) (DocName (fdr_Doc target_lost)) True,
           DocRev := []\<rparr>)"
    and "won_indexer = conflictIndexer E0 (DocRev local_doc)"
    and "''f1~2-b'' = p_conflictID (pure E0) (DocID local_doc) (DocRev local_doc)"
    and "[Indexer_WillResolveConflict ix ''2-b'' chain] = [Indexer_WillResolveConflict ix (DocRev local_doc) chain]"
    and "[Indexer_StashRevision ix False]
         = (if DocName ready_doc = DocName local_doc \<and> DirID ready_doc = DirID local_doc then []
            else [Indexer_StashRevision ix False])"
    and "old_path_doc
         = (if DocName ready_doc = DocName local_doc \<and> DirID ready_doc = DirID local_doc then ready_doc
            else ResetFullpath (ready_doc\<lparr>DocName := DocName local_doc, DirID := DirID local_doc\<rparr>))"
  using assms
  by (auto simp add: calm_env_def copy_exists_env_def won_copy_exists_env_def open_fails_env_def
      create_fails_env_def copy_fails_env_def plain_helpers_def calm_vfs_def conflictIndexer_def
      lost_indexer_def won_indexer_def loser_doc_def old_path_doc_def ready_doc_def ResetFullpath_def
      local_doc_def target_lost_def target_won_def target_extends_def incoming_doc_def note_doc_def)

lemma calm_conflicts:
  assumes "E0 = calm_env \<or> E0 = copy_exists_env \<or> E0 = won_copy_exists_env \<or> E0 = open_fails_env
         \<or> E0 = create_fails_env \<or> E0 = copy_fails_env"
  shows "p_detectConflict (pure E0) (DocRev local_doc) [''1-a'', ''2-a''] = LostConflict"
    and "p_detectConflict (pure E0) (DocRev local_doc) [''1-z''] = WonConflict"
    and "p_detectConflict (pure E0) (DocRev local_doc) [''1-a'', ''2-b'', ''3-c''] = NoConflict"
  using assms
  by (auto simp add: calm_env_def copy_exists_env_def won_copy_exists_env_def open_fails_env_def
      create_fails_env_def copy_fails_env_def plain_helpers_def generation_def local_doc_def note_doc_def)

lemma calm_lookups:
  "vfs_FileByID (vfs calm_env) tr fs ''f1~2-a'' = Inl os_ErrNotExist"
  "vfs_FileByID (vfs create_fails_env) tr fs ''f1~2-a'' = Inl os_ErrNotExist"
  "vfs_FileByID (vfs copy_exists_env) tr fs ''f1~2-a'' = Inr local_doc"
  "vfs_FileByID (vfs calm_env) tr fs ''f1~2-b'' = Inl os_ErrNotExist"
  "vfs_FileByID (vfs won_copy_exists_env) tr fs ''f1~2-b'' = Inr local_doc"
  by (simp_all add: calm_env_def copy_exists_env_def won_copy_exists_env_def create_fails_env_def
      calm_vfs_def)

lemma calm_creates:
  "vfs_CreateFile (vfs calm_env) tr fs nd None = Inr nd"
  "vfs_CreateFile (vfs calm_env) tr fs old_path_doc (Some local_doc) = Inr old_path_doc"
  "vfs_CreateFile (vfs won_copy_exists_env) tr fs old_path_doc (Some local_doc) = Inr old_path_doc"
  "vfs_CreateFile (vfs copy_fails_env) tr fs old_path_doc (Some local_doc) = Inr old_path_doc"
  "vfs_CreateFile (vfs create_fails_env) tr fs nd old = Inl (OtherError ''quota'')"
  "fst (copyFileContent calm_env fh b tr) = None"
  "copyFileContent calm_env fh b tr = (None, fh\<lparr>InternalID := ''i2''\<rparr>, tr @ [File_Copy fh b, File_Close fh])"
  "copyFileContent copy_fails_env fh b tr
     = (Some (OtherError ''short read''), fh\<lparr>InternalID := ''i2''\<rparr>, tr @ [File_Copy fh b, File_Close fh])"
  by (simp_all add: calm_env_def won_copy_exists_env_def copy_fails_env_def create_fails_env_def
      calm_vfs_def copyFileContent_def old_path_doc_def ready_doc_def local_doc_def note_doc_def)

lemma calm_won_copies:
  "uploadWonConflict calm_env local_doc ready_trace
     = (None, ready_trace @ [VFS_FileByID (UseSharingIndexer won_indexer) ''f1~2-b'',
                             Indexer_conflictName won_indexer ''d1'' ''note.txt'' True,
                             VFS_OpenFile (UseSharingIndexer won_indexer) local_doc,
                             VFS_CreateFile (UseSharingIndexer won_indexer) kept_doc None,
                             File_Copy kept_doc (Content local_doc), File_Close kept_doc,
                             Body_Close (Content local_doc)])"
  "uploadWonConflict won_copy_exists_env local_doc ready_trace
     = (None, ready_trace @ [VFS_FileByID (UseSharingIndexer won_indexer) ''f1~2-b''])"
  "uploadWonConflict open_fails_env local_doc ready_trace
     = (Some (OtherError ''unreadable''),
        ready_trace @ [VFS_FileByID (UseSharingIndexer won_indexer) ''f1~2-b'',
                       Indexer_conflictName won_indexer ''d1'' ''note.txt'' True,
                       VFS_OpenFile (UseSharingIndexer won_indexer) local_doc])"
  by (simp_all add: uploadWonConflict_def copyFileContent_def conflictIndexer_def ResetFullpath_def
      calm_env_def won_copy_exists_env_def open_fails_env_def calm_vfs_def plain_helpers_def
      won_indexer_def kept_doc_def local_doc_def note_doc_def Let_def)

lemma calm_docs:
  "DocID loser_doc = ''f1~2-a''" "DocName loser_doc = ''memo.txt (conflict)''" "DirID loser_doc = ''d2''"
  "MD5Sum loser_doc = Some [4, 5, 6]"
  "DocID kept_doc = ''f1~2-b''" "DocName kept_doc = ''note.txt (conflict)''"
  "DocID old_path_doc = ''f1''" "DocName old_path_doc = ''note.txt''" "DirID old_path_doc = ''d1''"
  "MD5Sum old_path_doc = Some [4, 5, 6]"
  "DocName ready_doc = ''memo.txt''" "DirID ready_doc = ''d2''"
  "DocID local_doc = ''f1''" "DocName local_doc = ''note.txt''" "DirID local_doc = ''d1''"
  "MD5Sum local_doc = Some [1, 2]"
  by (simp_all add: loser_doc_def kept_doc_def old_path_doc_def ready_doc_def local_doc_def note_doc_def)

text \<open>
  The theorem at work, on the local file \<open>note.txt\<close> (revision \<open>2-b\<close>) and three incoming
  documents: one that lost (copy made, copy refused, copy already there), one that won
  (local file copied aside, copy already there, local file unreadable), one that extends
  the local revision (content written, content refused).
\<close>

theorem UploadExistingFile_conflict_handling_witness:
  "UploadExistingFile_prepare calm_env team_sharing target_lost local_doc []
     = (Inr (ready_indexer target_lost, ready_doc), ready_trace)
   \<and> p_detectConflict (pure calm_env) (DocRev local_doc) [''1-a'', ''2-a''] = LostConflict
   \<and> vfs_FileByID (vfs calm_env) ready_trace (UseSharingIndexer lost_indexer) ''f1~2-a'' = Inl os_ErrNotExist
   \<and> UploadExistingFile calm_env team_sharing target_lost local_doc request_body []
       = (Returns None,
          ready_trace @ [VFS_FileByID (UseSharingIndexer lost_indexer) ''f1~2-a'',
                         Indexer_conflictName lost_indexer ''d2'' ''memo.txt'' True,
                         VFS_CreateFile (UseSharingIndexer lost_indexer) loser_doc None,
                         File_Copy loser_doc request_body, File_Close loser_doc])
   \<and> DocID loser_doc = ''f1~2-a'' \<and> DocName loser_doc = ''memo.txt (conflict)''
   \<and> (\<exists>ext. snd (UploadExistingFile calm_env team_sharing target_lost local_doc request_body [])
               = ready_trace @ ext \<and> list_all (\<lambda>e. \<not> overwrites ''f1'' e) ext)
   \<and> UploadExistingFile create_fails_env team_sharing target_lost local_doc request_body []
       = (Returns (Some (OtherError ''quota'')),
          ready_trace @ [VFS_FileByID (UseSharingIndexer lost_indexer) ''f1~2-a'',
                         Indexer_conflictName lost_indexer ''d2'' ''memo.txt'' True,
                         VFS_CreateFile (UseSharingIndexer lost_indexer) loser_doc None])
   \<and> vfs_FileByID (vfs copy_exists_env) ready_trace (UseSharingIndexer lost_indexer) ''f1~2-a'' = Inr local_doc
   \<and> UploadExistingFile copy_exists_env team_sharing target_lost local_doc request_body []
       = (Returns None, ready_trace @ [VFS_FileByID (UseSharingIndexer lost_indexer) ''f1~2-a'',
                                       Body_Close request_body])
   \<and> p_detectConflict (pure calm_env) (DocRev local_doc) [''1-z''] = WonConflict
   \<and> UploadExistingFile open_fails_env team_sharing target_won local_doc request_body []
       = (Returns (Some (OtherError ''unreadable'')),
          ready_trace @ [VFS_FileByID (UseSharingIndexer won_indexer) ''f1~2-b'',
                         Indexer_conflictName won_indexer ''d1'' ''note.txt'' True,
                         VFS_OpenFile (UseSharingIndexer won_indexer) local_doc])
   \<and> DocID kept_doc = ''f1~2-b'' \<and> DocName kept_doc = ''note.txt (conflict)''
   \<and> (\<exists>rest.
         snd (UploadExistingFile calm_env team_sharing target_won local_doc request_body [])
           = ready_trace @ [VFS_FileByID (UseSharingIndexer won_indexer) ''f1~2-b'',
                            Indexer_conflictName won_indexer ''d1'' ''note.txt'' True,
                            VFS_OpenFile (UseSharingIndexer won_indexer) local_doc,
                            VFS_CreateFile (UseSharingIndexer won_indexer) kept_doc None,
                            File_Copy kept_doc (Content local_doc), File_Close kept_doc,
                            Body_Close (Content local_doc),
                            Indexer_WillResolveConflict (ready_indexer target_won) ''2-b'' [''1-z''],
                            Indexer_StashRevision (ready_indexer target_won) False,
                            VFS_CreateFile (UseSharingIndexer (ready_indexer target_won)) old_path_doc (Some local_doc),
                            File_Copy old_path_doc request_body, File_Close old_path_doc] @ rest)
   \<and> (\<exists>rest.
         snd (UploadExistingFile won_copy_exists_env team_sharing target_won local_doc request_body [])
           = ready_trace @ [VFS_FileByID (UseSharingIndexer won_indexer) ''f1~2-b'',
                            Indexer_WillResolveConflict (ready_indexer target_won) ''2-b'' [''1-z''],
                            Indexer_StashRevision (ready_indexer target_won) False,
                            VFS_CreateFile (UseSharingIndexer (ready_indexer target_won)) old_path_doc (Some local_doc),
                            File_Copy old_path_doc request_body, File_Close old_path_doc] @ rest)
   \<and> p_detectConflict (pure calm_env) (DocRev local_doc) [''1-a'', ''2-b'', ''3-c''] = NoConflict
   \<and> (\<exists>rest.
         snd (UploadExistingFile calm_env team_sharing target_extends local_doc request_body [])
           = ready_trace @ [Indexer_WillResolveConflict (ready_indexer target_extends) ''2-b''
                              [''1-a'', ''2-b'', ''3-c''],
                            Indexer_StashRevision (ready_indexer target_extends) False,
                            VFS_CreateFile (UseSharingIndexer (ready_indexer target_extends)) old_path_doc (Some local_doc),
                            File_Copy old_path_doc request_body, File_Close old_path_doc] @ rest)
   \<and> UploadExistingFile create_fails_env team_sharing target_extends local_doc request_body []
       = (Returns (Some (OtherError ''quota'')),
          ready_trace @ [Indexer_WillResolveConflict (ready_indexer target_extends) ''2-b''
                           [''1-a'', ''2-b'', ''3-c''],
                         Indexer_StashRevision (ready_indexer target_extends) False,
                         VFS_CreateFile (UseSharingIndexer (ready_indexer target_extends)) old_path_doc (Some local_doc)])
   \<and> DocID old_path_doc = ''f1'' \<and> MD5Sum old_path_doc = Some [4, 5, 6]"
proof -
  note calm = disjI1 [OF refl]
  note copy_exists = disjI2 [OF disjI1 [OF refl]]
  note won_copy_exists = disjI2 [OF disjI2 [OF disjI1 [OF refl]]]
  note open_fails = disjI2 [OF disjI2 [OF disjI2 [OF disjI1 [OF refl]]]]
  note create_fails = disjI2 [OF disjI2 [OF disjI2 [OF disjI2 [OF disjI1 [OF refl]]]]]
  note lost = disjI1 [OF refl]
  note won = disjI2 [OF disjI1 [OF refl]]
  note extends = disjI2 [OF disjI2 [OF refl]]

  note L_calm = UploadExistingFile_conflict_handling
      [OF calm_prepare [OF calm lost] calm_frame [OF calm]
          calm_names(1) [OF calm] calm_names(4) [OF calm] calm_names(5) [OF calm]
          calm_names(6) [OF calm] calm_names(7) [OF calm] refl refl refl refl refl,
       of request_body, THEN conjunct1, THEN mp, OF calm_conflicts(1) [OF calm]]
  note l0 = L_calm [THEN conjunct1]
  note l1 = L_calm [THEN conjunct2, THEN conjunct1, THEN mp, OF calm_lookups(1),
                    THEN conjunct2, THEN spec, THEN mp, OF calm_creates(1)]
  note L_fails = UploadExistingFile_conflict_handling
      [OF calm_prepare [OF create_fails lost] calm_frame [OF create_fails]
          calm_names(1) [OF create_fails] calm_names(4) [OF create_fails] calm_names(5) [OF create_fails]
          calm_names(6) [OF create_fails] calm_names(7) [OF create_fails] refl refl refl refl refl,
       of request_body, THEN conjunct1, THEN mp, OF calm_conflicts(1) [OF create_fails]]
  note l1b = L_fails [THEN conjunct2, THEN conjunct1, THEN mp, OF calm_lookups(2),
                      THEN conjunct1, THEN spec, THEN mp, OF calm_creates(5)]
  note L_exists = UploadExistingFile_conflict_handling
      [OF calm_prepare [OF copy_exists lost] calm_frame [OF copy_exists]
          calm_names(1) [OF copy_exists] calm_names(4) [OF copy_exists] calm_names(5) [OF copy_exists]
          calm_names(6) [OF copy_exists] calm_names(7) [OF copy_exists] refl refl refl refl refl,
       of request_body, THEN conjunct1, THEN mp, OF calm_conflicts(1) [OF copy_exists]]
  note l2 = L_exists [THEN conjunct2, THEN conjunct2, THEN spec, THEN mp, OF calm_lookups(3)]

  note W_open = UploadExistingFile_conflict_handling
      [OF calm_prepare [OF open_fails won] calm_frame [OF open_fails]
          calm_names(2) [OF open_fails] refl refl refl refl
          calm_names(8) [OF open_fails] calm_names(9) [OF open_fails]
          calm_names(10) [OF open_fails] calm_names(11) [OF open_fails] calm_names(12) [OF open_fails],
       of request_body, THEN conjunct2, THEN conjunct1, THEN mp, OF calm_conflicts(2) [OF open_fails]]
  note w1 = W_open [THEN conjunct1, THEN spec, THEN spec, THEN mp, OF calm_won_copies(3)]
  note W_calm = UploadExistingFile_conflict_handling
      [OF calm_prepare [OF calm won] calm_frame [OF calm]
          calm_names(2) [OF calm] refl refl refl refl
          calm_names(8) [OF calm] calm_names(9) [OF calm]
          calm_names(10) [OF calm] calm_names(11) [OF calm] calm_names(12) [OF calm],
       of request_body, THEN conjunct2, THEN conjunct1, THEN mp, OF calm_conflicts(2) [OF calm],
       THEN conjunct2, THEN spec, THEN mp, OF calm_won_copies(1)]
  note w2 = W_calm [THEN conjunct2, THEN conjunct2, THEN conjunct2, THEN spec, THEN mp, OF calm_creates(2)]
  note W_exists = UploadExistingFile_conflict_handling
      [OF calm_prepare [OF won_copy_exists won] calm_frame [OF won_copy_exists]
          calm_names(2) [OF won_copy_exists] refl refl refl refl
          calm_names(8) [OF won_copy_exists] calm_names(9) [OF won_copy_exists]
          calm_names(10) [OF won_copy_exists] calm_names(11) [OF won_copy_exists] calm_names(12) [OF won_copy_exists],
       of request_body, THEN conjunct2, THEN conjunct1, THEN mp, OF calm_conflicts(2) [OF won_copy_exists],
       THEN conjunct2, THEN spec, THEN mp, OF calm_won_copies(2)]
  note w3 = W_exists [THEN conjunct2, THEN conjunct2, THEN conjunct2, THEN spec, THEN mp, OF calm_creates(3)]

  note N_calm = UploadExistingFile_conflict_handling
      [OF calm_prepare [OF calm extends] calm_frame [OF calm]
          calm_names(3) [OF calm] refl refl refl refl refl refl
          calm_names(10) [OF calm] calm_names(11) [OF calm] calm_names(12) [OF calm],
       of request_body, THEN conjunct2, THEN conjunct2, THEN conjunct1, THEN mp,
       OF calm_conflicts(3) [OF calm]]
  note n1 = N_calm [THEN conjunct2, THEN spec, THEN mp, OF calm_creates(2)]
  note N_fails = UploadExistingFile_conflict_handling
      [OF calm_prepare [OF create_fails extends] calm_frame [OF create_fails]
          calm_names(3) [OF create_fails] refl refl refl refl refl refl
          calm_names(10) [OF create_fails] calm_names(11) [OF create_fails] calm_names(12) [OF create_fails],
       of request_body, THEN conjunct2, THEN conjunct2, THEN conjunct1, THEN mp,
       OF calm_conflicts(3) [OF create_fails]]
  note n2 = N_fails [THEN conjunct1, THEN spec, THEN mp, OF calm_creates(5)]

  have a: "UploadExistingFile calm_env team_sharing target_lost local_doc request_body []
       = (Returns None,
          ready_trace @ [VFS_FileByID (UseSharingIndexer lost_indexer) ''f1~2-a'',
                         Indexer_conflictName lost_indexer ''d2'' ''memo.txt'' True,
                         VFS_CreateFile (UseSharingIndexer lost_indexer) loser_doc None,
                         File_Copy loser_doc request_body, File_Close loser_doc])"
    using l1 by (simp add: calm_creates(6))
  have b: "\<exists>ext. snd (UploadExistingFile calm_env team_sharing target_lost local_doc request_body [])
               = ready_trace @ ext \<and> list_all (\<lambda>e. \<not> overwrites ''f1'' e) ext"
    using l0 by (simp add: calm_docs)
  have c: "UploadExistingFile create_fails_env team_sharing target_lost local_doc request_body []
       = (Returns (Some (OtherError ''quota'')),
          ready_trace @ [VFS_FileByID (UseSharingIndexer lost_indexer) ''f1~2-a'',
                         Indexer_conflictName lost_indexer ''d2'' ''memo.txt'' True,
                         VFS_CreateFile (UseSharingIndexer lost_indexer) loser_doc None])"
    using l1b by simp
  have d: "UploadExistingFile copy_exists_env team_sharing target_lost local_doc request_body []
       = (Returns None, ready_trace @ [VFS_FileByID (UseSharingIndexer lost_indexer) ''f1~2-a'',
                                       Body_Close request_body])"
    using l2 by simp
  have e: "UploadExistingFile open_fails_env team_sharing target_won local_doc request_body []
       = (Returns (Some (OtherError ''unreadable'')),
          ready_trace @ [VFS_FileByID (UseSharingIndexer won_indexer) ''f1~2-b'',
                         Indexer_conflictName won_indexer ''d1'' ''note.txt'' True,
                         VFS_OpenFile (UseSharingIndexer won_indexer) local_doc])"
    using w1 by simp
  from w2 obtain rest2 where
    "snd (UploadExistingFile calm_env team_sharing target_won local_doc request_body [])
       = (ready_trace @ [VFS_FileByID (UseSharingIndexer won_indexer) ''f1~2-b'',
                         Indexer_conflictName won_indexer ''d1'' ''note.txt'' True,
                         VFS_OpenFile (UseSharingIndexer won_indexer) local_doc,
                         VFS_CreateFile (UseSharingIndexer won_indexer) kept_doc None,
                         File_Copy kept_doc (Content local_doc), File_Close kept_doc,
                         Body_Close (Content local_doc)])
         @ [Indexer_WillResolveConflict (ready_indexer target_won) ''2-b'' [''1-z'']]
         @ [Indexer_StashRevision (ready_indexer target_won) False]
         @ [VFS_CreateFile (UseSharingIndexer (ready_indexer target_won)) old_path_doc (Some local_doc),
            File_Copy old_path_doc request_body, File_Close old_path_doc] @ rest2"
    by blast
  then have f: "\<exists>rest.
         snd (UploadExistingFile calm_env team_sharing target_won local_doc request_body [])
           = ready_trace @ [VFS_FileByID (UseSharingIndexer won_indexer) ''f1~2-b'',
                            Indexer_conflictName won_indexer ''d1'' ''note.txt'' True,
                            VFS_OpenFile (UseSharingIndexer won_indexer) local_doc,
                            VFS_CreateFile (UseSharingIndexer won_indexer) kept_doc None,
                            File_Copy kept_doc (Content local_doc), File_Close kept_doc,
                            Body_Close (Content local_doc),
                            Indexer_WillResolveConflict (ready_indexer target_won) ''2-b'' [''1-z''],
                            Indexer_StashRevision (ready_indexer target_won) False,
                            VFS_CreateFile (UseSharingIndexer (ready_indexer target_won)) old_path_doc (Some local_doc),
                            File_Copy old_path_doc request_body, File_Close old_path_doc] @ rest"
    by (intro exI [of _ rest2]) simp
  from w3 obtain rest3 where
    "snd (UploadExistingFile won_copy_exists_env team_sharing target_won local_doc request_body [])
       = (ready_trace @ [VFS_FileByID (UseSharingIndexer won_indexer) ''f1~2-b''])
         @ [Indexer_WillResolveConflict (ready_indexer target_won) ''2-b'' [''1-z'']]
         @ [Indexer_StashRevision (ready_indexer target_won) False]
         @ [VFS_CreateFile (UseSharingIndexer (ready_indexer target_won)) old_path_doc (Some local_doc),
            File_Copy old_path_doc request_body, File_Close old_path_doc] @ rest3"
    by blast
  then have g: "\<exists>rest.
         snd (UploadExistingFile won_copy_exists_env team_sharing target_won local_doc request_body [])
           = ready_trace @ [VFS_FileByID (UseSharingIndexer won_indexer) ''f1~2-b'',
                            Indexer_WillResolveConflict (ready_indexer target_won) ''2-b'' [''1-z''],
                            Indexer_StashRevision (ready_indexer target_won) False,
                            VFS_CreateFile (UseSharingIndexer (ready_indexer target_won)) old_path_doc (Some local_doc),
                            File_Copy old_path_doc request_body, File_Close old_path_doc] @ rest"
    by (intro exI [of _ rest3]) simp
  from n1 obtain rest4 where
    "snd (UploadExistingFile calm_env team_sharing target_extends local_doc request_body [])
       = ready_trace
         @ [Indexer_WillResolveConflict (ready_indexer target_extends) ''2-b'' [''1-a'', ''2-b'', ''3-c'']]
         @ [Indexer_StashRevision (ready_indexer target_extends) False]
         @ [VFS_CreateFile (UseSharingIndexer (ready_indexer target_extends)) old_path_doc (Some local_doc),
            File_Copy old_path_doc request_body, File_Close old_path_doc] @ rest4"
    by blast
  then have h: "\<exists>rest.
         snd (UploadExistingFile calm_env team_sharing target_extends local_doc request_body [])
           = ready_trace @ [Indexer_WillResolveConflict (ready_indexer target_extends) ''2-b''
                              [''1-a'', ''2-b'', ''3-c''],
                            Indexer_StashRevision (ready_indexer target_extends) False,
                            VFS_CreateFile (UseSharingIndexer (ready_indexer target_extends)) old_path_doc (Some local_doc),
                            File_Copy old_path_doc request_body, File_Close old_path_doc] @ rest"
    by (intro exI [of _ rest4]) simp
  have i: "UploadExistingFile create_fails_env team_sharing target_extends local_doc request_body []
       = (Returns (Some (OtherError ''quota'')),
          ready_trace @ [Indexer_WillResolveConflict (ready_indexer target_extends) ''2-b''
                           [''1-a'', ''2-b'', ''3-c''],
                         Indexer_StashRevision (ready_indexer target_extends) False,
                         VFS_CreateFile (UseSharingIndexer (ready_indexer target_extends)) old_path_doc (Some local_doc)])"
    using n2 by simp
  from a b c d e f g h i calm_prepare [OF calm lost] calm_conflicts [OF calm] calm_lookups calm_docs
  show ?thesis by (intro conjI) (assumption | simp)+
qed

text \<open>
  C1 fails as stated when the conflict copy of the incoming revision is already there: the
  incoming document lost, \<open>UploadExistingFile\<close> succeeds, and its only calls are two
  lookups and the close of the body.  No file is created and the content is not saved.
\<close>

theorem UploadExistingFile_lost_copy_exists_saves_nothing:
  "p_detectConflict (pure copy_exists_env) (DocRev local_doc)
      (p_revsStructToChain (pure copy_exists_env) (fdr_Revisions target_lost)) = LostConflict
   \<and> UploadExistingFile copy_exists_env team_sharing target_lost local_doc request_body []
       = (Returns None,
          [Couch_Get consts_Shared ''io.cozy.files/f1'', VFS_DirByID VFS ''d2'',
           VFS_FileByID (UseSharingIndexer lost_indexer) ''f1~2-a'', Body_Close request_body])"
  by (simp add: UploadExistingFile_def UploadExistingFile_prepare_def UploadExistingFile_conflict_def
      uploadLostConflict_def conflictIndexer_def
      GetDoc_SharedRef_def GetDoc_id_def validateDocID_def
      prepareFileWithAncestors_def ResetFullpath_def Rules_at_def
      copy_exists_env_def calm_env_def plain_helpers_def calm_db_def calm_vfs_def generation_def
      team_sharing_def local_shared_def local_doc_def target_lost_def
      incoming_doc_def note_doc_def lost_indexer_def
      consts_Files_def consts_Shared_def Let_def)









end
